theory Spec2Isabelle
  imports Main "HOL-Library.Word"
begin

section \<open>Values shared by the four resources\<close>

text \<open>
  The service of \<^verbatim>\<open>main.py\<close> keeps four dictionaries (persons, addresses, fee details,
  visa statuses) and offers create, list, get and update on each. The Pydantic classes of
  \<^verbatim>\<open>models/\<close> become records, the dictionaries become association lists in insertion
  order, and every \<^verbatim>\<open>raise\<close> becomes an \<open>Inl\<close> result.

  A \<^verbatim>\<open>UUID\<close> is a 128-bit value. A \<^verbatim>\<open>datetime\<close> is a reading of the UTC clock,
  counted in microseconds. A Python \<^verbatim>\<open>str\<close> is a sequence of Unicode code points:
  a \<open>str\<close> is the list of their numbers, and \<open>lit\<close> turns a literal of ASCII
  characters into one.
\<close>

type_synonym UUID = "128 word"
type_synonym datetime = nat
type_synonym str = "nat list"

definition lit :: "string \<Rightarrow> str" where
  "lit s = map of_char s"

text \<open>
  \<open>HTTPException c\<close> is \<^verbatim>\<open>raise HTTPException(status_code=c, ...)\<close> (the detail text is
  left out). \<open>RequestValidationError\<close> is FastAPI refusing a request body before the
  endpoint function runs; \<open>ValidationError\<close> is Pydantic refusing the keyword arguments of
  a model constructor inside an endpoint function; \<open>KeyError\<close> is a dictionary lookup of
  a missing key.
\<close>

datatype error = HTTPException nat | RequestValidationError | ValidationError | KeyError

abbreviation NotFound :: error where
  "NotFound \<equiv> HTTPException 404"

abbreviation DuplicateIdentity :: error where
  "DuplicateIdentity \<equiv> HTTPException 400"

subsection \<open>Default factories\<close>

text \<open>
  The Read classes declare \<^verbatim>\<open>id: UUID = Field(default_factory=uuid4)\<close>,
  \<^verbatim>\<open>created_at: datetime = Field(default_factory=datetime.utcnow)\<close> and
  \<^verbatim>\<open>updated_at: datetime = Field(default_factory=datetime.utcnow)\<close>. Pydantic calls a
  field's factory when, and only when, the constructor receives no value for that field;
  the fields are filled in the order of their declaration. A \<open>factories\<close> value holds
  what the factories return while one object is built: one random identifier for the
  object, two successive readings of the clock, and one random identifier for the
  embedded address at each position of a person's list, used when that address comes
  without an identifier.
\<close>

record factories =
  uuid4 :: UUID
  utcnow_created :: datetime
  utcnow_updated :: datetime
  embedded_uuid4 :: "nat \<Rightarrow> UUID"

definition default_factory :: "'a \<Rightarrow> 'a option \<Rightarrow> 'a" where
  "default_factory made kw = (case kw of None \<Rightarrow> made | Some v \<Rightarrow> v)"

subsection \<open>Update payloads\<close>

text \<open>
  Every field of an Update class is \<^verbatim>\<open>Optional[T] = Field(None, ...)\<close>. Pydantic records
  which fields the request supplied: a field is \<open>Unset\<close> when the request left it out
  and \<open>Supplied v\<close> when the request gave it, where \<open>v = None\<close> is an explicit
  \<^verbatim>\<open>null\<close>. \<^verbatim>\<open>model_dump(exclude_unset=True)\<close> keeps exactly the supplied fields, and
  \<^verbatim>\<open>stored.update(...)\<close> overwrites their keys; \<open>dict_update\<close> is that step for one
  key of \<^verbatim>\<open>stored\<close>.
\<close>

datatype 'a field = Unset | Supplied "'a option"

definition dict_update :: "'a option \<Rightarrow> 'a field \<Rightarrow> 'a option" where
  "dict_update stored f = (case f of Unset \<Rightarrow> stored | Supplied v \<Rightarrow> v)"

subsection \<open>Dictionaries\<close>

text \<open>
  A Python \<^verbatim>\<open>dict\<close> iterates in the order in which its keys were first inserted, and
  assigning to a key that is present keeps the key's place.
\<close>

type_synonym ('k, 'v) dict = "('k \<times> 'v) list"

definition dict_contains :: "('k, 'v) dict \<Rightarrow> 'k \<Rightarrow> bool" where
  "dict_contains d k = (k \<in> set (map fst d))"

definition dict_getitem :: "('k, 'v) dict \<Rightarrow> 'k \<Rightarrow> error + 'v" where
  "dict_getitem d k = (case map_of d k of None \<Rightarrow> Inl KeyError | Some v \<Rightarrow> Inr v)"

fun dict_setitem :: "('k, 'v) dict \<Rightarrow> 'k \<Rightarrow> 'v \<Rightarrow> ('k, 'v) dict" where
  "dict_setitem [] k v = [(k, v)]"
| "dict_setitem ((k', v') # d) k v =
     (if k' = k then (k, v) # d else (k', v') # dict_setitem d k v)"

definition dict_values :: "('k, 'v) dict \<Rightarrow> 'v list" where
  "dict_values d = map snd d"

text \<open>
  One filtering step of a list endpoint:
  \<^verbatim>\<open>if q is not None: results = [r for r in results if P]\<close>.
\<close>

definition only_if :: "'q option \<Rightarrow> ('q \<Rightarrow> 'r \<Rightarrow> bool) \<Rightarrow> 'r list \<Rightarrow> 'r list" where
  "only_if q P results = (case q of None \<Rightarrow> results | Some v \<Rightarrow> filter (P v) results)"

subsection \<open>Dates\<close>

text \<open>
  \<^verbatim>\<open>str(d)\<close> of a \<^verbatim>\<open>datetime.date\<close> is its ISO form \<^verbatim>\<open>%04d-%02d-%02d\<close>;
  \<^verbatim>\<open>str(None)\<close> is the text \<^verbatim>\<open>None\<close>. The digit \<open>n\<close> is the code point
  \<open>48 + n\<close> and the hyphen is 45.
\<close>

record date =
  year :: nat
  month :: nat
  day :: nat

definition digit_char :: "nat \<Rightarrow> nat" where
  "digit_char n = 48 + n"

fun decimal :: "nat \<Rightarrow> str" where
  "decimal n = (if n < 10 then [digit_char n] else decimal (n div 10) @ [digit_char (n mod 10)])"

definition zfill :: "nat \<Rightarrow> str \<Rightarrow> str" where
  "zfill w s = replicate (w - length s) 48 @ s"

definition isoformat :: "date \<Rightarrow> str" where
  "isoformat d =
     zfill 4 (decimal (year d)) @ [45] @ zfill 2 (decimal (month d)) @ [45] @
     zfill 2 (decimal (day d))"

definition str_date :: "date option \<Rightarrow> str" where
  "str_date v = (case v of None \<Rightarrow> lit ''None'' | Some d \<Rightarrow> isoformat d)"

section \<open>The pattern of a UNI\<close>

text \<open>
  \<^verbatim>\<open>UNIType = Annotated[str, StringConstraints(pattern=r"^[a-z]{2,3}\d{1,4}$")]\<close>.
  The pattern is kept as a syntax tree and run by a matcher: \<open>regex_run r s\<close> lists what
  is left of \<open>s\<close> after each way of matching \<open>r\<close> at its start. The anchors make the
  match start at the first character and leave nothing over.

  The class \<^verbatim>\<open>\d\<close> of the pattern is Unicode-aware: it holds the decimal digits of
  every script (general category Nd), of which the ASCII digits are the first ten. The
  digits of a script are ten consecutive code points; \<open>Nd_starts\<close> lists the code point of
  the zero of each (Unicode 14).
\<close>

definition Nd_starts :: "nat list" where
  "Nd_starts =
     [48, 1632, 1776, 1984, 2406, 2534, 2662, 2790, 2918, 3046, 3174, 3302, 3430, 3558, 3664,
      3792, 3872, 4160, 4240, 6112, 6160, 6470, 6608, 6784, 6800, 6992, 7088, 7232, 7248,
      42528, 43216, 43264, 43472, 43504, 43600, 44016, 65296, 66720, 68912, 69734, 69872,
      69942, 70096, 70384, 70736, 70864, 71248, 71360, 71472, 71904, 72016, 72784, 73040,
      73120, 92768, 92864, 93008, 120782, 120792, 120802, 120812, 120822, 123200, 123632,
      125264, 130032]"

definition unicode_Nd :: "nat \<Rightarrow> bool" where
  "unicode_Nd c = list_ex (\<lambda>zero. zero \<le> c \<and> c < zero + 10) Nd_starts"

datatype regex =
  Range nat nat
  | Digit
  | Seq regex regex
  | Repeat nat nat regex

definition in_range :: "nat \<Rightarrow> nat \<Rightarrow> nat \<Rightarrow> bool" where
  "in_range lo hi c = (lo \<le> c \<and> c \<le> hi)"

definition one_char :: "(nat \<Rightarrow> bool) \<Rightarrow> str \<Rightarrow> str list" where
  "one_char P s = (case s of [] \<Rightarrow> [] | c # cs \<Rightarrow> if P c then [cs] else [])"

fun repeat_run :: "(str \<Rightarrow> str list) \<Rightarrow> nat \<Rightarrow> nat \<Rightarrow> str \<Rightarrow> str list" where
  "repeat_run f m 0 s = (if m = 0 then [s] else [])"
| "repeat_run f m (Suc n) s =
     (if m = 0 then [s] else []) @ concat (map (repeat_run f (m - 1) n) (f s))"

primrec regex_run :: "regex \<Rightarrow> str \<Rightarrow> str list" where
  "regex_run (Range lo hi) = one_char (in_range lo hi)"
| "regex_run Digit = one_char unicode_Nd"
| "regex_run (Seq a b) = (\<lambda>s. concat (map (regex_run b) (regex_run a s)))"
| "regex_run (Repeat m n r) = repeat_run (regex_run r) m n"

text \<open>The letters \<^verbatim>\<open>a\<close> and \<^verbatim>\<open>z\<close> are the code points 97 and 122.\<close>

definition UNI_pattern :: regex where
  "UNI_pattern = Seq (Repeat 2 3 (Range 97 122)) (Repeat 1 4 Digit)"

definition UNIType :: "str \<Rightarrow> bool" where
  "UNIType s = ([] \<in> set (regex_run UNI_pattern s))"

section \<open>The models\<close>

subsection \<open>Address\<close>

text \<open>
  Modelled from the spec: the classes \<^verbatim>\<open>AddressBase\<close>, \<^verbatim>\<open>AddressCreate\<close>,
  \<^verbatim>\<open>AddressUpdate\<close> and \<^verbatim>\<open>AddressRead\<close> of \<^verbatim>\<open>models/address.py\<close>, which
  \<^verbatim>\<open>main.py\<close> and \<^verbatim>\<open>models/person.py\<close> import. An address has the five text
  fields street, city, state, postal_code and country, all required on create; the Base
  and Create shapes carry the identifier (\<^verbatim>\<open>create_address\<close> reads \<^verbatim>\<open>address.id\<close>,
  and the addresses embedded in a person carry their own), which the client may choose
  and which is generated when the request leaves it out; the Update shape has the five
  text fields, all optional; the Read shape adds the two timestamps.
\<close>

record AddressBase =
  id :: UUID
  street :: str
  city :: str
  state :: str
  postal_code :: str
  country :: str

type_synonym AddressCreate = AddressBase

record AddressUpdate =
  street :: "str field"
  city :: "str field"
  state :: "str field"
  postal_code :: "str field"
  country :: "str field"

record AddressRead = AddressBase +
  created_at :: datetime
  updated_at :: datetime

text \<open>
  Modelled from the spec: the construction \<^verbatim>\<open>AddressRead(**kwargs)\<close>. Each argument is
  one keyword. For the text fields \<open>None\<close> is the Python value \<^verbatim>\<open>None\<close>, which a
  required text field refuses; for the identifier and the timestamps \<open>None\<close> means that
  the keyword is missing. A created address has
  \<^verbatim>\<open>created_at = updated_at = now\<close>: when the timestamps are missing both are filled
  with the same reading of the clock, the first of the factories.
\<close>

definition AddressRead_init ::
  "factories \<Rightarrow> UUID option \<Rightarrow> str option \<Rightarrow> str option \<Rightarrow> str option \<Rightarrow>
   str option \<Rightarrow> str option \<Rightarrow> datetime option \<Rightarrow> datetime option \<Rightarrow> error + AddressRead" where
  "AddressRead_init fac kw_id kw_street kw_city kw_state kw_postal_code kw_country
       kw_created_at kw_updated_at =
     (case (kw_street, kw_city, kw_state, kw_postal_code, kw_country) of
        (Some st, Some ci, Some sa, Some pc, Some co) \<Rightarrow>
          Inr \<lparr> AddressBase.id = default_factory (uuid4 fac) kw_id,
                AddressBase.street = st, AddressBase.city = ci, AddressBase.state = sa,
                AddressBase.postal_code = pc, AddressBase.country = co,
                AddressRead.created_at = default_factory (utcnow_created fac) kw_created_at,
                AddressRead.updated_at = default_factory (utcnow_created fac) kw_updated_at \<rparr>
      | _ \<Rightarrow> Inl ValidationError)"

text \<open>
  Modelled from the spec: an \<^verbatim>\<open>AddressBase\<close> inside a person, as a dictionary of
  keywords. The identifier is the one field with a default: it is \<open>None\<close> when the
  keyword is missing. \<^verbatim>\<open>model_dump()\<close> of an address yields every field;
  \<^verbatim>\<open>model_dump(exclude_unset=True)\<close> of an address that a request sent without an
  identifier yields the five text fields only, so an \<^verbatim>\<open>AddressBase\<close> inside an update
  payload is kept in this form. \<^verbatim>\<open>AddressBase(**kwargs)\<close> fills a missing identifier
  from its factory.
\<close>

record AddressBase_parsed =
  id :: "UUID option"
  street :: str
  city :: str
  state :: str
  postal_code :: str
  country :: str

definition model_dump_address :: "AddressBase \<Rightarrow> AddressBase_parsed" where
  "model_dump_address a =
     \<lparr> AddressBase_parsed.id = Some (AddressBase.id a),
       AddressBase_parsed.street = AddressBase.street a,
       AddressBase_parsed.city = AddressBase.city a,
       AddressBase_parsed.state = AddressBase.state a,
       AddressBase_parsed.postal_code = AddressBase.postal_code a,
       AddressBase_parsed.country = AddressBase.country a \<rparr>"

definition AddressBase_init :: "UUID \<Rightarrow> AddressBase_parsed \<Rightarrow> AddressBase" where
  "AddressBase_init made kw =
     \<lparr> AddressBase.id = default_factory made (AddressBase_parsed.id kw),
       AddressBase.street = AddressBase_parsed.street kw,
       AddressBase.city = AddressBase_parsed.city kw,
       AddressBase.state = AddressBase_parsed.state kw,
       AddressBase.postal_code = AddressBase_parsed.postal_code kw,
       AddressBase.country = AddressBase_parsed.country kw \<rparr>"

text \<open>
  The validation of the keyword \<^verbatim>\<open>addresses\<close>, a list of such dictionaries: the
  address at position \<open>k\<close> that comes without an identifier gets the identifier that
  the factory makes for that position.
\<close>

definition embedded_addresses :: "factories \<Rightarrow> AddressBase_parsed list \<Rightarrow> AddressBase list" where
  "embedded_addresses fac kws =
     map (\<lambda>(k, kw). AddressBase_init (embedded_uuid4 fac k) kw) (enumerate 0 kws)"

subsection \<open>Person\<close>

record PersonBase =
  uni :: str
  first_name :: str
  last_name :: str
  email :: str
  phone :: "str option"
  birth_date :: "date option"
  addresses :: "AddressBase list"

type_synonym PersonCreate = PersonBase

record PersonUpdate =
  uni :: "str field"
  first_name :: "str field"
  last_name :: "str field"
  email :: "str field"
  phone :: "str field"
  birth_date :: "date field"
  addresses :: "AddressBase_parsed list field"

record PersonRead = PersonBase +
  id :: UUID
  created_at :: datetime
  updated_at :: datetime

text \<open>
  \<^verbatim>\<open>PersonRead(**kwargs)\<close>. The parameter \<open>EmailStr\<close> is the validator of the
  \<^verbatim>\<open>EmailStr\<close> type of Pydantic, whose grammar belongs to a library outside the
  repository: it refuses a string (\<open>None\<close>) or returns the normalised address, and the
  normalised address is what the field holds. The fields \<^verbatim>\<open>phone\<close> and
  \<^verbatim>\<open>birth_date\<close> are \<^verbatim>\<open>Optional\<close> and take \<^verbatim>\<open>None\<close>; the other five refuse it.
\<close>

definition PersonRead_init ::
  "(str \<Rightarrow> str option) \<Rightarrow> factories \<Rightarrow> str option \<Rightarrow> str option \<Rightarrow> str option \<Rightarrow>
   str option \<Rightarrow> str option \<Rightarrow> date option \<Rightarrow> AddressBase_parsed list option \<Rightarrow>
   UUID option \<Rightarrow> datetime option \<Rightarrow> datetime option \<Rightarrow> error + PersonRead" where
  "PersonRead_init EmailStr fac kw_uni kw_first_name kw_last_name kw_email kw_phone
       kw_birth_date kw_addresses kw_id kw_created_at kw_updated_at =
     (case (kw_uni, kw_first_name, kw_last_name, kw_email, kw_addresses) of
        (Some u, Some fn, Some ln, Some em, Some ads) \<Rightarrow>
          (case (UNIType u, EmailStr em) of
             (True, Some normalised) \<Rightarrow>
               Inr \<lparr> PersonBase.uni = u, PersonBase.first_name = fn,
                     PersonBase.last_name = ln, PersonBase.email = normalised,
                     PersonBase.phone = kw_phone, PersonBase.birth_date = kw_birth_date,
                     PersonBase.addresses = embedded_addresses fac ads,
                     PersonRead.id = default_factory (uuid4 fac) kw_id,
                     PersonRead.created_at = default_factory (utcnow_created fac) kw_created_at,
                     PersonRead.updated_at = default_factory (utcnow_updated fac) kw_updated_at \<rparr>
           | _ \<Rightarrow> Inl ValidationError)
      | _ \<Rightarrow> Inl ValidationError)"

subsection \<open>FeeDetails\<close>

record FeeDetailsBase =
  university_name :: str
  number_of_credits :: int
  fee_paid :: bool

type_synonym FeeDetailsCreate = FeeDetailsBase

record FeeDetailsUpdate =
  university_name :: "str field"
  number_of_credits :: "int field"
  fee_paid :: "bool field"

record FeeDetailsRead = FeeDetailsBase +
  id :: UUID
  created_at :: datetime
  updated_at :: datetime

definition FeeDetailsRead_init ::
  "factories \<Rightarrow> str option \<Rightarrow> int option \<Rightarrow> bool option \<Rightarrow>
   UUID option \<Rightarrow> datetime option \<Rightarrow> datetime option \<Rightarrow> error + FeeDetailsRead" where
  "FeeDetailsRead_init fac kw_university_name kw_number_of_credits kw_fee_paid
       kw_id kw_created_at kw_updated_at =
     (case (kw_university_name, kw_number_of_credits, kw_fee_paid) of
        (Some un, Some nc, Some fp) \<Rightarrow>
          Inr \<lparr> FeeDetailsBase.university_name = un, FeeDetailsBase.number_of_credits = nc,
                FeeDetailsBase.fee_paid = fp,
                FeeDetailsRead.id = default_factory (uuid4 fac) kw_id,
                FeeDetailsRead.created_at = default_factory (utcnow_created fac) kw_created_at,
                FeeDetailsRead.updated_at = default_factory (utcnow_updated fac) kw_updated_at \<rparr>
      | _ \<Rightarrow> Inl ValidationError)"

subsection \<open>VisaStatus\<close>

record VisaStatusBase =
  visa_status :: str

type_synonym VisaStatusCreate = VisaStatusBase

record VisaStatusUpdate =
  visa_status :: "str field"

record VisaStatusRead = VisaStatusBase +
  id :: UUID
  created_at :: datetime
  updated_at :: datetime

definition VisaStatusRead_init ::
  "factories \<Rightarrow> str option \<Rightarrow> UUID option \<Rightarrow> datetime option \<Rightarrow> datetime option \<Rightarrow>
   error + VisaStatusRead" where
  "VisaStatusRead_init fac kw_visa_status kw_id kw_created_at kw_updated_at =
     (case kw_visa_status of
        Some vs \<Rightarrow>
          Inr \<lparr> VisaStatusBase.visa_status = vs,
                VisaStatusRead.id = default_factory (uuid4 fac) kw_id,
                VisaStatusRead.created_at = default_factory (utcnow_created fac) kw_created_at,
                VisaStatusRead.updated_at = default_factory (utcnow_updated fac) kw_updated_at \<rparr>
      | None \<Rightarrow> Inl ValidationError)"

section \<open>The endpoints of main.py\<close>

text \<open>The four module-level dictionaries, empty when the process starts.\<close>

record databases =
  persons :: "(UUID, PersonRead) dict"
  addresses :: "(UUID, AddressRead) dict"
  fee_details :: "(UUID, FeeDetailsRead) dict"
  visa_statuses :: "(UUID, VisaStatusRead) dict"

definition startup :: databases where
  "startup = \<lparr> databases.persons = [], databases.addresses = [],
               databases.fee_details = [], databases.visa_statuses = [] \<rparr>"

subsection \<open>Address endpoints\<close>

text \<open>
  Every endpoint takes the dictionaries and returns them with its result. The endpoints
  that build a Read object also take the \<open>factories\<close> of that construction.
  \<^verbatim>\<open>M(**x.model_dump())\<close> passes every field of \<open>x\<close> as a keyword;
  \<^verbatim>\<open>stored = d[k].model_dump(); stored.update(update.model_dump(exclude_unset=True));
  M(**stored)\<close> passes every field of the stored record, overwritten where the update
  supplies the field. Both dumps go into the embedded addresses of a person: the stored
  addresses are dumped with their identifiers, the addresses of an update payload without
  the identifiers that the request did not send.
\<close>

definition create_address ::
  "factories \<Rightarrow> AddressCreate \<Rightarrow> databases \<Rightarrow> (error + AddressRead) \<times> databases" where
  "create_address fac address db =
     (if dict_contains (databases.addresses db) (AddressBase.id address)
      then (Inl (HTTPException 400), db)
      else
        case AddressRead_init fac (Some (AddressBase.id address))
               (Some (AddressBase.street address)) (Some (AddressBase.city address))
               (Some (AddressBase.state address)) (Some (AddressBase.postal_code address))
               (Some (AddressBase.country address)) None None of
          Inl e \<Rightarrow> (Inl e, db)
        | Inr r \<Rightarrow>
            (let db' = db\<lparr> databases.addresses :=
                         dict_setitem (databases.addresses db) (AddressBase.id address) r \<rparr>
             in (dict_getitem (databases.addresses db') (AddressBase.id address), db')))"

definition list_addresses ::
  "str option \<Rightarrow> str option \<Rightarrow> str option \<Rightarrow> str option \<Rightarrow> str option \<Rightarrow>
   databases \<Rightarrow> AddressRead list" where
  "list_addresses street' city' state' postal_code' country' db =
     (let results = dict_values (databases.addresses db);
          results = only_if street' (\<lambda>v a. AddressBase.street a = v) results;
          results = only_if city' (\<lambda>v a. AddressBase.city a = v) results;
          results = only_if state' (\<lambda>v a. AddressBase.state a = v) results;
          results = only_if postal_code' (\<lambda>v a. AddressBase.postal_code a = v) results;
          results = only_if country' (\<lambda>v a. AddressBase.country a = v) results
      in results)"

definition get_address :: "UUID \<Rightarrow> databases \<Rightarrow> error + AddressRead" where
  "get_address address_id db =
     (if \<not> dict_contains (databases.addresses db) address_id then Inl (HTTPException 404)
      else dict_getitem (databases.addresses db) address_id)"

definition update_address ::
  "factories \<Rightarrow> UUID \<Rightarrow> AddressUpdate \<Rightarrow> databases \<Rightarrow> (error + AddressRead) \<times> databases" where
  "update_address fac address_id update db =
     (if \<not> dict_contains (databases.addresses db) address_id
      then (Inl (HTTPException 404), db)
      else
        case dict_getitem (databases.addresses db) address_id of
          Inl e \<Rightarrow> (Inl e, db)
        | Inr a \<Rightarrow>
            (case AddressRead_init fac (Some (AddressBase.id a))
                    (dict_update (Some (AddressBase.street a)) (AddressUpdate.street update))
                    (dict_update (Some (AddressBase.city a)) (AddressUpdate.city update))
                    (dict_update (Some (AddressBase.state a)) (AddressUpdate.state update))
                    (dict_update (Some (AddressBase.postal_code a))
                       (AddressUpdate.postal_code update))
                    (dict_update (Some (AddressBase.country a)) (AddressUpdate.country update))
                    (Some (AddressRead.created_at a)) (Some (AddressRead.updated_at a)) of
               Inl e \<Rightarrow> (Inl e, db)
             | Inr r \<Rightarrow>
                 (let db' = db\<lparr> databases.addresses :=
                              dict_setitem (databases.addresses db) address_id r \<rparr>
                  in (dict_getitem (databases.addresses db') address_id, db'))))"

subsection \<open>Person endpoints\<close>

definition create_person ::
  "(str \<Rightarrow> str option) \<Rightarrow> factories \<Rightarrow> PersonCreate \<Rightarrow> databases \<Rightarrow>
   (error + PersonRead) \<times> databases" where
  "create_person EmailStr fac person db =
     (case PersonRead_init EmailStr fac (Some (PersonBase.uni person))
             (Some (PersonBase.first_name person)) (Some (PersonBase.last_name person))
             (Some (PersonBase.email person)) (PersonBase.phone person)
             (PersonBase.birth_date person)
             (Some (map model_dump_address (PersonBase.addresses person)))
             None None None of
        Inl e \<Rightarrow> (Inl e, db)
      | Inr person_read \<Rightarrow>
          (Inr person_read,
           db\<lparr> databases.persons :=
                 dict_setitem (databases.persons db) (PersonRead.id person_read) person_read \<rparr>))"

definition list_persons ::
  "str option \<Rightarrow> str option \<Rightarrow> str option \<Rightarrow> str option \<Rightarrow> str option \<Rightarrow>
   str option \<Rightarrow> str option \<Rightarrow> str option \<Rightarrow> databases \<Rightarrow> PersonRead list" where
  "list_persons uni' first_name' last_name' email' phone' birth_date' city' country' db =
     (let results = dict_values (databases.persons db);
          results = only_if uni' (\<lambda>v p. PersonBase.uni p = v) results;
          results = only_if first_name' (\<lambda>v p. PersonBase.first_name p = v) results;
          results = only_if last_name' (\<lambda>v p. PersonBase.last_name p = v) results;
          results = only_if email' (\<lambda>v p. PersonBase.email p = v) results;
          results = only_if phone' (\<lambda>v p. PersonBase.phone p = Some v) results;
          results = only_if birth_date' (\<lambda>v p. str_date (PersonBase.birth_date p) = v) results;
          results = only_if city'
                      (\<lambda>v p. list_ex (\<lambda>addr. AddressBase.city addr = v) (PersonBase.addresses p))
                      results;
          results = only_if country'
                      (\<lambda>v p. list_ex (\<lambda>addr. AddressBase.country addr = v)
                                (PersonBase.addresses p))
                      results
      in results)"

definition get_person :: "UUID \<Rightarrow> databases \<Rightarrow> error + PersonRead" where
  "get_person person_id db =
     (if \<not> dict_contains (databases.persons db) person_id then Inl (HTTPException 404)
      else dict_getitem (databases.persons db) person_id)"

definition update_person ::
  "(str \<Rightarrow> str option) \<Rightarrow> factories \<Rightarrow> UUID \<Rightarrow> PersonUpdate \<Rightarrow> databases \<Rightarrow>
   (error + PersonRead) \<times> databases" where
  "update_person EmailStr fac person_id update db =
     (if \<not> dict_contains (databases.persons db) person_id
      then (Inl (HTTPException 404), db)
      else
        case dict_getitem (databases.persons db) person_id of
          Inl e \<Rightarrow> (Inl e, db)
        | Inr p \<Rightarrow>
            (case PersonRead_init EmailStr fac
                    (dict_update (Some (PersonBase.uni p)) (PersonUpdate.uni update))
                    (dict_update (Some (PersonBase.first_name p))
                       (PersonUpdate.first_name update))
                    (dict_update (Some (PersonBase.last_name p)) (PersonUpdate.last_name update))
                    (dict_update (Some (PersonBase.email p)) (PersonUpdate.email update))
                    (dict_update (PersonBase.phone p) (PersonUpdate.phone update))
                    (dict_update (PersonBase.birth_date p) (PersonUpdate.birth_date update))
                    (dict_update (Some (map model_dump_address (PersonBase.addresses p)))
                       (PersonUpdate.addresses update))
                    (Some (PersonRead.id p)) (Some (PersonRead.created_at p))
                    (Some (PersonRead.updated_at p)) of
               Inl e \<Rightarrow> (Inl e, db)
             | Inr r \<Rightarrow>
                 (let db' = db\<lparr> databases.persons :=
                              dict_setitem (databases.persons db) person_id r \<rparr>
                  in (dict_getitem (databases.persons db') person_id, db'))))"


definition PersonUpdate_validate ::
  "(str \<Rightarrow> str option) \<Rightarrow> PersonUpdate \<Rightarrow> error + PersonUpdate" where
  "PersonUpdate_validate EmailStr body =
     (if (case PersonUpdate.uni body of Supplied (Some u) \<Rightarrow> UNIType u | _ \<Rightarrow> True) then
        (case PersonUpdate.email body of
           Supplied (Some e) \<Rightarrow>
             (case EmailStr e of
                None \<Rightarrow> Inl RequestValidationError
              | Some normalised \<Rightarrow>
                  Inr (body\<lparr> PersonUpdate.email := Supplied (Some normalised) \<rparr>))
         | _ \<Rightarrow> Inr body)
      else Inl RequestValidationError)"


definition patch_persons ::
  "(str \<Rightarrow> str option) \<Rightarrow> factories \<Rightarrow> UUID \<Rightarrow> PersonUpdate \<Rightarrow> databases \<Rightarrow>
   (error + PersonRead) \<times> databases" where
  "patch_persons EmailStr fac person_id body db =
     (case PersonUpdate_validate EmailStr body of
        Inl e \<Rightarrow> (Inl e, db)
      | Inr update \<Rightarrow> update_person EmailStr fac person_id update db)"

subsection \<open>FeeDetails endpoints\<close>

definition create_fee_details ::
  "factories \<Rightarrow> FeeDetailsCreate \<Rightarrow> databases \<Rightarrow> (error + FeeDetailsRead) \<times> databases" where
  "create_fee_details fac fee db =
     (case FeeDetailsRead_init fac (Some (FeeDetailsBase.university_name fee))
             (Some (FeeDetailsBase.number_of_credits fee)) (Some (FeeDetailsBase.fee_paid fee))
             None None None of
        Inl e \<Rightarrow> (Inl e, db)
      | Inr fee_read \<Rightarrow>
          (Inr fee_read,
           db\<lparr> databases.fee_details :=
                 dict_setitem (databases.fee_details db) (FeeDetailsRead.id fee_read) fee_read \<rparr>))"

definition list_fee_details ::
  "str option \<Rightarrow> bool option \<Rightarrow> databases \<Rightarrow> FeeDetailsRead list" where
  "list_fee_details university_name' fee_paid' db =
     (let results = dict_values (databases.fee_details db);
          results = only_if university_name' (\<lambda>v f. FeeDetailsBase.university_name f = v) results;
          results = only_if fee_paid' (\<lambda>v f. FeeDetailsBase.fee_paid f = v) results
      in results)"

definition get_fee_details :: "UUID \<Rightarrow> databases \<Rightarrow> error + FeeDetailsRead" where
  "get_fee_details fee_id db =
     (if \<not> dict_contains (databases.fee_details db) fee_id then Inl (HTTPException 404)
      else dict_getitem (databases.fee_details db) fee_id)"

definition update_fee_details ::
  "factories \<Rightarrow> UUID \<Rightarrow> FeeDetailsUpdate \<Rightarrow> databases \<Rightarrow>
   (error + FeeDetailsRead) \<times> databases" where
  "update_fee_details fac fee_id update db =
     (if \<not> dict_contains (databases.fee_details db) fee_id
      then (Inl (HTTPException 404), db)
      else
        case dict_getitem (databases.fee_details db) fee_id of
          Inl e \<Rightarrow> (Inl e, db)
        | Inr f \<Rightarrow>
            (case FeeDetailsRead_init fac
                    (dict_update (Some (FeeDetailsBase.university_name f))
                       (FeeDetailsUpdate.university_name update))
                    (dict_update (Some (FeeDetailsBase.number_of_credits f))
                       (FeeDetailsUpdate.number_of_credits update))
                    (dict_update (Some (FeeDetailsBase.fee_paid f))
                       (FeeDetailsUpdate.fee_paid update))
                    (Some (FeeDetailsRead.id f)) (Some (FeeDetailsRead.created_at f))
                    (Some (FeeDetailsRead.updated_at f)) of
               Inl e \<Rightarrow> (Inl e, db)
             | Inr r \<Rightarrow>
                 (let db' = db\<lparr> databases.fee_details :=
                              dict_setitem (databases.fee_details db) fee_id r \<rparr>
                  in (dict_getitem (databases.fee_details db') fee_id, db'))))"

subsection \<open>VisaStatus endpoints\<close>

definition create_visa_status ::
  "factories \<Rightarrow> VisaStatusCreate \<Rightarrow> databases \<Rightarrow> (error + VisaStatusRead) \<times> databases" where
  "create_visa_status fac visa db =
     (case VisaStatusRead_init fac (Some (VisaStatusBase.visa_status visa)) None None None of
        Inl e \<Rightarrow> (Inl e, db)
      | Inr visa_read \<Rightarrow>
          (Inr visa_read,
           db\<lparr> databases.visa_statuses :=
                 dict_setitem (databases.visa_statuses db) (VisaStatusRead.id visa_read)
                   visa_read \<rparr>))"

definition list_visa_statuses :: "str option \<Rightarrow> databases \<Rightarrow> VisaStatusRead list" where
  "list_visa_statuses visa_status' db =
     (let results = dict_values (databases.visa_statuses db);
          results = only_if visa_status' (\<lambda>v r. VisaStatusBase.visa_status r = v) results
      in results)"

definition get_visa_status :: "UUID \<Rightarrow> databases \<Rightarrow> error + VisaStatusRead" where
  "get_visa_status visa_id db =
     (if \<not> dict_contains (databases.visa_statuses db) visa_id then Inl (HTTPException 404)
      else dict_getitem (databases.visa_statuses db) visa_id)"

definition update_visa_status ::
  "factories \<Rightarrow> UUID \<Rightarrow> VisaStatusUpdate \<Rightarrow> databases \<Rightarrow>
   (error + VisaStatusRead) \<times> databases" where
  "update_visa_status fac visa_id update db =
     (if \<not> dict_contains (databases.visa_statuses db) visa_id
      then (Inl (HTTPException 404), db)
      else
        case dict_getitem (databases.visa_statuses db) visa_id of
          Inl e \<Rightarrow> (Inl e, db)
        | Inr v \<Rightarrow>
            (case VisaStatusRead_init fac
                    (dict_update (Some (VisaStatusBase.visa_status v))
                       (VisaStatusUpdate.visa_status update))
                    (Some (VisaStatusRead.id v)) (Some (VisaStatusRead.created_at v))
                    (Some (VisaStatusRead.updated_at v)) of
               Inl e \<Rightarrow> (Inl e, db)
             | Inr r \<Rightarrow>
                 (let db' = db\<lparr> databases.visa_statuses :=
                              dict_setitem (databases.visa_statuses db) visa_id r \<rparr>
                  in (dict_getitem (databases.visa_statuses db') visa_id, db'))))"

section \<open>Notions used by the properties\<close>

text \<open>
  The sentence of the specification about a UNI, in its own words: two or three lowercase
  ASCII letters followed by one to four digits, and nothing else. \<open>letters_then P\<close>
  takes the class of the digits as \<open>P\<close>; \<open>letters_then_digits\<close> is the sentence with
  the digits 0 to 9.
\<close>

definition lowercase_letter :: "nat \<Rightarrow> bool" where
  "lowercase_letter c = (97 \<le> c \<and> c \<le> 122)"

definition ascii_digit :: "nat \<Rightarrow> bool" where
  "ascii_digit c = (48 \<le> c \<and> c \<le> 57)"

definition letters_then :: "(nat \<Rightarrow> bool) \<Rightarrow> str \<Rightarrow> bool" where
  "letters_then P s =
     (\<exists>letters digits. s = letters @ digits \<and>
        2 \<le> length letters \<and> length letters \<le> 3 \<and> list_all lowercase_letter letters \<and>
        1 \<le> length digits \<and> length digits \<le> 4 \<and> list_all P digits)"


text \<open>
  What a partial update promises for one field: a field the payload leaves out keeps the
  stored value, a field the payload supplies takes the payload's value. The second form
  is for the two \<^verbatim>\<open>Optional\<close> fields of a person, whose stored value may be
  \<^verbatim>\<open>None\<close>.
\<close>

definition overwritten :: "'a field \<Rightarrow> 'a \<Rightarrow> 'a \<Rightarrow> bool" where
  "overwritten f old new = (case f of Unset \<Rightarrow> new = old | Supplied v \<Rightarrow> v = Some new)"

definition overwritten_optional :: "'a field \<Rightarrow> 'a option \<Rightarrow> 'a option \<Rightarrow> bool" where
  "overwritten_optional f old new = (case f of Unset \<Rightarrow> new = old | Supplied v \<Rightarrow> new = v)"

text \<open>
  The same for the addresses of a person. A stored address is the address as sent when
  it has the five text fields of the one sent and, where the request sent an identifier,
  that identifier. The supplied list replaces the stored one when the stored list is, in
  length and order, the list as sent.
\<close>

definition sent_as :: "AddressBase_parsed \<Rightarrow> AddressBase \<Rightarrow> bool" where
  "sent_as sent a =
     (AddressBase.street a = AddressBase_parsed.street sent \<and>
      AddressBase.city a = AddressBase_parsed.city sent \<and>
      AddressBase.state a = AddressBase_parsed.state sent \<and>
      AddressBase.postal_code a = AddressBase_parsed.postal_code sent \<and>
      AddressBase.country a = AddressBase_parsed.country sent \<and>
      (case AddressBase_parsed.id sent of None \<Rightarrow> True | Some i \<Rightarrow> AddressBase.id a = i))"

definition addresses_overwritten ::
  "AddressBase_parsed list field \<Rightarrow> AddressBase list \<Rightarrow> AddressBase list \<Rightarrow> bool" where
  "addresses_overwritten f old new =
     (case f of
        Unset \<Rightarrow> new = old
      | Supplied v \<Rightarrow> (case v of None \<Rightarrow> False | Some sent \<Rightarrow> list_all2 sent_as sent new))"

text \<open>
  The payloads and records that pass the two validators of a person. A stored person
  holds a UNI that matches the pattern and an e-mail in the normalised form, which
  \<^verbatim>\<open>EmailStr\<close> returns as it is. An update payload that went through the validation
  of the request holds, where it supplies them, such a UNI and such an e-mail. A
  validator is \<open>normalising\<close> when what it returns is in its normalised form.
\<close>

definition normalised_by :: "(str \<Rightarrow> str option) \<Rightarrow> str \<Rightarrow> bool" where
  "normalised_by EmailStr e = (EmailStr e = Some e)"

definition supplied_is :: "('a \<Rightarrow> bool) \<Rightarrow> 'a field \<Rightarrow> bool" where
  "supplied_is P f =
     (case f of Unset \<Rightarrow> True | Supplied v \<Rightarrow> (case v of None \<Rightarrow> True | Some x \<Rightarrow> P x))"

definition stored_valid :: "(str \<Rightarrow> str option) \<Rightarrow> PersonRead \<Rightarrow> bool" where
  "stored_valid EmailStr p =
     (UNIType (PersonBase.uni p) \<and> normalised_by EmailStr (PersonBase.email p))"

definition update_valid :: "(str \<Rightarrow> str option) \<Rightarrow> PersonUpdate \<Rightarrow> bool" where
  "update_valid EmailStr u =
     (supplied_is UNIType (PersonUpdate.uni u) \<and>
      supplied_is (normalised_by EmailStr) (PersonUpdate.email u))"

definition normalising :: "(str \<Rightarrow> str option) \<Rightarrow> bool" where
  "normalising EmailStr = (\<forall>e n. EmailStr e = Some n \<longrightarrow> EmailStr n = Some n)"

text \<open>
  What a list request promises for one record: an omitted filter imposes nothing, a
  supplied filter is exact equality on the named field. For a person, city and country
  look for one embedded address with that value, and the date of birth is compared
  through the canonical text of the date.
\<close>

definition selected :: "'q option \<Rightarrow> 'q \<Rightarrow> bool" where
  "selected q x = (case q of None \<Rightarrow> True | Some v \<Rightarrow> x = v)"

definition selected_date :: "str option \<Rightarrow> date option \<Rightarrow> bool" where
  "selected_date q x =
     (case q of None \<Rightarrow> True
      | Some v \<Rightarrow> (case x of None \<Rightarrow> False | Some d \<Rightarrow> isoformat d = v))"

definition selected_any :: "'q option \<Rightarrow> ('a \<Rightarrow> 'q) \<Rightarrow> 'a list \<Rightarrow> bool" where
  "selected_any q f xs = (case q of None \<Rightarrow> True | Some v \<Rightarrow> list_ex (\<lambda>x. f x = v) xs)"

definition address_selected ::
  "str option \<Rightarrow> str option \<Rightarrow> str option \<Rightarrow> str option \<Rightarrow> str option \<Rightarrow>
   AddressRead \<Rightarrow> bool" where
  "address_selected street' city' state' postal_code' country' a =
     (selected street' (AddressBase.street a) \<and> selected city' (AddressBase.city a) \<and>
      selected state' (AddressBase.state a) \<and>
      selected postal_code' (AddressBase.postal_code a) \<and>
      selected country' (AddressBase.country a))"

definition person_selected ::
  "str option \<Rightarrow> str option \<Rightarrow> str option \<Rightarrow> str option \<Rightarrow> str option \<Rightarrow>
   str option \<Rightarrow> str option \<Rightarrow> str option \<Rightarrow> PersonRead \<Rightarrow> bool" where
  "person_selected uni' first_name' last_name' email' phone' birth_date' city' country' p =
     (selected uni' (PersonBase.uni p) \<and> selected first_name' (PersonBase.first_name p) \<and>
      selected last_name' (PersonBase.last_name p) \<and> selected email' (PersonBase.email p) \<and>
      selected (map_option Some phone') (PersonBase.phone p) \<and>
      selected_date birth_date' (PersonBase.birth_date p) \<and>
      selected_any city' AddressBase.city (PersonBase.addresses p) \<and>
      selected_any country' AddressBase.country (PersonBase.addresses p))"

definition fee_details_selected :: "str option \<Rightarrow> bool option \<Rightarrow> FeeDetailsRead \<Rightarrow> bool" where
  "fee_details_selected university_name' fee_paid' f =
     (selected university_name' (FeeDetailsBase.university_name f) \<and>
      selected fee_paid' (FeeDetailsBase.fee_paid f))"

definition visa_status_selected :: "str option \<Rightarrow> VisaStatusRead \<Rightarrow> bool" where
  "visa_status_selected visa_status' v = selected visa_status' (VisaStatusBase.visa_status v)"

text \<open>
  The states that creates and updates can produce from the empty dictionaries, and the
  agreement of every key with the identifier of the record stored under it.
\<close>

inductive reachable :: "(str \<Rightarrow> str option) \<Rightarrow> databases \<Rightarrow> bool" for EmailStr where
  startup: "reachable EmailStr startup"
| create_address:
    "reachable EmailStr db \<Longrightarrow> reachable EmailStr (snd (create_address fac address db))"
| update_address:
    "reachable EmailStr db \<Longrightarrow>
       reachable EmailStr (snd (update_address fac address_id address_update db))"
| create_person:
    "reachable EmailStr db \<Longrightarrow> reachable EmailStr (snd (create_person EmailStr fac person db))"
| update_person:
    "reachable EmailStr db \<Longrightarrow>
       reachable EmailStr (snd (update_person EmailStr fac person_id person_update db))"
| create_fee_details:
    "reachable EmailStr db \<Longrightarrow> reachable EmailStr (snd (create_fee_details fac fee db))"
| update_fee_details:
    "reachable EmailStr db \<Longrightarrow>
       reachable EmailStr (snd (update_fee_details fac fee_id fee_update db))"
| create_visa_status:
    "reachable EmailStr db \<Longrightarrow> reachable EmailStr (snd (create_visa_status fac visa db))"
| update_visa_status:
    "reachable EmailStr db \<Longrightarrow>
       reachable EmailStr (snd (update_visa_status fac visa_id visa_update db))"

definition keys_agree :: "('r \<Rightarrow> UUID) \<Rightarrow> (UUID, 'r) dict \<Rightarrow> bool" where
  "keys_agree ident d = list_all (\<lambda>(k, r). ident r = k) d"

definition key_record_agreement :: "databases \<Rightarrow> bool" where
  "key_record_agreement db =
     (keys_agree PersonRead.id (databases.persons db) \<and>
      keys_agree AddressBase.id (databases.addresses db) \<and>
      keys_agree FeeDetailsRead.id (databases.fee_details db) \<and>
      keys_agree VisaStatusRead.id (databases.visa_statuses db))"

subsection \<open>Sample data\<close>

text \<open>
  The sample payloads are the examples of the model classes. The sample \<open>EmailStr\<close>
  accepts the strings that hold an at sign (code point 64) and returns them with the
  capital ASCII letters turned into small ones.
\<close>

definition lower :: "nat \<Rightarrow> nat" where
  "lower c = (if 65 \<le> c \<and> c \<le> 90 then c + 32 else c)"

definition sample_EmailStr :: "str \<Rightarrow> str option" where
  "sample_EmailStr s = (if 64 \<in> set s then Some (map lower s) else None)"

definition sample_address :: AddressCreate where
  "sample_address =
     \<lparr> AddressBase.id = 1, AddressBase.street = lit ''736 Riverside Dr'',
       AddressBase.city = lit ''New York'', AddressBase.state = lit ''NY'',
       AddressBase.postal_code = lit ''10031'', AddressBase.country = lit ''USA'' \<rparr>"

definition sample_person :: PersonCreate where
  "sample_person =
     \<lparr> PersonBase.uni = lit ''dy2530'', PersonBase.first_name = lit ''Dhanvanth Reddy'',
       PersonBase.last_name = lit ''Yerramreddy'',
       PersonBase.email = lit ''dy2530@columbia.edu'',
       PersonBase.phone = Some (lit ''+1-646-408-9482''), PersonBase.birth_date = None,
       PersonBase.addresses = [sample_address] \<rparr>"

definition sample_fee :: FeeDetailsCreate where
  "sample_fee =
     \<lparr> FeeDetailsBase.university_name = lit ''Columbia University'',
       FeeDetailsBase.number_of_credits = 30, FeeDetailsBase.fee_paid = True \<rparr>"

definition sample_visa :: VisaStatusCreate where
  "sample_visa = \<lparr> VisaStatusBase.visa_status = lit ''F1'' \<rparr>"

text \<open>
  The factories of a construction that draws identifier \<open>i\<close> and reads the clock twice;
  the identifiers it draws for embedded addresses are the ones after \<open>i\<close>.
\<close>

definition drawing :: "UUID \<Rightarrow> datetime \<Rightarrow> datetime \<Rightarrow> factories" where
  "drawing i t1 t2 =
     \<lparr> uuid4 = i, utcnow_created = t1, utcnow_updated = t2,
       embedded_uuid4 = (\<lambda>k. i + 1 + of_nat k) \<rparr>"

text \<open>
  The records that the sample creates store, and the dictionaries after one create of
  each kind from the empty state: identifier 1 for the address, 7 for the others, all
  built with the clock reading 100 twice.
\<close>

definition sample_address_read :: AddressRead where
  "sample_address_read =
     \<lparr> AddressBase.id = 1, AddressBase.street = lit ''736 Riverside Dr'',
       AddressBase.city = lit ''New York'', AddressBase.state = lit ''NY'',
       AddressBase.postal_code = lit ''10031'', AddressBase.country = lit ''USA'',
       AddressRead.created_at = 100, AddressRead.updated_at = 100 \<rparr>"

definition sample_person_read :: PersonRead where
  "sample_person_read =
     \<lparr> PersonBase.uni = lit ''dy2530'', PersonBase.first_name = lit ''Dhanvanth Reddy'',
       PersonBase.last_name = lit ''Yerramreddy'',
       PersonBase.email = lit ''dy2530@columbia.edu'',
       PersonBase.phone = Some (lit ''+1-646-408-9482''), PersonBase.birth_date = None,
       PersonBase.addresses = [sample_address],
       PersonRead.id = 7, PersonRead.created_at = 100, PersonRead.updated_at = 100 \<rparr>"

definition sample_fee_read :: FeeDetailsRead where
  "sample_fee_read =
     \<lparr> FeeDetailsBase.university_name = lit ''Columbia University'',
       FeeDetailsBase.number_of_credits = 30, FeeDetailsBase.fee_paid = True,
       FeeDetailsRead.id = 7, FeeDetailsRead.created_at = 100,
       FeeDetailsRead.updated_at = 100 \<rparr>"

definition sample_visa_read :: VisaStatusRead where
  "sample_visa_read =
     \<lparr> VisaStatusBase.visa_status = lit ''F1'',
       VisaStatusRead.id = 7, VisaStatusRead.created_at = 100,
       VisaStatusRead.updated_at = 100 \<rparr>"

definition sample_db :: databases where
  "sample_db =
     \<lparr> databases.persons = [(7, sample_person_read)],
       databases.addresses = [(1, sample_address_read)],
       databases.fee_details = [(7, sample_fee_read)],
       databases.visa_statuses = [(7, sample_visa_read)] \<rparr>"

definition no_address_update :: AddressUpdate where
  "no_address_update =
     \<lparr> AddressUpdate.street = Unset, AddressUpdate.city = Unset, AddressUpdate.state = Unset,
       AddressUpdate.postal_code = Unset, AddressUpdate.country = Unset \<rparr>"

definition no_person_update :: PersonUpdate where
  "no_person_update =
     \<lparr> PersonUpdate.uni = Unset, PersonUpdate.first_name = Unset,
       PersonUpdate.last_name = Unset, PersonUpdate.email = Unset, PersonUpdate.phone = Unset,
       PersonUpdate.birth_date = Unset, PersonUpdate.addresses = Unset \<rparr>"

definition no_fee_update :: FeeDetailsUpdate where
  "no_fee_update =
     \<lparr> FeeDetailsUpdate.university_name = Unset, FeeDetailsUpdate.number_of_credits = Unset,
       FeeDetailsUpdate.fee_paid = Unset \<rparr>"

definition no_visa_update :: VisaStatusUpdate where
  "no_visa_update = \<lparr> VisaStatusUpdate.visa_status = Unset \<rparr>"

text \<open>
  Sample updates: one field each, as in the examples of the Update classes; an explicit
  \<^verbatim>\<open>null\<close> for \<^verbatim>\<open>fee_paid\<close>; an empty list of addresses, alone and together with
  an explicit \<^verbatim>\<open>null\<close> for \<^verbatim>\<open>first_name\<close>. The factories \<open>later\<close> are those of
  a construction at the clock readings 200 and 201.
\<close>

definition brooklyn_update :: AddressUpdate where
  "brooklyn_update =
     no_address_update\<lparr> AddressUpdate.city := Supplied (Some (lit ''Brooklyn'')) \<rparr>"

definition phone_update :: PersonUpdate where
  "phone_update =
     no_person_update\<lparr> PersonUpdate.phone := Supplied (Some (lit ''+1-212-555-0100'')) \<rparr>"

definition credits_update :: FeeDetailsUpdate where
  "credits_update =
     no_fee_update\<lparr> FeeDetailsUpdate.number_of_credits := Supplied (Some 36) \<rparr>"

definition opt_update :: VisaStatusUpdate where
  "opt_update = \<lparr> VisaStatusUpdate.visa_status = Supplied (Some (lit ''OPT'')) \<rparr>"

definition null_fee_paid_update :: FeeDetailsUpdate where
  "null_fee_paid_update = no_fee_update\<lparr> FeeDetailsUpdate.fee_paid := Supplied None \<rparr>"

definition clear_addresses_update :: PersonUpdate where
  "clear_addresses_update =
     no_person_update\<lparr> PersonUpdate.addresses := Supplied (Some []) \<rparr>"

definition clear_addresses_null_name_update :: PersonUpdate where
  "clear_addresses_null_name_update =
     no_person_update\<lparr> PersonUpdate.addresses := Supplied (Some []),
                        PersonUpdate.first_name := Supplied None \<rparr>"

definition later :: factories where
  "later = drawing 9 200 201"





definition boston_sent :: AddressBase_parsed where
  "boston_sent =
     \<lparr> AddressBase_parsed.id = None, AddressBase_parsed.street = lit ''1 Main St'',
       AddressBase_parsed.city = lit ''Boston'', AddressBase_parsed.state = lit ''MA'',
       AddressBase_parsed.postal_code = lit ''02108'',
       AddressBase_parsed.country = lit ''USA'' \<rparr>"

definition albany_sent :: AddressBase_parsed where
  "albany_sent =
     \<lparr> AddressBase_parsed.id = Some 5, AddressBase_parsed.street = lit ''2 State St'',
       AddressBase_parsed.city = lit ''Albany'', AddressBase_parsed.state = lit ''NY'',
       AddressBase_parsed.postal_code = lit ''12207'',
       AddressBase_parsed.country = lit ''USA'' \<rparr>"

definition moved_update :: PersonUpdate where
  "moved_update =
     no_person_update\<lparr> PersonUpdate.first_name := Supplied (Some (lit ''Dhanvanth'')),
                        PersonUpdate.addresses := Supplied (Some [boston_sent, albany_sent]) \<rparr>"

definition boston_stored :: AddressBase where
  "boston_stored =
     \<lparr> AddressBase.id = 10, AddressBase.street = lit ''1 Main St'',
       AddressBase.city = lit ''Boston'', AddressBase.state = lit ''MA'',
       AddressBase.postal_code = lit ''02108'', AddressBase.country = lit ''USA'' \<rparr>"

definition albany_stored :: AddressBase where
  "albany_stored =
     \<lparr> AddressBase.id = 5, AddressBase.street = lit ''2 State St'',
       AddressBase.city = lit ''Albany'', AddressBase.state = lit ''NY'',
       AddressBase.postal_code = lit ''12207'', AddressBase.country = lit ''USA'' \<rparr>"

definition second_address :: AddressCreate where
  "second_address =
     \<lparr> AddressBase.id = 0, AddressBase.street = lit ''1 Main St'',
       AddressBase.city = lit ''Boston'', AddressBase.state = lit ''MA'',
       AddressBase.postal_code = lit ''02108'', AddressBase.country = lit ''USA'' \<rparr>"

definition second_address_read :: AddressRead where
  "second_address_read =
     \<lparr> AddressBase.id = 0, AddressBase.street = lit ''1 Main St'',
       AddressBase.city = lit ''Boston'', AddressBase.state = lit ''MA'',
       AddressBase.postal_code = lit ''02108'', AddressBase.country = lit ''USA'',
       AddressRead.created_at = 150, AddressRead.updated_at = 150 \<rparr>"

definition two_addresses_db :: databases where
  "two_addresses_db =
     sample_db\<lparr> databases.addresses :=
                  [(1, sample_address_read), (0, second_address_read)] \<rparr>"

section \<open>The pattern of a UNI, characterised\<close>

subsection \<open>Literals\<close>

lemma lit_eq_iff: "lit a = lit b \<longleftrightarrow> a = b"
proof -
  have "inj (of_char :: char \<Rightarrow> nat)"
    by (rule injI) simp
  then show ?thesis
    unfolding lit_def by (rule inj_map_eq_map)
qed

lemma lit_Nil: "lit [] = []"
  by (simp add: lit_def)

lemma lit_neq_Nil: "lit (c # cs) \<noteq> []"
  by (simp add: lit_def)

subsection \<open>The matcher\<close>

lemma one_char_Nil: "one_char P [] = []"
  by (simp add: one_char_def)

lemma one_char_Cons: "one_char P (c # cs) = (if P c then [cs] else [])"
  by (simp add: one_char_def)

lemma repeat_run_one_char:
  "set (repeat_run (one_char P) m n s) =
     {drop k s | k. m \<le> k \<and> k \<le> n \<and> k \<le> length s \<and> list_all P (take k s)}"
proof (induction n arbitrary: m s)
  case 0
  then show ?case by auto
next
  case (Suc n)
  show ?case
  proof (cases s)
    case Nil
    then show ?thesis by (auto simp: one_char_Nil)
  next
    case (Cons c cs)
    have run: "set (repeat_run (one_char P) m (Suc n) s) =
            (if m = 0 then {s} else {}) \<union>
            (if P c then set (repeat_run (one_char P) (m - 1) n cs) else {})"
      using Cons by (simp add: one_char_Cons)
    show ?thesis
    proof (rule set_eqI, rule iffI)
      fix t assume "t \<in> set (repeat_run (one_char P) m (Suc n) s)"
      then consider "m = 0" "t = s"
        | k where "P c" "t = drop k cs" "m - 1 \<le> k" "k \<le> n" "k \<le> length cs"
            "list_all P (take k cs)"
        unfolding run by (auto simp: Suc.IH split: if_splits)
      then show "t \<in> {drop k s | k. m \<le> k \<and> k \<le> Suc n \<and> k \<le> length s \<and> list_all P (take k s)}"
      proof cases
        case 1
        then show ?thesis by (intro CollectI exI[of _ 0]) simp
      next
        case 2
        then show ?thesis using Cons by (intro CollectI exI[of _ "Suc k"]) auto
      qed
    next
      fix t assume "t \<in> {drop k s | k. m \<le> k \<and> k \<le> Suc n \<and> k \<le> length s \<and> list_all P (take k s)}"
      then obtain k where k: "t = drop k s" "m \<le> k" "k \<le> Suc n" "k \<le> length s"
          "list_all P (take k s)"
        by auto
      show "t \<in> set (repeat_run (one_char P) m (Suc n) s)"
      proof (cases k)
        case 0
        then show ?thesis using k unfolding run by simp
      next
        case (Suc j)
        then have "P c" and "t = drop j cs \<and> m - 1 \<le> j \<and> j \<le> n \<and> j \<le> length cs \<and>
            list_all P (take j cs)"
          using k Cons by auto
        then show ?thesis unfolding run by (auto simp: Suc.IH)
      qed
    qed
  qed
qed

lemma in_range_lower: "in_range 97 122 = lowercase_letter"
  by (simp add: in_range_def lowercase_letter_def fun_eq_iff)

lemma UNIType_iff:
  "UNIType s \<longleftrightarrow>
     (\<exists>k j. 2 \<le> k \<and> k \<le> 3 \<and> k \<le> length s \<and> list_all lowercase_letter (take k s) \<and>
        1 \<le> j \<and> j \<le> 4 \<and> j \<le> length (drop k s) \<and> list_all unicode_Nd (take j (drop k s)) \<and>
        drop j (drop k s) = [])"
proof -
  have "UNIType s \<longleftrightarrow>
     (\<exists>t \<in> set (repeat_run (one_char lowercase_letter) 2 3 s).
        [] \<in> set (repeat_run (one_char unicode_Nd) 1 4 t))"
    unfolding UNIType_def UNI_pattern_def
    by (simp add: in_range_lower del: repeat_run.simps)
  also have "\<dots> \<longleftrightarrow> (\<exists>k j. 2 \<le> k \<and> k \<le> 3 \<and> k \<le> length s \<and> list_all lowercase_letter (take k s) \<and>
        1 \<le> j \<and> j \<le> 4 \<and> j \<le> length (drop k s) \<and> list_all unicode_Nd (take j (drop k s)) \<and>
        drop j (drop k s) = [])" (is "?L \<longleftrightarrow> ?R")
  proof
    assume ?L
    then obtain t where t: "t \<in> set (repeat_run (one_char lowercase_letter) 2 3 s)"
        "[] \<in> set (repeat_run (one_char unicode_Nd) 1 4 t)"
      by blast
    from t(1) obtain k where k: "t = drop k s" "2 \<le> k" "k \<le> 3" "k \<le> length s"
        "list_all lowercase_letter (take k s)"
      unfolding repeat_run_one_char by blast
    from t(2) obtain j where j: "[] = drop j t" "1 \<le> j" "j \<le> 4" "j \<le> length t"
        "list_all unicode_Nd (take j t)"
      unfolding repeat_run_one_char by blast
    show ?R
      using k j by (intro exI[of _ k] exI[of _ j]) (simp del: drop_drop)
  next
    assume ?R
    then obtain k j where kj: "2 \<le> k" "k \<le> 3" "k \<le> length s"
        "list_all lowercase_letter (take k s)" "1 \<le> j" "j \<le> 4" "j \<le> length (drop k s)"
        "list_all unicode_Nd (take j (drop k s))" "drop j (drop k s) = []"
      by blast
    have "drop k s \<in> set (repeat_run (one_char lowercase_letter) 2 3 s)"
      unfolding repeat_run_one_char using kj by blast
    moreover have "[] \<in> set (repeat_run (one_char unicode_Nd) 1 4 (drop k s))"
      unfolding repeat_run_one_char using kj(5-9)
      by (intro CollectI exI[of _ j]) (simp del: drop_drop)
    ultimately show ?L by blast
  qed
  finally show ?thesis .
qed

lemma UNIType_letters_then: "UNIType s = letters_then unicode_Nd s"
proof
  assume "UNIType s"
  then obtain k j where kj: "2 \<le> k" "k \<le> 3" "k \<le> length s"
    "list_all lowercase_letter (take k s)"
    "1 \<le> j" "j \<le> 4" "j \<le> length (drop k s)" "list_all unicode_Nd (take j (drop k s))"
    "drop j (drop k s) = []"
    unfolding UNIType_iff by blast
  have "s = take k s @ drop k s" by simp
  moreover have "length (take k s) = k" using kj by simp
  moreover have "length (drop k s) = j" using kj by simp
  moreover have "list_all unicode_Nd (drop k s)" using kj by simp
  ultimately show "letters_then unicode_Nd s"
    unfolding letters_then_def using kj
    by (intro exI[of _ "take k s"] exI[of _ "drop k s"]) simp
next
  assume "letters_then unicode_Nd s"
  then obtain ls ds where *: "s = ls @ ds" "2 \<le> length ls" "length ls \<le> 3"
     "list_all lowercase_letter ls" "1 \<le> length ds" "length ds \<le> 4" "list_all unicode_Nd ds"
    unfolding letters_then_def by blast
  show "UNIType s"
    unfolding UNIType_iff using * by (intro exI[of _ "length ls"] exI[of _ "length ds"]) simp
qed

subsection \<open>The digits among the ASCII characters\<close>

lemma Nd_starts_ascii: "zero \<in> set Nd_starts \<Longrightarrow> zero = 48 \<or> 128 \<le> zero"
proof -
  have "list_all (\<lambda>zero. zero = 48 \<or> 128 \<le> zero) Nd_starts"
    unfolding Nd_starts_def by simp
  then show "zero \<in> set Nd_starts \<Longrightarrow> zero = 48 \<or> 128 \<le> zero"
    by (simp add: list_all_iff)
qed

lemma ascii_digit_Nd: "ascii_digit c \<Longrightarrow> unicode_Nd c"
proof -
  assume "ascii_digit c"
  moreover have "48 \<in> set Nd_starts"
    unfolding Nd_starts_def by simp
  ultimately show "unicode_Nd c"
    unfolding unicode_Nd_def list_ex_iff ascii_digit_def by (intro bexI[of _ 48]) auto
qed

lemma Nd_ascii_digit: "unicode_Nd c \<Longrightarrow> c < 128 \<Longrightarrow> ascii_digit c"
proof -
  assume "unicode_Nd c" and "c < 128"
  then obtain zero where z: "zero \<in> set Nd_starts" "zero \<le> c" "c < zero + 10"
    unfolding unicode_Nd_def list_ex_iff by blast
  then have "zero = 48"
    using Nd_starts_ascii [OF z(1)] \<open>c < 128\<close> by auto
  then show "ascii_digit c"
    using z by (simp add: ascii_digit_def)
qed





lemma UNIType_shape:
  assumes "UNIType s"
  shows "list_all lowercase_letter (take 2 s)" and "list_all unicode_Nd (drop 3 s)"
proof -
  obtain ls ds where *: "s = ls @ ds" "2 \<le> length ls" "length ls \<le> 3"
     "list_all lowercase_letter ls" "1 \<le> length ds" "length ds \<le> 4" "list_all unicode_Nd ds"
    using assms unfolding UNIType_letters_then letters_then_def by blast
  have "set (take 2 s) \<subseteq> set ls"
    using *(1,2) by (simp add: set_take_subset)
  then show "list_all lowercase_letter (take 2 s)"
    using *(4) by (auto simp: list_all_iff)
  have "set (drop 3 s) \<subseteq> set ds"
    using *(1,3) by (auto dest: in_set_dropD)
  then show "list_all unicode_Nd (drop 3 s)"
    using *(7) by (auto simp: list_all_iff)
qed

lemma lit_codes:
  "lit ''dy2530'' = [100, 121, 50, 53, 51, 48]"
  "lit ''AB123'' = [65, 66, 49, 50, 51]"
  "lit ''abcd1'' = [97, 98, 99, 100, 49]"
  "lit ''ab'' = [97, 98]"
  by (simp_all add: lit_def)

lemma sample_uni: "UNIType (lit ''dy2530'')"
proof -
  have "list_all unicode_Nd [50, 53, 51, 48]"
    by (simp add: ascii_digit_Nd ascii_digit_def)
  moreover have "list_all lowercase_letter [100, 121]"
    by (simp add: lowercase_letter_def)
  ultimately have "letters_then unicode_Nd ([100, 121] @ [50, 53, 51, 48])"
    unfolding letters_then_def by (intro exI[of _ "[100, 121]"] exI[of _ "[50, 53, 51, 48]"]) simp
  then show ?thesis
    by (simp add: UNIType_letters_then lit_codes)
qed

lemma sample_bad_unis: "\<not> UNIType (lit ''AB123'')" "\<not> UNIType (lit ''abcd1'')"
proof -
  show "\<not> UNIType (lit ''AB123'')"
    using UNIType_shape(1) [of "lit ''AB123''"]
    by (auto simp: lit_codes lowercase_letter_def)
  have "\<not> unicode_Nd 100"
    using Nd_ascii_digit [of 100] by (auto simp: ascii_digit_def)
  then show "\<not> UNIType (lit ''abcd1'')"
    using UNIType_shape(2) [of "lit ''abcd1''"]
    by (auto simp: lit_codes)
qed



section \<open>Dictionaries, constructors and endpoints\<close>

subsection \<open>Dictionaries\<close>

lemma dict_contains_iff: "dict_contains d k \<longleftrightarrow> map_of d k \<noteq> None"
  by (simp add: dict_contains_def map_of_eq_None_iff)

lemma dict_contains_keys: "dict_contains d k \<longleftrightarrow> k \<in> fst ` set d"
  by (simp add: dict_contains_def)

lemma map_of_dict_setitem:
  "map_of (dict_setitem d k v) k' = (if k' = k then Some v else map_of d k')"
  by (induction d) auto

lemma dict_getitem_setitem: "dict_getitem (dict_setitem d k v) k = Inr v"
  by (simp add: dict_getitem_def map_of_dict_setitem)

lemma dict_setitem_new: "k \<notin> fst ` set d \<Longrightarrow> dict_setitem d k v = d @ [(k, v)]"
  by (induction d) auto

lemma dict_setitem_old:
  "map_of d k = Some v0 \<Longrightarrow>
     \<exists>j<length d. d ! j = (k, v0) \<and> dict_setitem d k v = d[j := (k, v)]"
proof (induction d)
  case Nil
  then show ?case by simp
next
  case (Cons e d)
  obtain k' v' where e: "e = (k', v')" by (cases e)
  show ?case
  proof (cases "k' = k")
    case True
    then have "v' = v0" using Cons.prems e by simp
    then show ?thesis using True e by (intro exI[of _ 0]) simp
  next
    case False
    then have "map_of d k = Some v0" using Cons.prems e by simp
    then obtain j where "j < length d" "d ! j = (k, v0)" "dict_setitem d k v = d[j := (k, v)]"
      using Cons.IH by blast
    then show ?thesis using False e by (intro exI[of _ "Suc j"]) simp
  qed
qed

lemma keys_dict_setitem:
  "map fst (dict_setitem d k v) = (if k \<in> fst ` set d then map fst d else map fst d @ [k])"
proof (induction d)
  case Nil
  then show ?case by simp
next
  case (Cons e d)
  then show ?case by (cases e) (simp add: image_iff)
qed

lemma keys_agree_setitem:
  "keys_agree ident d \<Longrightarrow> ident v = k \<Longrightarrow> keys_agree ident (dict_setitem d k v)"
  unfolding keys_agree_def by (induction d) auto

lemma keys_agree_map_of:
  "keys_agree ident d \<Longrightarrow> map_of d k = Some v \<Longrightarrow> ident v = k"
  unfolding keys_agree_def by (induction d) (auto split: if_splits)

subsection \<open>Constructors\<close>

lemma default_factory_Some: "default_factory made (Some v) = v"
  by (simp add: default_factory_def)

lemma default_factory_None: "default_factory made None = made"
  by (simp add: default_factory_def)

lemma dict_update_Unset: "dict_update stored Unset = stored"
  by (simp add: dict_update_def)

lemma dict_update_Supplied: "dict_update stored (Supplied v) = v"
  by (simp add: dict_update_def)

subsection \<open>Endpoints by lookup\<close>

lemma get_address_lookup:
  "get_address i db =
     (case map_of (databases.addresses db) i of None \<Rightarrow> Inl NotFound | Some r \<Rightarrow> Inr r)"
  by (simp add: get_address_def dict_contains_iff dict_getitem_def split: option.splits)

lemma get_person_lookup:
  "get_person i db =
     (case map_of (databases.persons db) i of None \<Rightarrow> Inl NotFound | Some r \<Rightarrow> Inr r)"
  by (simp add: get_person_def dict_contains_iff dict_getitem_def split: option.splits)

lemma get_fee_details_lookup:
  "get_fee_details i db =
     (case map_of (databases.fee_details db) i of None \<Rightarrow> Inl NotFound | Some r \<Rightarrow> Inr r)"
  by (simp add: get_fee_details_def dict_contains_iff dict_getitem_def split: option.splits)

lemma get_visa_status_lookup:
  "get_visa_status i db =
     (case map_of (databases.visa_statuses db) i of None \<Rightarrow> Inl NotFound | Some r \<Rightarrow> Inr r)"
  by (simp add: get_visa_status_def dict_contains_iff dict_getitem_def split: option.splits)

lemma update_address_lookup:
  "update_address fac i u db =
     (case map_of (databases.addresses db) i of
        None \<Rightarrow> (Inl NotFound, db)
      | Some a \<Rightarrow>
          (case AddressRead_init fac (Some (AddressBase.id a))
                  (dict_update (Some (AddressBase.street a)) (AddressUpdate.street u))
                  (dict_update (Some (AddressBase.city a)) (AddressUpdate.city u))
                  (dict_update (Some (AddressBase.state a)) (AddressUpdate.state u))
                  (dict_update (Some (AddressBase.postal_code a)) (AddressUpdate.postal_code u))
                  (dict_update (Some (AddressBase.country a)) (AddressUpdate.country u))
                  (Some (AddressRead.created_at a)) (Some (AddressRead.updated_at a)) of
             Inl e \<Rightarrow> (Inl e, db)
           | Inr r \<Rightarrow>
               (Inr r, db\<lparr> databases.addresses := dict_setitem (databases.addresses db) i r \<rparr>)))"
  by (simp add: update_address_def dict_contains_iff dict_getitem_def map_of_dict_setitem
      Let_def split: option.splits sum.splits)

lemma update_person_lookup:
  "update_person EmailStr fac i u db =
     (case map_of (databases.persons db) i of
        None \<Rightarrow> (Inl NotFound, db)
      | Some p \<Rightarrow>
          (case PersonRead_init EmailStr fac
                  (dict_update (Some (PersonBase.uni p)) (PersonUpdate.uni u))
                  (dict_update (Some (PersonBase.first_name p)) (PersonUpdate.first_name u))
                  (dict_update (Some (PersonBase.last_name p)) (PersonUpdate.last_name u))
                  (dict_update (Some (PersonBase.email p)) (PersonUpdate.email u))
                  (dict_update (PersonBase.phone p) (PersonUpdate.phone u))
                  (dict_update (PersonBase.birth_date p) (PersonUpdate.birth_date u))
                  (dict_update (Some (map model_dump_address (PersonBase.addresses p)))
                     (PersonUpdate.addresses u))
                  (Some (PersonRead.id p)) (Some (PersonRead.created_at p))
                  (Some (PersonRead.updated_at p)) of
             Inl e \<Rightarrow> (Inl e, db)
           | Inr r \<Rightarrow>
               (Inr r, db\<lparr> databases.persons := dict_setitem (databases.persons db) i r \<rparr>)))"
  by (simp add: update_person_def dict_contains_iff dict_getitem_def map_of_dict_setitem
      Let_def split: option.splits sum.splits)

lemma update_fee_details_lookup:
  "update_fee_details fac i u db =
     (case map_of (databases.fee_details db) i of
        None \<Rightarrow> (Inl NotFound, db)
      | Some f \<Rightarrow>
          (case FeeDetailsRead_init fac
                  (dict_update (Some (FeeDetailsBase.university_name f))
                     (FeeDetailsUpdate.university_name u))
                  (dict_update (Some (FeeDetailsBase.number_of_credits f))
                     (FeeDetailsUpdate.number_of_credits u))
                  (dict_update (Some (FeeDetailsBase.fee_paid f)) (FeeDetailsUpdate.fee_paid u))
                  (Some (FeeDetailsRead.id f)) (Some (FeeDetailsRead.created_at f))
                  (Some (FeeDetailsRead.updated_at f)) of
             Inl e \<Rightarrow> (Inl e, db)
           | Inr r \<Rightarrow>
               (Inr r,
                db\<lparr> databases.fee_details := dict_setitem (databases.fee_details db) i r \<rparr>)))"
  by (simp add: update_fee_details_def dict_contains_iff dict_getitem_def map_of_dict_setitem
      Let_def split: option.splits sum.splits)

lemma update_visa_status_lookup:
  "update_visa_status fac i u db =
     (case map_of (databases.visa_statuses db) i of
        None \<Rightarrow> (Inl NotFound, db)
      | Some v \<Rightarrow>
          (case VisaStatusRead_init fac
                  (dict_update (Some (VisaStatusBase.visa_status v))
                     (VisaStatusUpdate.visa_status u))
                  (Some (VisaStatusRead.id v)) (Some (VisaStatusRead.created_at v))
                  (Some (VisaStatusRead.updated_at v)) of
             Inl e \<Rightarrow> (Inl e, db)
           | Inr r \<Rightarrow>
               (Inr r,
                db\<lparr> databases.visa_statuses :=
                      dict_setitem (databases.visa_statuses db) i r \<rparr>)))"
  by (simp add: update_visa_status_def dict_contains_iff dict_getitem_def map_of_dict_setitem
      Let_def split: option.splits sum.splits)

subsection \<open>What a constructor returns\<close>

lemma dict_update_overwritten: "dict_update (Some old) f = Some new \<Longrightarrow> overwritten f old new"
  by (cases f) (simp_all add: dict_update_def overwritten_def)

lemma dict_update_overwritten_optional:
  "dict_update old f = new \<Longrightarrow> overwritten_optional f old new"
  by (cases f) (auto simp: dict_update_def overwritten_optional_def)

lemma dict_update_null: "dict_update stored (Supplied None) = None"
  by (simp add: dict_update_def)

lemma AddressRead_init_InrD:
  "AddressRead_init fac i st ci sa pc co t1 t2 = Inr r \<Longrightarrow>
     st = Some (AddressBase.street r) \<and> ci = Some (AddressBase.city r) \<and>
     sa = Some (AddressBase.state r) \<and> pc = Some (AddressBase.postal_code r) \<and>
     co = Some (AddressBase.country r) \<and>
     AddressBase.id r = default_factory (uuid4 fac) i \<and>
     AddressRead.created_at r = default_factory (utcnow_created fac) t1 \<and>
     AddressRead.updated_at r = default_factory (utcnow_created fac) t2"
  by (auto simp: AddressRead_init_def split: option.splits)

lemma AddressRead_init_null:
  "st = None \<or> ci = None \<or> sa = None \<or> pc = None \<or> co = None \<Longrightarrow>
     AddressRead_init fac i st ci sa pc co t1 t2 = Inl ValidationError"
  by (auto simp: AddressRead_init_def split: option.splits)

lemma model_dump_address_init: "AddressBase_init made (model_dump_address a) = a"
  by (simp add: AddressBase_init_def model_dump_address_def default_factory_def)

lemma embedded_addresses_Nil: "embedded_addresses fac [] = []"
  by (simp add: embedded_addresses_def enumerate_eq_zip)

lemma embedded_addresses_dump: "embedded_addresses fac (map model_dump_address l) = l"
proof -
  have "map (\<lambda>(k, kw). AddressBase_init (embedded_uuid4 fac k) kw)
          (enumerate n (map model_dump_address l)) = l" for n
    by (induction l arbitrary: n) (simp_all add: model_dump_address_init)
  then show ?thesis by (simp add: embedded_addresses_def)
qed

lemma sent_as_init: "sent_as kw (AddressBase_init made kw)"
  by (simp add: sent_as_def AddressBase_init_def default_factory_def split: option.splits)

lemma embedded_addresses_sent_as: "list_all2 sent_as l (embedded_addresses fac l)"
proof -
  have "list_all2 sent_as l
          (map (\<lambda>(k, kw). AddressBase_init (embedded_uuid4 fac k) kw) (enumerate n l))" for n
    by (induction l arbitrary: n) (simp_all add: sent_as_init)
  then show ?thesis by (simp add: embedded_addresses_def)
qed

lemma PersonRead_init_InrD:
  "PersonRead_init EmailStr fac u fn ln em ph bd ads i t1 t2 = Inr r \<Longrightarrow>
     u = Some (PersonBase.uni r) \<and> fn = Some (PersonBase.first_name r) \<and>
     ln = Some (PersonBase.last_name r) \<and>
     (\<exists>e. em = Some e \<and> EmailStr e = Some (PersonBase.email r)) \<and>
     PersonBase.phone r = ph \<and> PersonBase.birth_date r = bd \<and>
     (\<exists>l. ads = Some l \<and> PersonBase.addresses r = embedded_addresses fac l) \<and>
     UNIType (PersonBase.uni r) \<and>
     PersonRead.id r = default_factory (uuid4 fac) i \<and>
     PersonRead.created_at r = default_factory (utcnow_created fac) t1 \<and>
     PersonRead.updated_at r = default_factory (utcnow_updated fac) t2"
  by (auto simp: PersonRead_init_def split: option.splits bool.splits)

lemma PersonRead_init_null:
  "u = None \<or> fn = None \<or> ln = None \<or> em = None \<or> ads = None \<Longrightarrow>
     PersonRead_init EmailStr fac u fn ln em ph bd ads i t1 t2 = Inl ValidationError"
  by (auto simp: PersonRead_init_def split: option.splits)

lemma PersonRead_init_Some:
  "UNIType u \<Longrightarrow> EmailStr em = Some normalised \<Longrightarrow>
     PersonRead_init EmailStr fac (Some u) (Some fn) (Some ln) (Some em) ph bd (Some ads)
       i t1 t2 =
     Inr \<lparr> PersonBase.uni = u, PersonBase.first_name = fn, PersonBase.last_name = ln,
           PersonBase.email = normalised, PersonBase.phone = ph, PersonBase.birth_date = bd,
           PersonBase.addresses = embedded_addresses fac ads,
           PersonRead.id = default_factory (uuid4 fac) i,
           PersonRead.created_at = default_factory (utcnow_created fac) t1,
           PersonRead.updated_at = default_factory (utcnow_updated fac) t2 \<rparr>"
  by (simp add: PersonRead_init_def)

lemma PersonRead_init_invalid:
  "\<not> UNIType u \<or> EmailStr em = None \<Longrightarrow>
     PersonRead_init EmailStr fac (Some u) fn ln (Some em) ph bd ads i t1 t2 =
       Inl ValidationError"
  by (auto simp: PersonRead_init_def split: option.splits bool.splits)

lemma FeeDetailsRead_init_InrD:
  "FeeDetailsRead_init fac un nc fp i t1 t2 = Inr r \<Longrightarrow>
     un = Some (FeeDetailsBase.university_name r) \<and>
     nc = Some (FeeDetailsBase.number_of_credits r) \<and>
     fp = Some (FeeDetailsBase.fee_paid r) \<and>
     FeeDetailsRead.id r = default_factory (uuid4 fac) i \<and>
     FeeDetailsRead.created_at r = default_factory (utcnow_created fac) t1 \<and>
     FeeDetailsRead.updated_at r = default_factory (utcnow_updated fac) t2"
  by (auto simp: FeeDetailsRead_init_def split: option.splits)

lemma FeeDetailsRead_init_null:
  "un = None \<or> nc = None \<or> fp = None \<Longrightarrow>
     FeeDetailsRead_init fac un nc fp i t1 t2 = Inl ValidationError"
  by (auto simp: FeeDetailsRead_init_def split: option.splits)

lemma VisaStatusRead_init_InrD:
  "VisaStatusRead_init fac vs i t1 t2 = Inr r \<Longrightarrow>
     vs = Some (VisaStatusBase.visa_status r) \<and>
     VisaStatusRead.id r = default_factory (uuid4 fac) i \<and>
     VisaStatusRead.created_at r = default_factory (utcnow_created fac) t1 \<and>
     VisaStatusRead.updated_at r = default_factory (utcnow_updated fac) t2"
  by (auto simp: VisaStatusRead_init_def split: option.splits)

lemma VisaStatusRead_init_null:
  "VisaStatusRead_init fac None i t1 t2 = Inl ValidationError"
  by (simp add: VisaStatusRead_init_def)

subsection \<open>What a create does\<close>

lemma create_address_new:
  "AddressBase.id a \<notin> fst ` set (databases.addresses db) \<Longrightarrow>
     create_address fac a db =
       (Inr \<lparr> AddressBase.id = AddressBase.id a, AddressBase.street = AddressBase.street a,
              AddressBase.city = AddressBase.city a, AddressBase.state = AddressBase.state a,
              AddressBase.postal_code = AddressBase.postal_code a,
              AddressBase.country = AddressBase.country a,
              AddressRead.created_at = utcnow_created fac,
              AddressRead.updated_at = utcnow_created fac \<rparr>,
        db\<lparr> databases.addresses := databases.addresses db @
             [(AddressBase.id a,
               \<lparr> AddressBase.id = AddressBase.id a, AddressBase.street = AddressBase.street a,
                 AddressBase.city = AddressBase.city a, AddressBase.state = AddressBase.state a,
                 AddressBase.postal_code = AddressBase.postal_code a,
                 AddressBase.country = AddressBase.country a,
                 AddressRead.created_at = utcnow_created fac,
                 AddressRead.updated_at = utcnow_created fac \<rparr>)] \<rparr>)"
proof -
  assume new: "AddressBase.id a \<notin> fst ` set (databases.addresses db)"
  let ?r = "\<lparr> AddressBase.id = AddressBase.id a, AddressBase.street = AddressBase.street a,
              AddressBase.city = AddressBase.city a, AddressBase.state = AddressBase.state a,
              AddressBase.postal_code = AddressBase.postal_code a,
              AddressBase.country = AddressBase.country a,
              AddressRead.created_at = utcnow_created fac,
              AddressRead.updated_at = utcnow_created fac \<rparr>"
  have "create_address fac a db =
      (Inr ?r, db\<lparr> databases.addresses :=
                 dict_setitem (databases.addresses db) (AddressBase.id a) ?r \<rparr>)"
    using new
    by (simp add: create_address_def dict_contains_keys AddressRead_init_def
        default_factory_def dict_getitem_setitem Let_def)
  then show ?thesis using new by (simp add: dict_setitem_new)
qed

lemma create_address_duplicate:
  "AddressBase.id a \<in> fst ` set (databases.addresses db) \<Longrightarrow>
     create_address fac a db = (Inl DuplicateIdentity, db)"
  by (simp add: create_address_def dict_contains_keys)

lemma create_person_result:
  "create_person EmailStr fac p db =
     (case PersonRead_init EmailStr fac (Some (PersonBase.uni p))
             (Some (PersonBase.first_name p)) (Some (PersonBase.last_name p))
             (Some (PersonBase.email p)) (PersonBase.phone p) (PersonBase.birth_date p)
             (Some (map model_dump_address (PersonBase.addresses p))) None None None of
        Inl e \<Rightarrow> (Inl e, db)
      | Inr r \<Rightarrow>
          (Inr r, db\<lparr> databases.persons := dict_setitem (databases.persons db) (uuid4 fac) r \<rparr>))"
  by (auto simp: create_person_def default_factory_def dest!: PersonRead_init_InrD
      split: sum.splits)

lemma create_person_valid:
  "UNIType (PersonBase.uni p) \<Longrightarrow> EmailStr (PersonBase.email p) = Some normalised \<Longrightarrow>
     create_person EmailStr fac p db =
       (Inr \<lparr> PersonBase.uni = PersonBase.uni p, PersonBase.first_name = PersonBase.first_name p,
              PersonBase.last_name = PersonBase.last_name p, PersonBase.email = normalised,
              PersonBase.phone = PersonBase.phone p,
              PersonBase.birth_date = PersonBase.birth_date p,
              PersonBase.addresses = PersonBase.addresses p,
              PersonRead.id = uuid4 fac, PersonRead.created_at = utcnow_created fac,
              PersonRead.updated_at = utcnow_updated fac \<rparr>,
        db\<lparr> databases.persons := dict_setitem (databases.persons db) (uuid4 fac)
              \<lparr> PersonBase.uni = PersonBase.uni p,
                PersonBase.first_name = PersonBase.first_name p,
                PersonBase.last_name = PersonBase.last_name p, PersonBase.email = normalised,
                PersonBase.phone = PersonBase.phone p,
                PersonBase.birth_date = PersonBase.birth_date p,
                PersonBase.addresses = PersonBase.addresses p,
                PersonRead.id = uuid4 fac, PersonRead.created_at = utcnow_created fac,
                PersonRead.updated_at = utcnow_updated fac \<rparr> \<rparr>)"
  by (simp add: create_person_result PersonRead_init_Some embedded_addresses_dump
      default_factory_def)

lemma create_person_invalid:
  "\<not> UNIType (PersonBase.uni p) \<or> EmailStr (PersonBase.email p) = None \<Longrightarrow>
     create_person EmailStr fac p db = (Inl ValidationError, db)"
  by (simp add: create_person_result PersonRead_init_invalid)

lemma create_fee_details_result:
  "create_fee_details fac fee db =
     (Inr \<lparr> FeeDetailsBase.university_name = FeeDetailsBase.university_name fee,
            FeeDetailsBase.number_of_credits = FeeDetailsBase.number_of_credits fee,
            FeeDetailsBase.fee_paid = FeeDetailsBase.fee_paid fee,
            FeeDetailsRead.id = uuid4 fac,
            FeeDetailsRead.created_at = utcnow_created fac,
            FeeDetailsRead.updated_at = utcnow_updated fac \<rparr>,
      db\<lparr> databases.fee_details := dict_setitem (databases.fee_details db) (uuid4 fac)
           \<lparr> FeeDetailsBase.university_name = FeeDetailsBase.university_name fee,
             FeeDetailsBase.number_of_credits = FeeDetailsBase.number_of_credits fee,
             FeeDetailsBase.fee_paid = FeeDetailsBase.fee_paid fee,
             FeeDetailsRead.id = uuid4 fac,
             FeeDetailsRead.created_at = utcnow_created fac,
             FeeDetailsRead.updated_at = utcnow_updated fac \<rparr> \<rparr>)"
  by (simp add: create_fee_details_def FeeDetailsRead_init_def default_factory_def)

lemma create_visa_status_result:
  "create_visa_status fac visa db =
     (Inr \<lparr> VisaStatusBase.visa_status = VisaStatusBase.visa_status visa,
            VisaStatusRead.id = uuid4 fac,
            VisaStatusRead.created_at = utcnow_created fac,
            VisaStatusRead.updated_at = utcnow_updated fac \<rparr>,
      db\<lparr> databases.visa_statuses := dict_setitem (databases.visa_statuses db) (uuid4 fac)
           \<lparr> VisaStatusBase.visa_status = VisaStatusBase.visa_status visa,
             VisaStatusRead.id = uuid4 fac,
             VisaStatusRead.created_at = utcnow_created fac,
             VisaStatusRead.updated_at = utcnow_updated fac \<rparr> \<rparr>)"
  by (simp add: create_visa_status_def VisaStatusRead_init_def default_factory_def)

subsection \<open>What an update returns\<close>

lemma update_address_InrD:
  assumes "map_of (databases.addresses db) i = Some a"
    and "update_address fac i u db = (Inr a', db')"
  shows "overwritten (AddressUpdate.street u) (AddressBase.street a) (AddressBase.street a')"
    and "overwritten (AddressUpdate.city u) (AddressBase.city a) (AddressBase.city a')"
    and "overwritten (AddressUpdate.state u) (AddressBase.state a) (AddressBase.state a')"
    and "overwritten (AddressUpdate.postal_code u) (AddressBase.postal_code a)
           (AddressBase.postal_code a')"
    and "overwritten (AddressUpdate.country u) (AddressBase.country a) (AddressBase.country a')"
    and "AddressBase.id a' = AddressBase.id a"
    and "AddressRead.created_at a' = AddressRead.created_at a"
    and "AddressRead.updated_at a' = AddressRead.updated_at a"
    and "db' = db\<lparr> databases.addresses := dict_setitem (databases.addresses db) i a' \<rparr>"
  using assms unfolding update_address_lookup
  by (auto simp: default_factory_def dest!: AddressRead_init_InrD
      intro: dict_update_overwritten split: sum.splits)

lemma update_fee_details_InrD:
  assumes "map_of (databases.fee_details db) i = Some f"
    and "update_fee_details fac i u db = (Inr f', db')"
  shows "overwritten (FeeDetailsUpdate.university_name u) (FeeDetailsBase.university_name f)
           (FeeDetailsBase.university_name f')"
    and "overwritten (FeeDetailsUpdate.number_of_credits u) (FeeDetailsBase.number_of_credits f)
           (FeeDetailsBase.number_of_credits f')"
    and "overwritten (FeeDetailsUpdate.fee_paid u) (FeeDetailsBase.fee_paid f)
           (FeeDetailsBase.fee_paid f')"
    and "FeeDetailsRead.id f' = FeeDetailsRead.id f"
    and "FeeDetailsRead.created_at f' = FeeDetailsRead.created_at f"
    and "FeeDetailsRead.updated_at f' = FeeDetailsRead.updated_at f"
    and "db' = db\<lparr> databases.fee_details := dict_setitem (databases.fee_details db) i f' \<rparr>"
  using assms unfolding update_fee_details_lookup
  by (auto simp: default_factory_def dest!: FeeDetailsRead_init_InrD
      intro: dict_update_overwritten split: sum.splits)

lemma update_visa_status_InrD:
  assumes "map_of (databases.visa_statuses db) i = Some v"
    and "update_visa_status fac i u db = (Inr v', db')"
  shows "overwritten (VisaStatusUpdate.visa_status u) (VisaStatusBase.visa_status v)
           (VisaStatusBase.visa_status v')"
    and "VisaStatusRead.id v' = VisaStatusRead.id v"
    and "VisaStatusRead.created_at v' = VisaStatusRead.created_at v"
    and "VisaStatusRead.updated_at v' = VisaStatusRead.updated_at v"
    and "db' = db\<lparr> databases.visa_statuses :=
                   dict_setitem (databases.visa_statuses db) i v' \<rparr>"
  using assms unfolding update_visa_status_lookup
  by (auto simp: default_factory_def dest!: VisaStatusRead_init_InrD
      intro: dict_update_overwritten split: sum.splits)

lemma update_address_null:
  assumes "map_of (databases.addresses db) i = Some a"
    and "AddressUpdate.street u = Supplied None \<or> AddressUpdate.city u = Supplied None \<or>
         AddressUpdate.state u = Supplied None \<or> AddressUpdate.postal_code u = Supplied None \<or>
         AddressUpdate.country u = Supplied None"
  shows "update_address fac i u db = (Inl ValidationError, db)"
proof -
  have "AddressRead_init fac (Some (AddressBase.id a))
          (dict_update (Some (AddressBase.street a)) (AddressUpdate.street u))
          (dict_update (Some (AddressBase.city a)) (AddressUpdate.city u))
          (dict_update (Some (AddressBase.state a)) (AddressUpdate.state u))
          (dict_update (Some (AddressBase.postal_code a)) (AddressUpdate.postal_code u))
          (dict_update (Some (AddressBase.country a)) (AddressUpdate.country u))
          (Some (AddressRead.created_at a)) (Some (AddressRead.updated_at a)) =
        Inl ValidationError"
    using assms(2) by (intro AddressRead_init_null) (auto simp: dict_update_null)
  then show ?thesis using assms(1) by (simp add: update_address_lookup)
qed

lemma update_person_null:
  assumes "map_of (databases.persons db) i = Some p"
    and "PersonUpdate.uni u = Supplied None \<or> PersonUpdate.first_name u = Supplied None \<or>
         PersonUpdate.last_name u = Supplied None \<or> PersonUpdate.email u = Supplied None \<or>
         PersonUpdate.addresses u = Supplied None"
  shows "update_person EmailStr fac i u db = (Inl ValidationError, db)"
proof -
  have "PersonRead_init EmailStr fac
          (dict_update (Some (PersonBase.uni p)) (PersonUpdate.uni u))
          (dict_update (Some (PersonBase.first_name p)) (PersonUpdate.first_name u))
          (dict_update (Some (PersonBase.last_name p)) (PersonUpdate.last_name u))
          (dict_update (Some (PersonBase.email p)) (PersonUpdate.email u))
          (dict_update (PersonBase.phone p) (PersonUpdate.phone u))
          (dict_update (PersonBase.birth_date p) (PersonUpdate.birth_date u))
          (dict_update (Some (map model_dump_address (PersonBase.addresses p)))
             (PersonUpdate.addresses u))
          (Some (PersonRead.id p)) (Some (PersonRead.created_at p))
          (Some (PersonRead.updated_at p)) =
        Inl ValidationError"
    using assms(2) by (intro PersonRead_init_null) (auto simp: dict_update_null)
  then show ?thesis using assms(1) by (simp add: update_person_lookup)
qed

lemma update_fee_details_null:
  assumes "map_of (databases.fee_details db) i = Some f"
    and "FeeDetailsUpdate.university_name u = Supplied None \<or>
         FeeDetailsUpdate.number_of_credits u = Supplied None \<or>
         FeeDetailsUpdate.fee_paid u = Supplied None"
  shows "update_fee_details fac i u db = (Inl ValidationError, db)"
proof -
  have "FeeDetailsRead_init fac
          (dict_update (Some (FeeDetailsBase.university_name f))
             (FeeDetailsUpdate.university_name u))
          (dict_update (Some (FeeDetailsBase.number_of_credits f))
             (FeeDetailsUpdate.number_of_credits u))
          (dict_update (Some (FeeDetailsBase.fee_paid f)) (FeeDetailsUpdate.fee_paid u))
          (Some (FeeDetailsRead.id f)) (Some (FeeDetailsRead.created_at f))
          (Some (FeeDetailsRead.updated_at f)) =
        Inl ValidationError"
    using assms(2) by (intro FeeDetailsRead_init_null) (auto simp: dict_update_null)
  then show ?thesis using assms(1) by (simp add: update_fee_details_lookup)
qed

lemma update_visa_status_null:
  assumes "map_of (databases.visa_statuses db) i = Some v"
    and "VisaStatusUpdate.visa_status u = Supplied None"
  shows "update_visa_status fac i u db = (Inl ValidationError, db)"
  using assms
  by (simp add: update_visa_status_lookup dict_update_null VisaStatusRead_init_null)

lemma update_address_cases:
  "update_address fac i u db = (Inl e, db') \<Longrightarrow> db' = db"
  unfolding update_address_lookup by (auto split: option.splits sum.splits)

lemma update_person_cases:
  "update_person EmailStr fac i u db = (Inl e, db') \<Longrightarrow> db' = db"
  unfolding update_person_lookup by (auto split: option.splits sum.splits)

lemma update_fee_details_cases:
  "update_fee_details fac i u db = (Inl e, db') \<Longrightarrow> db' = db"
  unfolding update_fee_details_lookup by (auto split: option.splits sum.splits)

lemma update_visa_status_cases:
  "update_visa_status fac i u db = (Inl e, db') \<Longrightarrow> db' = db"
  unfolding update_visa_status_lookup by (auto split: option.splits sum.splits)

lemma create_address_cases:
  "create_address fac a db = (Inl e, db') \<Longrightarrow> db' = db"
  using create_address_new [of a db fac] create_address_duplicate [of a db fac]
  by (cases "AddressBase.id a \<in> fst ` set (databases.addresses db)") auto

lemma create_person_cases:
  "create_person EmailStr fac p db = (Inl e, db') \<Longrightarrow> db' = db"
  unfolding create_person_result by (auto split: sum.splits)

lemma update_found:
  "update_address fac i ua db = (Inr a', dba) \<Longrightarrow> \<exists>a. map_of (databases.addresses db) i = Some a"
  "update_person EmailStr fac i up db = (Inr p', dbp) \<Longrightarrow>
     \<exists>p. map_of (databases.persons db) i = Some p"
  "update_fee_details fac i uf db = (Inr f', dbf) \<Longrightarrow>
     \<exists>f. map_of (databases.fee_details db) i = Some f"
  "update_visa_status fac i uv db = (Inr v', dbv) \<Longrightarrow>
     \<exists>v. map_of (databases.visa_statuses db) i = Some v"
  unfolding update_address_lookup update_person_lookup update_fee_details_lookup
    update_visa_status_lookup
  by (auto split: option.splits)

lemma dict_values_append: "dict_values (d @ [(k, v)]) = dict_values d @ [v]"
  by (simp add: dict_values_def)

lemma setitem_in_place:
  assumes "map_of d k = Some v0" and "ident v = ident v0"
  shows "\<exists>j<length d. fst (d ! j) = k \<and> dict_setitem d k v = d[j := (k, v)]"
    and "map fst (dict_setitem d k v) = map fst d"
    and "map ident (dict_values (dict_setitem d k v)) = map ident (dict_values d)"
proof -
  obtain j where j: "j < length d" "d ! j = (k, v0)" "dict_setitem d k v = d[j := (k, v)]"
    using dict_setitem_old [OF assms(1)] by blast
  show "\<exists>j<length d. fst (d ! j) = k \<and> dict_setitem d k v = d[j := (k, v)]"
    using j by (intro exI[of _ j]) simp
  have "(map fst d)[j := k] = map fst d"
    using j by (simp add: list_update_same_conv)
  then show "map fst (dict_setitem d k v) = map fst d"
    using j by (simp add: map_update)
  have "(map (ident \<circ> snd) d)[j := ident v] = map (ident \<circ> snd) d"
    using j assms(2) by (simp add: list_update_same_conv)
  then show "map ident (dict_values (dict_setitem d k v)) = map ident (dict_values d)"
    using j by (simp add: dict_values_def map_update)
qed

lemma update_person_InrD:
  assumes "map_of (databases.persons db) i = Some p"
    and "update_person EmailStr fac i u db = (Inr p', db')"
  shows "overwritten (PersonUpdate.uni u) (PersonBase.uni p) (PersonBase.uni p')"
    and "overwritten (PersonUpdate.first_name u) (PersonBase.first_name p)
           (PersonBase.first_name p')"
    and "overwritten (PersonUpdate.last_name u) (PersonBase.last_name p)
           (PersonBase.last_name p')"
    and "\<exists>e. dict_update (Some (PersonBase.email p)) (PersonUpdate.email u) = Some e \<and>
           EmailStr e = Some (PersonBase.email p')"
    and "overwritten_optional (PersonUpdate.phone u) (PersonBase.phone p) (PersonBase.phone p')"
    and "overwritten_optional (PersonUpdate.birth_date u) (PersonBase.birth_date p)
           (PersonBase.birth_date p')"
    and "\<exists>l. dict_update (Some (map model_dump_address (PersonBase.addresses p)))
             (PersonUpdate.addresses u) = Some l \<and>
           PersonBase.addresses p' = embedded_addresses fac l"
    and "PersonRead.id p' = PersonRead.id p"
    and "PersonRead.created_at p' = PersonRead.created_at p"
    and "PersonRead.updated_at p' = PersonRead.updated_at p"
    and "db' = db\<lparr> databases.persons := dict_setitem (databases.persons db) i p' \<rparr>"
    and "UNIType (PersonBase.uni p')"
  using assms unfolding update_person_lookup
  by (auto simp: default_factory_def dest!: PersonRead_init_InrD
      intro: dict_update_overwritten dict_update_overwritten_optional split: sum.splits)

lemma dict_update_required:
  assumes "f \<noteq> Supplied None"
  obtains x where "dict_update (Some old) f = Some x" "overwritten f old x"
    "supplied_is P f \<Longrightarrow> P old \<Longrightarrow> P x"
proof (cases f)
  case Unset
  then show ?thesis
    using that [of old] by (simp add: dict_update_def overwritten_def)
next
  case (Supplied v)
  then obtain x where "v = Some x" using assms by (cases v) auto
  then show ?thesis
    using that [of x] Supplied by (simp add: dict_update_def overwritten_def supplied_is_def)
qed

lemma addresses_update_required:
  assumes "f \<noteq> Supplied None"
  obtains l where "dict_update (Some (map model_dump_address old)) f = Some l"
    "addresses_overwritten f old (embedded_addresses fac l)"
proof (cases f)
  case Unset
  then show ?thesis
    using that [of "map model_dump_address old"]
    by (simp add: dict_update_def addresses_overwritten_def embedded_addresses_dump)
next
  case (Supplied v)
  then obtain l where "v = Some l" using assms by (cases v) auto
  then show ?thesis
    using that [of l] Supplied
    by (simp add: dict_update_def addresses_overwritten_def embedded_addresses_sent_as)
qed

lemma update_address_total:
  assumes stored: "map_of (databases.addresses db) i = Some a"
    and nonnull: "AddressUpdate.street u \<noteq> Supplied None"
      "AddressUpdate.city u \<noteq> Supplied None" "AddressUpdate.state u \<noteq> Supplied None"
      "AddressUpdate.postal_code u \<noteq> Supplied None" "AddressUpdate.country u \<noteq> Supplied None"
  shows "\<exists>a'. update_address fac i u db =
             (Inr a', db\<lparr> databases.addresses := dict_setitem (databases.addresses db) i a' \<rparr>) \<and>
           overwritten (AddressUpdate.street u) (AddressBase.street a) (AddressBase.street a') \<and>
           overwritten (AddressUpdate.city u) (AddressBase.city a) (AddressBase.city a') \<and>
           overwritten (AddressUpdate.state u) (AddressBase.state a) (AddressBase.state a') \<and>
           overwritten (AddressUpdate.postal_code u) (AddressBase.postal_code a)
             (AddressBase.postal_code a') \<and>
           overwritten (AddressUpdate.country u) (AddressBase.country a)
             (AddressBase.country a')"
proof -
  obtain st where st: "dict_update (Some (AddressBase.street a)) (AddressUpdate.street u) = Some st"
      "overwritten (AddressUpdate.street u) (AddressBase.street a) st"
    using dict_update_required [OF nonnull(1)] by metis
  obtain ci where ci: "dict_update (Some (AddressBase.city a)) (AddressUpdate.city u) = Some ci"
      "overwritten (AddressUpdate.city u) (AddressBase.city a) ci"
    using dict_update_required [OF nonnull(2)] by metis
  obtain sa where sa: "dict_update (Some (AddressBase.state a)) (AddressUpdate.state u) = Some sa"
      "overwritten (AddressUpdate.state u) (AddressBase.state a) sa"
    using dict_update_required [OF nonnull(3)] by metis
  obtain pc where pc:
      "dict_update (Some (AddressBase.postal_code a)) (AddressUpdate.postal_code u) = Some pc"
      "overwritten (AddressUpdate.postal_code u) (AddressBase.postal_code a) pc"
    using dict_update_required [OF nonnull(4)] by metis
  obtain co where co:
      "dict_update (Some (AddressBase.country a)) (AddressUpdate.country u) = Some co"
      "overwritten (AddressUpdate.country u) (AddressBase.country a) co"
    using dict_update_required [OF nonnull(5)] by metis
  show ?thesis
    using stored st ci sa pc co
    by (simp add: update_address_lookup AddressRead_init_def)
qed

lemma update_fee_details_total:
  assumes stored: "map_of (databases.fee_details db) i = Some f"
    and nonnull: "FeeDetailsUpdate.university_name u \<noteq> Supplied None"
      "FeeDetailsUpdate.number_of_credits u \<noteq> Supplied None"
      "FeeDetailsUpdate.fee_paid u \<noteq> Supplied None"
  shows "\<exists>f'. update_fee_details fac i u db =
             (Inr f',
              db\<lparr> databases.fee_details := dict_setitem (databases.fee_details db) i f' \<rparr>) \<and>
           overwritten (FeeDetailsUpdate.university_name u) (FeeDetailsBase.university_name f)
             (FeeDetailsBase.university_name f') \<and>
           overwritten (FeeDetailsUpdate.number_of_credits u)
             (FeeDetailsBase.number_of_credits f) (FeeDetailsBase.number_of_credits f') \<and>
           overwritten (FeeDetailsUpdate.fee_paid u) (FeeDetailsBase.fee_paid f)
             (FeeDetailsBase.fee_paid f')"
proof -
  obtain un where un:
      "dict_update (Some (FeeDetailsBase.university_name f))
         (FeeDetailsUpdate.university_name u) = Some un"
      "overwritten (FeeDetailsUpdate.university_name u) (FeeDetailsBase.university_name f) un"
    using dict_update_required [OF nonnull(1)] by metis
  obtain nc where nc:
      "dict_update (Some (FeeDetailsBase.number_of_credits f))
         (FeeDetailsUpdate.number_of_credits u) = Some nc"
      "overwritten (FeeDetailsUpdate.number_of_credits u)
         (FeeDetailsBase.number_of_credits f) nc"
    using dict_update_required [OF nonnull(2)] by metis
  obtain fp where fp:
      "dict_update (Some (FeeDetailsBase.fee_paid f)) (FeeDetailsUpdate.fee_paid u) = Some fp"
      "overwritten (FeeDetailsUpdate.fee_paid u) (FeeDetailsBase.fee_paid f) fp"
    using dict_update_required [OF nonnull(3)] by metis
  show ?thesis
    using stored un nc fp
    by (simp add: update_fee_details_lookup FeeDetailsRead_init_def)
qed

lemma update_visa_status_total:
  assumes stored: "map_of (databases.visa_statuses db) i = Some v"
    and nonnull: "VisaStatusUpdate.visa_status u \<noteq> Supplied None"
  shows "\<exists>v'. update_visa_status fac i u db =
             (Inr v',
              db\<lparr> databases.visa_statuses :=
                    dict_setitem (databases.visa_statuses db) i v' \<rparr>) \<and>
           overwritten (VisaStatusUpdate.visa_status u) (VisaStatusBase.visa_status v)
             (VisaStatusBase.visa_status v')"
proof -
  obtain vs where vs:
      "dict_update (Some (VisaStatusBase.visa_status v)) (VisaStatusUpdate.visa_status u) =
         Some vs"
      "overwritten (VisaStatusUpdate.visa_status u) (VisaStatusBase.visa_status v) vs"
    using dict_update_required [OF nonnull] by metis
  show ?thesis
    using stored vs
    by (simp add: update_visa_status_lookup VisaStatusRead_init_def)
qed

lemma update_person_total:
  assumes stored: "map_of (databases.persons db) i = Some p"
    and nonnull: "PersonUpdate.uni u \<noteq> Supplied None"
      "PersonUpdate.first_name u \<noteq> Supplied None" "PersonUpdate.last_name u \<noteq> Supplied None"
      "PersonUpdate.email u \<noteq> Supplied None" "PersonUpdate.addresses u \<noteq> Supplied None"
    and valid: "stored_valid EmailStr p" "update_valid EmailStr u"
  shows "\<exists>p'. update_person EmailStr fac i u db =
             (Inr p', db\<lparr> databases.persons := dict_setitem (databases.persons db) i p' \<rparr>) \<and>
           overwritten (PersonUpdate.uni u) (PersonBase.uni p) (PersonBase.uni p') \<and>
           overwritten (PersonUpdate.first_name u) (PersonBase.first_name p)
             (PersonBase.first_name p') \<and>
           overwritten (PersonUpdate.last_name u) (PersonBase.last_name p)
             (PersonBase.last_name p') \<and>
           overwritten (PersonUpdate.email u) (PersonBase.email p) (PersonBase.email p') \<and>
           overwritten_optional (PersonUpdate.phone u) (PersonBase.phone p)
             (PersonBase.phone p') \<and>
           overwritten_optional (PersonUpdate.birth_date u) (PersonBase.birth_date p)
             (PersonBase.birth_date p') \<and>
           addresses_overwritten (PersonUpdate.addresses u) (PersonBase.addresses p)
             (PersonBase.addresses p')"
proof -
  obtain un where un: "dict_update (Some (PersonBase.uni p)) (PersonUpdate.uni u) = Some un"
      "overwritten (PersonUpdate.uni u) (PersonBase.uni p) un" "UNIType un"
    using dict_update_required [OF nonnull(1), of "PersonBase.uni p" UNIType] valid
    unfolding stored_valid_def update_valid_def by metis
  obtain fn where fn:
      "dict_update (Some (PersonBase.first_name p)) (PersonUpdate.first_name u) = Some fn"
      "overwritten (PersonUpdate.first_name u) (PersonBase.first_name p) fn"
    using dict_update_required [OF nonnull(2)] by metis
  obtain ln where ln:
      "dict_update (Some (PersonBase.last_name p)) (PersonUpdate.last_name u) = Some ln"
      "overwritten (PersonUpdate.last_name u) (PersonBase.last_name p) ln"
    using dict_update_required [OF nonnull(3)] by metis
  obtain em where em: "dict_update (Some (PersonBase.email p)) (PersonUpdate.email u) = Some em"
      "overwritten (PersonUpdate.email u) (PersonBase.email p) em" "normalised_by EmailStr em"
    using dict_update_required [OF nonnull(4), of "PersonBase.email p" "normalised_by EmailStr"]
      valid
    unfolding stored_valid_def update_valid_def by metis
  obtain l where l:
      "dict_update (Some (map model_dump_address (PersonBase.addresses p)))
         (PersonUpdate.addresses u) = Some l"
      "addresses_overwritten (PersonUpdate.addresses u) (PersonBase.addresses p)
         (embedded_addresses fac l)"
    using addresses_update_required [OF nonnull(5)] by metis
  have "EmailStr em = Some em"
    using em(3) by (simp add: normalised_by_def)
  then show ?thesis
    using stored un fn ln em(1,2) l
    by (simp add: update_person_lookup PersonRead_init_Some
        dict_update_overwritten_optional)
qed

section \<open>The sample data, evaluated\<close>

lemma sample_db_lookups:
  "map_of (databases.persons sample_db) 7 = Some sample_person_read"
  "map_of (databases.addresses sample_db) 1 = Some sample_address_read"
  "map_of (databases.fee_details sample_db) 7 = Some sample_fee_read"
  "map_of (databases.visa_statuses sample_db) 7 = Some sample_visa_read"
  "map_of (databases.persons sample_db) 8 = None"
  "map_of (databases.addresses sample_db) 8 = None"
  "map_of (databases.fee_details sample_db) 8 = None"
  "map_of (databases.visa_statuses sample_db) 8 = None"
  by (simp_all add: sample_db_def)

lemma sample_mail:
  "sample_EmailStr (lit ''dy2530@columbia.edu'') = Some (lit ''dy2530@columbia.edu'')"
  "sample_EmailStr (lit ''DY2530@Columbia.EDU'') = Some (lit ''dy2530@columbia.edu'')"
  by (simp_all add: sample_EmailStr_def lit_def lower_def)

lemma sample_person_valid: "stored_valid sample_EmailStr sample_person_read"
  by (simp add: stored_valid_def normalised_by_def sample_person_read_def sample_uni sample_mail)

lemma sample_creates:
  "create_person sample_EmailStr (drawing 7 100 100) sample_person startup =
     (Inr sample_person_read, startup\<lparr> databases.persons := [(7, sample_person_read)] \<rparr>)"
  "create_fee_details (drawing 7 100 100) sample_fee startup =
     (Inr sample_fee_read, startup\<lparr> databases.fee_details := [(7, sample_fee_read)] \<rparr>)"
  "create_visa_status (drawing 7 100 100) sample_visa startup =
     (Inr sample_visa_read, startup\<lparr> databases.visa_statuses := [(7, sample_visa_read)] \<rparr>)"
  "create_address (drawing 9 100 100) sample_address startup =
     (Inr sample_address_read, startup\<lparr> databases.addresses := [(1, sample_address_read)] \<rparr>)"
proof -
  have "UNIType (PersonBase.uni sample_person)"
    "sample_EmailStr (PersonBase.email sample_person) = Some (lit ''dy2530@columbia.edu'')"
    by (simp_all add: sample_person_def sample_uni sample_mail)
  then show "create_person sample_EmailStr (drawing 7 100 100) sample_person startup =
     (Inr sample_person_read, startup\<lparr> databases.persons := [(7, sample_person_read)] \<rparr>)"
    by (simp add: create_person_valid)
      (simp add: sample_person_def drawing_def sample_person_read_def startup_def)
  show "create_fee_details (drawing 7 100 100) sample_fee startup =
     (Inr sample_fee_read, startup\<lparr> databases.fee_details := [(7, sample_fee_read)] \<rparr>)"
    by (simp add: create_fee_details_result startup_def drawing_def sample_fee_def
        sample_fee_read_def)
  show "create_visa_status (drawing 7 100 100) sample_visa startup =
     (Inr sample_visa_read, startup\<lparr> databases.visa_statuses := [(7, sample_visa_read)] \<rparr>)"
    by (simp add: create_visa_status_result startup_def drawing_def sample_visa_def
        sample_visa_read_def)
  show "create_address (drawing 9 100 100) sample_address startup =
     (Inr sample_address_read, startup\<lparr> databases.addresses := [(1, sample_address_read)] \<rparr>)"
    by (simp add: create_address_new startup_def drawing_def sample_address_def
        sample_address_read_def)
qed


lemma sample_update_address:
  "update_address later 1 brooklyn_update sample_db =
     (Inr (sample_address_read\<lparr> AddressBase.city := lit ''Brooklyn'' \<rparr>),
      sample_db\<lparr> databases.addresses :=
                   [(1, sample_address_read\<lparr> AddressBase.city := lit ''Brooklyn'' \<rparr>)] \<rparr>)"
  by (simp add: update_address_lookup sample_db_def brooklyn_update_def no_address_update_def
      dict_update_def AddressRead_init_def default_factory_def sample_address_read_def)

lemma sample_person_kwargs:
  "PersonRead_init sample_EmailStr later (Some (PersonBase.uni sample_person_read))
     (Some fn) (Some (PersonBase.last_name sample_person_read))
     (Some (PersonBase.email sample_person_read)) ph
     (PersonBase.birth_date sample_person_read) (Some l) (Some 7) (Some 100) (Some 100) =
   Inr (sample_person_read\<lparr> PersonBase.first_name := fn, PersonBase.phone := ph,
          PersonBase.addresses := embedded_addresses later l \<rparr>)"
proof -
  have "UNIType (PersonBase.uni sample_person_read)"
    "sample_EmailStr (PersonBase.email sample_person_read) =
       Some (PersonBase.email sample_person_read)"
    using sample_person_valid by (simp_all add: stored_valid_def normalised_by_def)
  then show ?thesis
    by (simp add: PersonRead_init_Some default_factory_def) (simp add: sample_person_read_def)
qed

lemma sample_person_same:
  "sample_person_read\<lparr> PersonBase.first_name := PersonBase.first_name sample_person_read,
       PersonBase.phone := PersonBase.phone sample_person_read,
       PersonBase.addresses := PersonBase.addresses sample_person_read \<rparr> = sample_person_read"
  by simp

lemma sample_update_person_general:
  assumes "PersonUpdate.uni u = Unset" "PersonUpdate.last_name u = Unset"
    "PersonUpdate.email u = Unset" "PersonUpdate.birth_date u = Unset"
    and "dict_update (Some (PersonBase.first_name sample_person_read))
           (PersonUpdate.first_name u) = Some fn"
    and "dict_update (PersonBase.phone sample_person_read) (PersonUpdate.phone u) = ph"
    and "dict_update (Some (map model_dump_address (PersonBase.addresses sample_person_read)))
           (PersonUpdate.addresses u) = Some l"
  shows "update_person sample_EmailStr later 7 u sample_db =
     (Inr (sample_person_read\<lparr> PersonBase.first_name := fn, PersonBase.phone := ph,
             PersonBase.addresses := embedded_addresses later l \<rparr>),
      sample_db\<lparr> databases.persons :=
        [(7, sample_person_read\<lparr> PersonBase.first_name := fn, PersonBase.phone := ph,
               PersonBase.addresses := embedded_addresses later l \<rparr>)] \<rparr>)"
proof -
  have ids: "PersonRead.id sample_person_read = 7"
    "PersonRead.created_at sample_person_read = 100"
    "PersonRead.updated_at sample_person_read = 100"
    by (simp_all add: sample_person_read_def)
  have d: "databases.persons sample_db = [(7, sample_person_read)]"
    by (simp add: sample_db_def)
  show ?thesis
    using assms
    by (simp add: update_person_lookup sample_db_lookups dict_update_Unset ids
        sample_person_kwargs d)
qed

lemma sample_update_person:
  "update_person sample_EmailStr later 7 phone_update sample_db =
     (Inr (sample_person_read\<lparr> PersonBase.phone := Some (lit ''+1-212-555-0100'') \<rparr>),
      sample_db\<lparr> databases.persons :=
        [(7, sample_person_read\<lparr> PersonBase.phone := Some (lit ''+1-212-555-0100'') \<rparr>)] \<rparr>)"
proof -
  note g = sample_update_person_general [of phone_update
      "PersonBase.first_name sample_person_read" "Some (lit ''+1-212-555-0100'')"
      "map model_dump_address (PersonBase.addresses sample_person_read)"]
  have "update_person sample_EmailStr later 7 phone_update sample_db =
     (Inr (sample_person_read\<lparr> PersonBase.first_name := PersonBase.first_name sample_person_read,
             PersonBase.phone := Some (lit ''+1-212-555-0100''),
             PersonBase.addresses := embedded_addresses later
               (map model_dump_address (PersonBase.addresses sample_person_read)) \<rparr>),
      sample_db\<lparr> databases.persons :=
        [(7, sample_person_read\<lparr> PersonBase.first_name :=
                 PersonBase.first_name sample_person_read,
               PersonBase.phone := Some (lit ''+1-212-555-0100''),
               PersonBase.addresses := embedded_addresses later
                 (map model_dump_address (PersonBase.addresses sample_person_read)) \<rparr>)] \<rparr>)"
    by (rule g) (simp_all add: phone_update_def no_person_update_def dict_update_def)
  then show ?thesis
    by (simp add: embedded_addresses_dump)
qed

lemma sample_update_person_nothing:
  "update_person sample_EmailStr later 7 no_person_update sample_db =
     (Inr sample_person_read, sample_db)"
proof -
  note g = sample_update_person_general [of no_person_update
      "PersonBase.first_name sample_person_read" "PersonBase.phone sample_person_read"
      "map model_dump_address (PersonBase.addresses sample_person_read)"]
  have "update_person sample_EmailStr later 7 no_person_update sample_db =
     (Inr (sample_person_read\<lparr> PersonBase.first_name := PersonBase.first_name sample_person_read,
             PersonBase.phone := PersonBase.phone sample_person_read,
             PersonBase.addresses := embedded_addresses later
               (map model_dump_address (PersonBase.addresses sample_person_read)) \<rparr>),
      sample_db\<lparr> databases.persons :=
        [(7, sample_person_read\<lparr> PersonBase.first_name :=
                 PersonBase.first_name sample_person_read,
               PersonBase.phone := PersonBase.phone sample_person_read,
               PersonBase.addresses := embedded_addresses later
                 (map model_dump_address (PersonBase.addresses sample_person_read)) \<rparr>)] \<rparr>)"
    by (rule g) (simp_all add: no_person_update_def dict_update_def)
  then show ?thesis
    by (simp add: embedded_addresses_dump) (simp add: sample_db_def)
qed

lemma sample_update_person_addresses:
  "update_person sample_EmailStr later 7 clear_addresses_update sample_db =
     (Inr (sample_person_read\<lparr> PersonBase.addresses := [] \<rparr>),
      sample_db\<lparr> databases.persons :=
                   [(7, sample_person_read\<lparr> PersonBase.addresses := [] \<rparr>)] \<rparr>)"
proof -
  note g = sample_update_person_general [of clear_addresses_update
      "PersonBase.first_name sample_person_read" "PersonBase.phone sample_person_read" "[]"]
  have "update_person sample_EmailStr later 7 clear_addresses_update sample_db =
     (Inr (sample_person_read\<lparr> PersonBase.first_name := PersonBase.first_name sample_person_read,
             PersonBase.phone := PersonBase.phone sample_person_read,
             PersonBase.addresses := embedded_addresses later [] \<rparr>),
      sample_db\<lparr> databases.persons :=
        [(7, sample_person_read\<lparr> PersonBase.first_name :=
                 PersonBase.first_name sample_person_read,
               PersonBase.phone := PersonBase.phone sample_person_read,
               PersonBase.addresses := embedded_addresses later [] \<rparr>)] \<rparr>)"
    by (rule g) (simp_all add: clear_addresses_update_def no_person_update_def dict_update_def)
  then show ?thesis
    by (simp add: embedded_addresses_Nil)
qed

lemma sample_embedded:
  "embedded_addresses later [boston_sent, albany_sent] = [boston_stored, albany_stored]"
  by (simp add: embedded_addresses_def enumerate_eq_zip AddressBase_init_def later_def
      drawing_def default_factory_def boston_sent_def albany_sent_def boston_stored_def
      albany_stored_def upt_rec)

lemma sample_update_person_moved:
  "update_person sample_EmailStr later 7 moved_update sample_db =
     (Inr (sample_person_read\<lparr> PersonBase.first_name := lit ''Dhanvanth'',
             PersonBase.addresses := [boston_stored, albany_stored] \<rparr>),
      sample_db\<lparr> databases.persons :=
        [(7, sample_person_read\<lparr> PersonBase.first_name := lit ''Dhanvanth'',
               PersonBase.addresses := [boston_stored, albany_stored] \<rparr>)] \<rparr>)"
proof -
  note g = sample_update_person_general [of moved_update
      "lit ''Dhanvanth''" "PersonBase.phone sample_person_read" "[boston_sent, albany_sent]"]
  have "update_person sample_EmailStr later 7 moved_update sample_db =
     (Inr (sample_person_read\<lparr> PersonBase.first_name := lit ''Dhanvanth'',
             PersonBase.phone := PersonBase.phone sample_person_read,
             PersonBase.addresses := embedded_addresses later [boston_sent, albany_sent] \<rparr>),
      sample_db\<lparr> databases.persons :=
        [(7, sample_person_read\<lparr> PersonBase.first_name := lit ''Dhanvanth'',
               PersonBase.phone := PersonBase.phone sample_person_read,
               PersonBase.addresses :=
                 embedded_addresses later [boston_sent, albany_sent] \<rparr>)] \<rparr>)"
    by (rule g) (simp_all add: moved_update_def no_person_update_def dict_update_def)
  then show ?thesis
    by (simp add: sample_embedded)
qed

lemma sample_update_fee_details:
  "update_fee_details later 7 credits_update sample_db =
     (Inr (sample_fee_read\<lparr> FeeDetailsBase.number_of_credits := 36 \<rparr>),
      sample_db\<lparr> databases.fee_details :=
                   [(7, sample_fee_read\<lparr> FeeDetailsBase.number_of_credits := 36 \<rparr>)] \<rparr>)"
  by (simp add: update_fee_details_lookup sample_db_def credits_update_def no_fee_update_def
      dict_update_def FeeDetailsRead_init_def default_factory_def sample_fee_read_def)

lemma sample_update_visa_status:
  "update_visa_status later 7 opt_update sample_db =
     (Inr (sample_visa_read\<lparr> VisaStatusBase.visa_status := lit ''OPT'' \<rparr>),
      sample_db\<lparr> databases.visa_statuses :=
                   [(7, sample_visa_read\<lparr> VisaStatusBase.visa_status := lit ''OPT'' \<rparr>)] \<rparr>)"
  by (simp add: update_visa_status_lookup sample_db_def opt_update_def
      dict_update_def VisaStatusRead_init_def default_factory_def sample_visa_read_def)

lemma sample_failures:
  "create_address later sample_address sample_db = (Inl DuplicateIdentity, sample_db)"
  "create_person sample_EmailStr later (sample_person\<lparr> PersonBase.uni := lit ''AB123'' \<rparr>)
     sample_db = (Inl ValidationError, sample_db)"
  "update_address later 8 brooklyn_update sample_db = (Inl NotFound, sample_db)"
  "update_person sample_EmailStr later 8 phone_update sample_db = (Inl NotFound, sample_db)"
  "update_fee_details later 8 credits_update sample_db = (Inl NotFound, sample_db)"
  "update_visa_status later 8 opt_update sample_db = (Inl NotFound, sample_db)"
proof -
  have "AddressBase.id sample_address \<in> fst ` set (databases.addresses sample_db)"
    by (simp add: sample_address_def sample_db_def)
  then show "create_address later sample_address sample_db = (Inl DuplicateIdentity, sample_db)"
    by (rule create_address_duplicate)
  show "create_person sample_EmailStr later (sample_person\<lparr> PersonBase.uni := lit ''AB123'' \<rparr>)
      sample_db = (Inl ValidationError, sample_db)"
    by (rule create_person_invalid) (simp add: sample_bad_unis)
  show "update_address later 8 brooklyn_update sample_db = (Inl NotFound, sample_db)"
    by (simp add: update_address_lookup sample_db_lookups)
  show "update_person sample_EmailStr later 8 phone_update sample_db = (Inl NotFound, sample_db)"
    by (simp add: update_person_lookup sample_db_lookups)
  show "update_fee_details later 8 credits_update sample_db = (Inl NotFound, sample_db)"
    by (simp add: update_fee_details_lookup sample_db_lookups)
  show "update_visa_status later 8 opt_update sample_db = (Inl NotFound, sample_db)"
    by (simp add: update_visa_status_lookup sample_db_lookups)
qed

lemma sample_db_reachable: "reachable sample_EmailStr sample_db"
proof -
  let ?d1 = "snd (create_person sample_EmailStr (drawing 7 100 100) sample_person startup)"
  let ?d2 = "snd (create_address (drawing 9 100 100) sample_address ?d1)"
  let ?d3 = "snd (create_fee_details (drawing 7 100 100) sample_fee ?d2)"
  let ?d4 = "snd (create_visa_status (drawing 7 100 100) sample_visa ?d3)"
  have "reachable sample_EmailStr ?d4"
    by (intro reachable.create_visa_status reachable.create_fee_details
        reachable.create_address reachable.create_person reachable.startup)
  moreover have "?d1 = startup\<lparr> databases.persons := [(7, sample_person_read)] \<rparr>"
    by (simp add: sample_creates)
  then have "?d4 = sample_db"
    by (simp add: create_address_new create_fee_details_result
        create_visa_status_result startup_def sample_db_def drawing_def sample_address_def
        sample_address_read_def sample_fee_def sample_fee_read_def sample_visa_def
        sample_visa_read_def)
  ultimately show ?thesis by simp
qed

section \<open>The properties\<close>

subsection \<open>Creates and updates keep the keys in agreement\<close>

lemma agreement_create_address:
  "key_record_agreement db \<Longrightarrow> key_record_agreement (snd (create_address fac a db))"
proof (cases "AddressBase.id a \<in> fst ` set (databases.addresses db)")
  case True
  then show "key_record_agreement db \<Longrightarrow> ?thesis" by (simp add: create_address_duplicate)
next
  case False
  then show "key_record_agreement db \<Longrightarrow> ?thesis"
    by (simp add: create_address_new key_record_agreement_def keys_agree_def)
qed

lemma agreement_create_person:
  "key_record_agreement db \<Longrightarrow> key_record_agreement (snd (create_person EmailStr fac p db))"
  unfolding create_person_result
  by (auto simp: key_record_agreement_def default_factory_def
      dest!: PersonRead_init_InrD intro!: keys_agree_setitem split: sum.splits)

lemma agreement_create_fee_details:
  "key_record_agreement db \<Longrightarrow> key_record_agreement (snd (create_fee_details fac f db))"
  unfolding create_fee_details_result
  by (auto simp: key_record_agreement_def intro!: keys_agree_setitem)

lemma agreement_create_visa_status:
  "key_record_agreement db \<Longrightarrow> key_record_agreement (snd (create_visa_status fac v db))"
  unfolding create_visa_status_result
  by (auto simp: key_record_agreement_def intro!: keys_agree_setitem)

lemma agreement_update_address:
  "key_record_agreement db \<Longrightarrow> key_record_agreement (snd (update_address fac i u db))"
  unfolding update_address_lookup
  by (auto simp: key_record_agreement_def default_factory_def
      dest!: AddressRead_init_InrD dest: keys_agree_map_of intro!: keys_agree_setitem
      split: option.splits sum.splits)

lemma agreement_update_person:
  "key_record_agreement db \<Longrightarrow>
     key_record_agreement (snd (update_person EmailStr fac i u db))"
  unfolding update_person_lookup
  by (auto simp: key_record_agreement_def default_factory_def
      dest!: PersonRead_init_InrD dest: keys_agree_map_of intro!: keys_agree_setitem
      split: option.splits sum.splits)

lemma agreement_update_fee_details:
  "key_record_agreement db \<Longrightarrow> key_record_agreement (snd (update_fee_details fac i u db))"
  unfolding update_fee_details_lookup
  by (auto simp: key_record_agreement_def default_factory_def
      dest!: FeeDetailsRead_init_InrD dest: keys_agree_map_of intro!: keys_agree_setitem
      split: option.splits sum.splits)

lemma agreement_update_visa_status:
  "key_record_agreement db \<Longrightarrow> key_record_agreement (snd (update_visa_status fac i u db))"
  unfolding update_visa_status_lookup
  by (auto simp: key_record_agreement_def default_factory_def
      dest!: VisaStatusRead_init_InrD dest: keys_agree_map_of intro!: keys_agree_setitem
      split: option.splits sum.splits)

text \<open>
  C10. In every state that creates and updates can produce from the empty dictionaries,
  each of the four dictionaries stores under every key a record whose identifier is that
  key.
\<close>

theorem reachable_key_record_agreement:
  "reachable EmailStr db \<Longrightarrow> key_record_agreement db"
proof (induction rule: reachable.induct)
  case startup
  show ?case by (simp add: key_record_agreement_def keys_agree_def startup_def)
next
  case (create_address db fac address)
  then show ?case by (simp add: agreement_create_address)
next
  case (update_address db fac address_id address_update)
  then show ?case by (simp add: agreement_update_address)
next
  case (create_person db fac person)
  then show ?case by (simp add: agreement_create_person)
next
  case (update_person db fac person_id person_update)
  then show ?case by (simp add: agreement_update_person)
next
  case (create_fee_details db fac fee)
  then show ?case by (simp add: agreement_create_fee_details)
next
  case (update_fee_details db fac fee_id fee_update)
  then show ?case by (simp add: agreement_update_fee_details)
next
  case (create_visa_status db fac visa)
  then show ?case by (simp add: agreement_create_visa_status)
next
  case (update_visa_status db fac visa_id visa_update)
  then show ?case by (simp add: agreement_update_visa_status)
qed

theorem reachable_key_record_agreement_witness:
  "reachable sample_EmailStr sample_db \<and> key_record_agreement sample_db \<and>
   PersonRead.id sample_person_read = 7 \<and> AddressBase.id sample_address_read = 1"
  using reachable_key_record_agreement [OF sample_db_reachable] sample_db_reachable
  by (simp add: sample_person_read_def sample_address_read_def)

subsection \<open>Listing as one filter\<close>

lemma only_if_filter:
  "only_if q P results = filter (\<lambda>r. case q of None \<Rightarrow> True | Some v \<Rightarrow> P v r) results"
  by (cases q) (simp_all add: only_if_def)

lemma list_addresses_selected:
  "list_addresses street' city' state' postal_code' country' db =
     filter (address_selected street' city' state' postal_code' country')
       (dict_values (databases.addresses db))"
  unfolding list_addresses_def Let_def only_if_filter filter_filter
  by (rule filter_cong) (auto simp: address_selected_def selected_def split: option.splits)

lemma list_fee_details_selected:
  "list_fee_details university_name' fee_paid' db =
     filter (fee_details_selected university_name' fee_paid')
       (dict_values (databases.fee_details db))"
  unfolding list_fee_details_def Let_def only_if_filter filter_filter
  by (rule filter_cong) (auto simp: fee_details_selected_def selected_def split: option.splits)

lemma list_visa_statuses_selected:
  "list_visa_statuses visa_status' db =
     filter (visa_status_selected visa_status') (dict_values (databases.visa_statuses db))"
  unfolding list_visa_statuses_def Let_def only_if_filter
  by (rule filter_cong) (auto simp: visa_status_selected_def selected_def split: option.splits)

lemma length_zfill: "w \<le> length (zfill w s)"
  by (simp add: zfill_def)

lemma length_isoformat: "10 \<le> length (isoformat d)"
proof -
  have "4 \<le> length (zfill 4 (decimal (year d)))" "2 \<le> length (zfill 2 (decimal (month d)))"
    "2 \<le> length (zfill 2 (decimal (day d)))"
    by (rule length_zfill)+
  then show ?thesis by (simp add: isoformat_def)
qed

lemma isoformat_not_None: "isoformat d \<noteq> lit ''None''"
  using length_isoformat [of d] by (auto simp: lit_def)

lemma str_date_selected:
  "v \<noteq> lit ''None'' \<Longrightarrow> (str_date x = v) = selected_date (Some v) x"
  using isoformat_not_None by (cases x) (auto simp: str_date_def selected_date_def)

lemma list_persons_kept:
  "list_persons uni' first_name' last_name' email' phone' birth_date' city' country' db =
     filter (\<lambda>p. selected uni' (PersonBase.uni p) \<and>
                 selected first_name' (PersonBase.first_name p) \<and>
                 selected last_name' (PersonBase.last_name p) \<and>
                 selected email' (PersonBase.email p) \<and>
                 selected (map_option Some phone') (PersonBase.phone p) \<and>
                 selected birth_date' (str_date (PersonBase.birth_date p)) \<and>
                 selected_any city' AddressBase.city (PersonBase.addresses p) \<and>
                 selected_any country' AddressBase.country (PersonBase.addresses p))
       (dict_values (databases.persons db))"
  unfolding list_persons_def Let_def only_if_filter filter_filter
  by (rule filter_cong)
    (auto simp: selected_def selected_any_def split: option.splits)

lemma list_persons_selected:
  assumes "birth_date' \<noteq> Some (lit ''None'')"
  shows "list_persons uni' first_name' last_name' email' phone' birth_date' city' country' db =
     filter (person_selected uni' first_name' last_name' email' phone' birth_date' city' country')
       (dict_values (databases.persons db))"
proof -
  have "selected birth_date' (str_date x) = selected_date birth_date' x" for x
  proof (cases birth_date')
    case None
    then show ?thesis by (simp add: selected_def selected_date_def)
  next
    case (Some v)
    then have "v \<noteq> lit ''None''" using assms by simp
    then show ?thesis using Some str_date_selected [of v x] by (simp add: selected_def)
  qed
  then show ?thesis
    unfolding list_persons_kept person_selected_def by simp
qed

text \<open>
  C3 at a failing input. The stored sample person has no date of birth. The list request
  with the only filter \<^verbatim>\<open>birth_date=None\<close> returns that person, because
  \<^verbatim>\<open>str(p.birth_date)\<close> is the text \<^verbatim>\<open>None\<close> for a missing date; the records whose
  date of birth has the canonical text \<^verbatim>\<open>None\<close> are none. For every other filter
  value, and for the other three resources, the listing is exactly the selected records
  (\<open>list_persons_selected\<close>, \<open>list_addresses_selected\<close>,
  \<open>list_fee_details_selected\<close>, \<open>list_visa_statuses_selected\<close>).
\<close>

theorem birth_date_filter_None:
  "PersonBase.birth_date sample_person_read = None \<and>
   dict_values (databases.persons sample_db) = [sample_person_read] \<and>
   list_persons None None None None None (Some (lit ''None'')) None None sample_db =
     [sample_person_read] \<and>
   filter (person_selected None None None None None (Some (lit ''None'')) None None)
     (dict_values (databases.persons sample_db)) = []"
proof -
  have none: "PersonBase.birth_date sample_person_read = None"
    by (simp add: sample_person_read_def)
  have vals: "dict_values (databases.persons sample_db) = [sample_person_read]"
    by (simp add: dict_values_def sample_db_def)
  have "list_persons None None None None None (Some (lit ''None'')) None None sample_db =
     [sample_person_read]"
    by (simp add: list_persons_kept vals none selected_def selected_any_def str_date_def)
  moreover have "filter (person_selected None None None None None (Some (lit ''None'')) None None)
     (dict_values (databases.persons sample_db)) = []"
    by (simp add: vals none person_selected_def selected_date_def)
  ultimately show ?thesis using none vals by blast
qed

subsection \<open>Stored persons pass the validators again\<close>

lemma lower_lower: "lower (lower c) = lower c"
  by (simp add: lower_def)

lemma normalising_sample: "normalising sample_EmailStr"
proof -
  have "64 \<in> set (map lower e)" if "64 \<in> set e" for e
  proof -
    have "lower 64 \<in> lower ` set e" using that by (rule imageI)
    then show ?thesis by (simp add: lower_def)
  qed
  moreover have "map lower (map lower e) = map lower e" for e
    by (simp add: lower_lower)
  ultimately show ?thesis
    by (auto simp: normalising_def sample_EmailStr_def split: if_splits)
qed

lemma list_all_dict_setitem:
  "list_all (\<lambda>(k, r). P r) d \<Longrightarrow> P v \<Longrightarrow> list_all (\<lambda>(k, r). P r) (dict_setitem d k v)"
  by (induction d) auto

lemma list_all_map_of:
  "list_all (\<lambda>(k, r). P r) d \<Longrightarrow> map_of d k = Some v \<Longrightarrow> P v"
  by (induction d) (auto split: if_splits)

lemma create_person_stored_valid:
  assumes "normalising EmailStr"
    and "list_all (\<lambda>(k, r). stored_valid EmailStr r) (databases.persons db)"
  shows "list_all (\<lambda>(k, r). stored_valid EmailStr r)
           (databases.persons (snd (create_person EmailStr fac person db)))"
proof (cases "PersonRead_init EmailStr fac (Some (PersonBase.uni person))
             (Some (PersonBase.first_name person)) (Some (PersonBase.last_name person))
             (Some (PersonBase.email person)) (PersonBase.phone person)
             (PersonBase.birth_date person)
             (Some (map model_dump_address (PersonBase.addresses person))) None None None")
  case (Inl e)
  then show ?thesis using assms(2) by (simp add: create_person_result)
next
  case (Inr r)
  from PersonRead_init_InrD [OF Inr]
  obtain e where "EmailStr e = Some (PersonBase.email r)" and "UNIType (PersonBase.uni r)"
    by blast
  then have "stored_valid EmailStr r"
    using assms(1) by (auto simp: stored_valid_def normalised_by_def normalising_def)
  then show ?thesis
    using assms(2) Inr by (simp add: create_person_result list_all_dict_setitem)
qed

lemma update_person_stored_valid:
  assumes "normalising EmailStr"
    and "list_all (\<lambda>(k, r). stored_valid EmailStr r) (databases.persons db)"
  shows "list_all (\<lambda>(k, r). stored_valid EmailStr r)
           (databases.persons (snd (update_person EmailStr fac i u db)))"
proof (cases "update_person EmailStr fac i u db")
  case (Pair res db')
  show ?thesis
  proof (cases res)
    case (Inl e)
    then have "db' = db" using Pair update_person_cases by blast
    then show ?thesis using assms(2) Pair by simp
  next
    case (Inr p')
    then have upd: "update_person EmailStr fac i u db = (Inr p', db')" using Pair by simp
    then obtain p where p: "map_of (databases.persons db) i = Some p"
      using update_found(2) by blast
    from update_person_InrD(4) [OF p upd]
    obtain e where "EmailStr e = Some (PersonBase.email p')" by blast
    then have "stored_valid EmailStr p'"
      using assms(1) update_person_InrD(12) [OF p upd]
      by (auto simp: stored_valid_def normalised_by_def normalising_def)
    moreover have "db' = db\<lparr> databases.persons := dict_setitem (databases.persons db) i p' \<rparr>"
      using update_person_InrD(11) [OF p upd] .
    ultimately show ?thesis
      using assms(2) upd by (simp add: list_all_dict_setitem)
  qed
qed

lemma persons_create_address:
  "databases.persons (snd (create_address fac a db)) = databases.persons db"
  using create_address_new [of a db fac] create_address_duplicate [of a db fac]
  by (cases "AddressBase.id a \<in> fst ` set (databases.addresses db)") auto

lemma persons_update_address:
  "databases.persons (snd (update_address fac i u db)) = databases.persons db"
  unfolding update_address_lookup by (auto split: option.splits sum.splits)

lemma persons_create_fee_details:
  "databases.persons (snd (create_fee_details fac f db)) = databases.persons db"
  by (simp add: create_fee_details_result)

lemma persons_update_fee_details:
  "databases.persons (snd (update_fee_details fac i u db)) = databases.persons db"
  unfolding update_fee_details_lookup by (auto split: option.splits sum.splits)

lemma persons_create_visa_status:
  "databases.persons (snd (create_visa_status fac v db)) = databases.persons db"
  by (simp add: create_visa_status_result)

lemma persons_update_visa_status:
  "databases.persons (snd (update_visa_status fac i u db)) = databases.persons db"
  unfolding update_visa_status_lookup by (auto split: option.splits sum.splits)

lemma reachable_persons_all_valid:
  assumes "normalising EmailStr"
  shows "reachable EmailStr db \<Longrightarrow>
           list_all (\<lambda>(k, r). stored_valid EmailStr r) (databases.persons db)"
proof (induction rule: reachable.induct)
  case startup
  show ?case by (simp add: startup_def)
next
  case (create_address db fac address)
  then show ?case by (simp add: persons_create_address)
next
  case (update_address db fac address_id address_update)
  then show ?case by (simp add: persons_update_address)
next
  case (create_person db fac person)
  then show ?case using assms by (simp add: create_person_stored_valid)
next
  case (update_person db fac person_id person_update)
  then show ?case using assms by (simp add: update_person_stored_valid)
next
  case (create_fee_details db fac fee)
  then show ?case by (simp add: persons_create_fee_details)
next
  case (update_fee_details db fac fee_id fee_update)
  then show ?case by (simp add: persons_update_fee_details)
next
  case (create_visa_status db fac visa)
  then show ?case by (simp add: persons_create_visa_status)
next
  case (update_visa_status db fac visa_id visa_update)
  then show ?case by (simp add: persons_update_visa_status)
qed

lemma reachable_persons_valid:
  "normalising EmailStr \<Longrightarrow> reachable EmailStr db \<Longrightarrow>
     map_of (databases.persons db) i = Some p \<Longrightarrow> stored_valid EmailStr p"
  using reachable_persons_all_valid list_all_map_of by fast

subsection \<open>What the validation of a request returns\<close>



lemma PersonUpdate_validate_InrD:
  assumes "PersonUpdate_validate EmailStr body = Inr u"
  shows "supplied_is UNIType (PersonUpdate.uni u)"
    and "u = body\<lparr> PersonUpdate.email := PersonUpdate.email u \<rparr>"
    and "case PersonUpdate.email body of
           Unset \<Rightarrow> PersonUpdate.email u = Unset
         | Supplied x \<Rightarrow>
             (case x of None \<Rightarrow> PersonUpdate.email u = Supplied None
              | Some e \<Rightarrow> \<exists>n. EmailStr e = Some n \<and> PersonUpdate.email u = Supplied (Some n))"
    and "normalising EmailStr \<Longrightarrow> supplied_is (normalised_by EmailStr) (PersonUpdate.email u)"
  using assms
  by (auto simp: PersonUpdate_validate_def supplied_is_def normalised_by_def normalising_def
      split: field.splits option.splits if_splits)

lemma PersonUpdate_validate_valid:
  "normalising EmailStr \<Longrightarrow> PersonUpdate_validate EmailStr body = Inr u \<Longrightarrow>
     update_valid EmailStr u"
  by (simp add: update_valid_def PersonUpdate_validate_InrD)

lemma PersonUpdate_validate_no_mail:
  "PersonUpdate.uni body = Unset \<Longrightarrow> PersonUpdate.email body = Unset \<Longrightarrow>
     PersonUpdate_validate EmailStr body = Inr body"
  by (simp add: PersonUpdate_validate_def)

text \<open>
  C2, as the code has it. For each of the four resources, a stored record and an update
  payload that holds no explicit \<^verbatim>\<open>null\<close> for a required field: the update
  succeeds, the record it returns replaces the stored one under the same identifier and
  at the same place, each field the payload supplies has the payload's value, and each
  field the payload leaves out has the value it had before. For a person this is the
  request as FastAPI runs it: the state is one that creates and updates produced, the
  payload \<open>up\<close> is the body after the validation of the request (the body with the
  e-mail in normalised form), the library's validator returns normalised e-mails
  unchanged, and the addresses supplied are stored as sent. An update whose payload
  supplies an explicit \<^verbatim>\<open>null\<close> for a required field fails with a validation error
  and leaves the dictionaries unchanged.
\<close>

theorem partial_update_fields:
  "(map_of (databases.addresses db) i = Some a \<and>
      AddressUpdate.street ua \<noteq> Supplied None \<and> AddressUpdate.city ua \<noteq> Supplied None \<and>
      AddressUpdate.state ua \<noteq> Supplied None \<and>
      AddressUpdate.postal_code ua \<noteq> Supplied None \<and>
      AddressUpdate.country ua \<noteq> Supplied None \<longrightarrow>
        (\<exists>a'. update_address fac i ua db =
                 (Inr a', db\<lparr> databases.addresses :=
                                dict_setitem (databases.addresses db) i a' \<rparr>) \<and>
               overwritten (AddressUpdate.street ua) (AddressBase.street a)
                 (AddressBase.street a') \<and>
               overwritten (AddressUpdate.city ua) (AddressBase.city a) (AddressBase.city a') \<and>
               overwritten (AddressUpdate.state ua) (AddressBase.state a)
                 (AddressBase.state a') \<and>
               overwritten (AddressUpdate.postal_code ua) (AddressBase.postal_code a)
                 (AddressBase.postal_code a') \<and>
               overwritten (AddressUpdate.country ua) (AddressBase.country a)
                 (AddressBase.country a'))) \<and>
   (normalising EmailStr \<and> reachable EmailStr db \<and>
      map_of (databases.persons db) i = Some p \<and>
      PersonUpdate_validate EmailStr body = Inr up \<and>
      PersonUpdate.uni up \<noteq> Supplied None \<and> PersonUpdate.first_name up \<noteq> Supplied None \<and>
      PersonUpdate.last_name up \<noteq> Supplied None \<and> PersonUpdate.email up \<noteq> Supplied None \<and>
      PersonUpdate.addresses up \<noteq> Supplied None \<longrightarrow>
        up = body\<lparr> PersonUpdate.email := PersonUpdate.email up \<rparr> \<and>
        patch_persons EmailStr fac i body db = update_person EmailStr fac i up db \<and>
        (\<exists>p'. update_person EmailStr fac i up db =
                 (Inr p', db\<lparr> databases.persons :=
                                dict_setitem (databases.persons db) i p' \<rparr>) \<and>
               overwritten (PersonUpdate.uni up) (PersonBase.uni p) (PersonBase.uni p') \<and>
               overwritten (PersonUpdate.first_name up) (PersonBase.first_name p)
                 (PersonBase.first_name p') \<and>
               overwritten (PersonUpdate.last_name up) (PersonBase.last_name p)
                 (PersonBase.last_name p') \<and>
               overwritten (PersonUpdate.email up) (PersonBase.email p)
                 (PersonBase.email p') \<and>
               overwritten_optional (PersonUpdate.phone up) (PersonBase.phone p)
                 (PersonBase.phone p') \<and>
               overwritten_optional (PersonUpdate.birth_date up) (PersonBase.birth_date p)
                 (PersonBase.birth_date p') \<and>
               addresses_overwritten (PersonUpdate.addresses up) (PersonBase.addresses p)
                 (PersonBase.addresses p'))) \<and>
   (map_of (databases.fee_details db) i = Some f \<and>
      FeeDetailsUpdate.university_name uf \<noteq> Supplied None \<and>
      FeeDetailsUpdate.number_of_credits uf \<noteq> Supplied None \<and>
      FeeDetailsUpdate.fee_paid uf \<noteq> Supplied None \<longrightarrow>
        (\<exists>f'. update_fee_details fac i uf db =
                 (Inr f', db\<lparr> databases.fee_details :=
                                dict_setitem (databases.fee_details db) i f' \<rparr>) \<and>
               overwritten (FeeDetailsUpdate.university_name uf)
                 (FeeDetailsBase.university_name f) (FeeDetailsBase.university_name f') \<and>
               overwritten (FeeDetailsUpdate.number_of_credits uf)
                 (FeeDetailsBase.number_of_credits f) (FeeDetailsBase.number_of_credits f') \<and>
               overwritten (FeeDetailsUpdate.fee_paid uf) (FeeDetailsBase.fee_paid f)
                 (FeeDetailsBase.fee_paid f'))) \<and>
   (map_of (databases.visa_statuses db) i = Some v \<and>
      VisaStatusUpdate.visa_status uv \<noteq> Supplied None \<longrightarrow>
        (\<exists>v'. update_visa_status fac i uv db =
                 (Inr v', db\<lparr> databases.visa_statuses :=
                                dict_setitem (databases.visa_statuses db) i v' \<rparr>) \<and>
               overwritten (VisaStatusUpdate.visa_status uv) (VisaStatusBase.visa_status v)
                 (VisaStatusBase.visa_status v'))) \<and>
   (map_of (databases.addresses db) i = Some a \<and>
      (AddressUpdate.street ua = Supplied None \<or> AddressUpdate.city ua = Supplied None \<or>
       AddressUpdate.state ua = Supplied None \<or> AddressUpdate.postal_code ua = Supplied None \<or>
       AddressUpdate.country ua = Supplied None) \<longrightarrow>
        update_address fac i ua db = (Inl ValidationError, db)) \<and>
   (map_of (databases.persons db) i = Some p \<and>
      (PersonUpdate.uni up = Supplied None \<or> PersonUpdate.first_name up = Supplied None \<or>
       PersonUpdate.last_name up = Supplied None \<or> PersonUpdate.email up = Supplied None \<or>
       PersonUpdate.addresses up = Supplied None) \<longrightarrow>
        update_person EmailStr fac i up db = (Inl ValidationError, db)) \<and>
   (map_of (databases.fee_details db) i = Some f \<and>
      (FeeDetailsUpdate.university_name uf = Supplied None \<or>
       FeeDetailsUpdate.number_of_credits uf = Supplied None \<or>
       FeeDetailsUpdate.fee_paid uf = Supplied None) \<longrightarrow>
        update_fee_details fac i uf db = (Inl ValidationError, db)) \<and>
   (map_of (databases.visa_statuses db) i = Some v \<and>
      VisaStatusUpdate.visa_status uv = Supplied None \<longrightarrow>
        update_visa_status fac i uv db = (Inl ValidationError, db))"
proof -
  have person: "up = body\<lparr> PersonUpdate.email := PersonUpdate.email up \<rparr> \<and>
        patch_persons EmailStr fac i body db = update_person EmailStr fac i up db \<and>
        (\<exists>p'. update_person EmailStr fac i up db =
                 (Inr p', db\<lparr> databases.persons :=
                                dict_setitem (databases.persons db) i p' \<rparr>) \<and>
               overwritten (PersonUpdate.uni up) (PersonBase.uni p) (PersonBase.uni p') \<and>
               overwritten (PersonUpdate.first_name up) (PersonBase.first_name p)
                 (PersonBase.first_name p') \<and>
               overwritten (PersonUpdate.last_name up) (PersonBase.last_name p)
                 (PersonBase.last_name p') \<and>
               overwritten (PersonUpdate.email up) (PersonBase.email p)
                 (PersonBase.email p') \<and>
               overwritten_optional (PersonUpdate.phone up) (PersonBase.phone p)
                 (PersonBase.phone p') \<and>
               overwritten_optional (PersonUpdate.birth_date up) (PersonBase.birth_date p)
                 (PersonBase.birth_date p') \<and>
               addresses_overwritten (PersonUpdate.addresses up) (PersonBase.addresses p)
                 (PersonBase.addresses p'))"
    if "normalising EmailStr" "reachable EmailStr db"
      "map_of (databases.persons db) i = Some p"
      "PersonUpdate_validate EmailStr body = Inr up"
      "PersonUpdate.uni up \<noteq> Supplied None" "PersonUpdate.first_name up \<noteq> Supplied None"
      "PersonUpdate.last_name up \<noteq> Supplied None" "PersonUpdate.email up \<noteq> Supplied None"
      "PersonUpdate.addresses up \<noteq> Supplied None"
  proof -
    have "stored_valid EmailStr p"
      using that(1-3) by (rule reachable_persons_valid)
    moreover have "update_valid EmailStr up"
      using that(1,4) by (rule PersonUpdate_validate_valid)
    ultimately have "\<exists>p'. update_person EmailStr fac i up db =
                 (Inr p', db\<lparr> databases.persons :=
                                dict_setitem (databases.persons db) i p' \<rparr>) \<and>
               overwritten (PersonUpdate.uni up) (PersonBase.uni p) (PersonBase.uni p') \<and>
               overwritten (PersonUpdate.first_name up) (PersonBase.first_name p)
                 (PersonBase.first_name p') \<and>
               overwritten (PersonUpdate.last_name up) (PersonBase.last_name p)
                 (PersonBase.last_name p') \<and>
               overwritten (PersonUpdate.email up) (PersonBase.email p)
                 (PersonBase.email p') \<and>
               overwritten_optional (PersonUpdate.phone up) (PersonBase.phone p)
                 (PersonBase.phone p') \<and>
               overwritten_optional (PersonUpdate.birth_date up) (PersonBase.birth_date p)
                 (PersonBase.birth_date p') \<and>
               addresses_overwritten (PersonUpdate.addresses up) (PersonBase.addresses p)
                 (PersonBase.addresses p')"
      using that(3,5-9) by (rule update_person_total [rotated 6])
    moreover have "up = body\<lparr> PersonUpdate.email := PersonUpdate.email up \<rparr>"
      using that(4) by (rule PersonUpdate_validate_InrD(2))
    moreover have "patch_persons EmailStr fac i body db = update_person EmailStr fac i up db"
      using that(4) by (simp add: patch_persons_def)
    ultimately show ?thesis by (intro conjI)
  qed
  show ?thesis
    apply (intro conjI)
    using update_address_total [of db i a ua fac] apply blast
    using person apply blast
    using update_fee_details_total [of db i f uf fac] apply blast
    using update_visa_status_total [of db i v uv fac] apply blast
    using update_address_null [of db i a ua fac] apply blast
    using update_person_null [of db i p up EmailStr fac] apply blast
    using update_fee_details_null [of db i f uf fac] apply blast
    using update_visa_status_null [of db i v uv fac] apply blast
    done
qed

theorem partial_update_fields_witness:
  "map_of (databases.addresses sample_db) 1 = Some sample_address_read \<and>
   update_address later 1 brooklyn_update sample_db =
     (Inr (sample_address_read\<lparr> AddressBase.city := lit ''Brooklyn'' \<rparr>),
      sample_db\<lparr> databases.addresses :=
                   [(1, sample_address_read\<lparr> AddressBase.city := lit ''Brooklyn'' \<rparr>)] \<rparr>) \<and>
   AddressBase.city (sample_address_read\<lparr> AddressBase.city := lit ''Brooklyn'' \<rparr>) =
     lit ''Brooklyn'' \<and>
   AddressBase.street (sample_address_read\<lparr> AddressBase.city := lit ''Brooklyn'' \<rparr>) =
     AddressBase.street sample_address_read \<and>
   normalising sample_EmailStr \<and> reachable sample_EmailStr sample_db \<and>
   map_of (databases.persons sample_db) 7 = Some sample_person_read \<and>
   PersonUpdate_validate sample_EmailStr phone_update = Inr phone_update \<and>
   patch_persons sample_EmailStr later 7 phone_update sample_db =
     (Inr (sample_person_read\<lparr> PersonBase.phone := Some (lit ''+1-212-555-0100'') \<rparr>),
      sample_db\<lparr> databases.persons :=
        [(7, sample_person_read\<lparr> PersonBase.phone := Some (lit ''+1-212-555-0100'') \<rparr>)] \<rparr>) \<and>
   PersonBase.phone
     (sample_person_read\<lparr> PersonBase.phone := Some (lit ''+1-212-555-0100'') \<rparr>) =
     Some (lit ''+1-212-555-0100'') \<and>
   PersonBase.uni (sample_person_read\<lparr> PersonBase.phone := Some (lit ''+1-212-555-0100'') \<rparr>) =
     PersonBase.uni sample_person_read \<and>
   PersonBase.addresses
     (sample_person_read\<lparr> PersonBase.phone := Some (lit ''+1-212-555-0100'') \<rparr>) =
     PersonBase.addresses sample_person_read \<and>
   map_of (databases.fee_details sample_db) 7 = Some sample_fee_read \<and>
   update_fee_details later 7 credits_update sample_db =
     (Inr (sample_fee_read\<lparr> FeeDetailsBase.number_of_credits := 36 \<rparr>),
      sample_db\<lparr> databases.fee_details :=
        [(7, sample_fee_read\<lparr> FeeDetailsBase.number_of_credits := 36 \<rparr>)] \<rparr>) \<and>
   FeeDetailsBase.number_of_credits
     (sample_fee_read\<lparr> FeeDetailsBase.number_of_credits := 36 \<rparr>) = 36 \<and>
   FeeDetailsBase.fee_paid (sample_fee_read\<lparr> FeeDetailsBase.number_of_credits := 36 \<rparr>) =
     FeeDetailsBase.fee_paid sample_fee_read \<and>
   map_of (databases.visa_statuses sample_db) 7 = Some sample_visa_read \<and>
   update_visa_status later 7 opt_update sample_db =
     (Inr (sample_visa_read\<lparr> VisaStatusBase.visa_status := lit ''OPT'' \<rparr>),
      sample_db\<lparr> databases.visa_statuses :=
        [(7, sample_visa_read\<lparr> VisaStatusBase.visa_status := lit ''OPT'' \<rparr>)] \<rparr>) \<and>
   VisaStatusBase.visa_status (sample_visa_read\<lparr> VisaStatusBase.visa_status := lit ''OPT'' \<rparr>) =
     lit ''OPT'' \<and>
   FeeDetailsUpdate.fee_paid null_fee_paid_update = Supplied None \<and>
   update_fee_details later 7 null_fee_paid_update sample_db = (Inl ValidationError, sample_db)"
proof -
  note at_1 = partial_update_fields [where db = sample_db and i = 1 and fac = later
      and a = sample_address_read and ua = brooklyn_update]
  note at_7 = partial_update_fields [where db = sample_db and i = 7 and fac = later
      and EmailStr = sample_EmailStr and p = sample_person_read and body = phone_update
      and up = phone_update and f = sample_fee_read and uf = credits_update
      and v = sample_visa_read and uv = opt_update]
  note at_null = partial_update_fields [where db = sample_db and i = 7 and fac = later
      and f = sample_fee_read and uf = null_fee_paid_update]
  note address = at_1 [THEN conjunct1]
  note person = at_7 [THEN conjunct2, THEN conjunct1]
  note fee = at_7 [THEN conjunct2, THEN conjunct2, THEN conjunct1]
  note visa = at_7 [THEN conjunct2, THEN conjunct2, THEN conjunct2, THEN conjunct1]
  note fee_null = at_null [THEN conjunct2, THEN conjunct2, THEN conjunct2, THEN conjunct2,
      THEN conjunct2, THEN conjunct2, THEN conjunct1]
  have ha: "map_of (databases.addresses sample_db) 1 = Some sample_address_read"
    by (simp add: sample_db_lookups)
  have na: "AddressUpdate.street brooklyn_update \<noteq> Supplied None"
    "AddressUpdate.city brooklyn_update \<noteq> Supplied None"
    "AddressUpdate.state brooklyn_update \<noteq> Supplied None"
    "AddressUpdate.postal_code brooklyn_update \<noteq> Supplied None"
    "AddressUpdate.country brooklyn_update \<noteq> Supplied None"
    by (simp_all add: brooklyn_update_def no_address_update_def)
  from address ha na
  obtain a' where a': "update_address later 1 brooklyn_update sample_db =
        (Inr a', sample_db\<lparr> databases.addresses :=
                  dict_setitem (databases.addresses sample_db) 1 a' \<rparr>)"
      "overwritten (AddressUpdate.city brooklyn_update) (AddressBase.city sample_address_read)
         (AddressBase.city a')"
      "overwritten (AddressUpdate.street brooklyn_update)
         (AddressBase.street sample_address_read) (AddressBase.street a')"
    by blast
  have a'_is: "a' = sample_address_read\<lparr> AddressBase.city := lit ''Brooklyn'' \<rparr>"
    using a'(1) by (simp add: sample_update_address)
  have ca: "AddressBase.city (sample_address_read\<lparr> AddressBase.city := lit ''Brooklyn'' \<rparr>) =
       lit ''Brooklyn''"
    "AddressBase.street (sample_address_read\<lparr> AddressBase.city := lit ''Brooklyn'' \<rparr>) =
       AddressBase.street sample_address_read"
    using a'(2,3) unfolding a'_is
    by (simp_all add: overwritten_def brooklyn_update_def no_address_update_def)
  have hp: "normalising sample_EmailStr" "reachable sample_EmailStr sample_db"
    "map_of (databases.persons sample_db) 7 = Some sample_person_read"
    "PersonUpdate_validate sample_EmailStr phone_update = Inr phone_update"
    by (simp_all add: normalising_sample sample_db_reachable sample_db_lookups
        PersonUpdate_validate_no_mail phone_update_def no_person_update_def)
  have np: "PersonUpdate.uni phone_update \<noteq> Supplied None"
    "PersonUpdate.first_name phone_update \<noteq> Supplied None"
    "PersonUpdate.last_name phone_update \<noteq> Supplied None"
    "PersonUpdate.email phone_update \<noteq> Supplied None"
    "PersonUpdate.addresses phone_update \<noteq> Supplied None"
    by (simp_all add: phone_update_def no_person_update_def)
  from person hp np
  have patch: "patch_persons sample_EmailStr later 7 phone_update sample_db =
      update_person sample_EmailStr later 7 phone_update sample_db"
    by blast
  from person hp np
  obtain p' where p': "update_person sample_EmailStr later 7 phone_update sample_db =
        (Inr p', sample_db\<lparr> databases.persons :=
                  dict_setitem (databases.persons sample_db) 7 p' \<rparr>)"
      "overwritten_optional (PersonUpdate.phone phone_update)
         (PersonBase.phone sample_person_read) (PersonBase.phone p')"
      "overwritten (PersonUpdate.uni phone_update) (PersonBase.uni sample_person_read)
         (PersonBase.uni p')"
      "addresses_overwritten (PersonUpdate.addresses phone_update)
         (PersonBase.addresses sample_person_read) (PersonBase.addresses p')"
    by blast
  have p'_is: "p' = sample_person_read\<lparr> PersonBase.phone := Some (lit ''+1-212-555-0100'') \<rparr>"
    using p'(1) by (simp add: sample_update_person)
  have cp: "PersonBase.phone
       (sample_person_read\<lparr> PersonBase.phone := Some (lit ''+1-212-555-0100'') \<rparr>) =
       Some (lit ''+1-212-555-0100'')"
    "PersonBase.uni (sample_person_read\<lparr> PersonBase.phone := Some (lit ''+1-212-555-0100'') \<rparr>) =
       PersonBase.uni sample_person_read"
    "PersonBase.addresses
       (sample_person_read\<lparr> PersonBase.phone := Some (lit ''+1-212-555-0100'') \<rparr>) =
       PersonBase.addresses sample_person_read"
    using p'(2,3,4) unfolding p'_is
    by (simp_all add: overwritten_def overwritten_optional_def addresses_overwritten_def
        phone_update_def no_person_update_def)
  have patched: "patch_persons sample_EmailStr later 7 phone_update sample_db =
     (Inr (sample_person_read\<lparr> PersonBase.phone := Some (lit ''+1-212-555-0100'') \<rparr>),
      sample_db\<lparr> databases.persons :=
        [(7, sample_person_read\<lparr> PersonBase.phone := Some (lit ''+1-212-555-0100'') \<rparr>)] \<rparr>)"
    using patch by (simp add: sample_update_person)
  have hf: "map_of (databases.fee_details sample_db) 7 = Some sample_fee_read"
    by (simp add: sample_db_lookups)
  have nf: "FeeDetailsUpdate.university_name credits_update \<noteq> Supplied None"
    "FeeDetailsUpdate.number_of_credits credits_update \<noteq> Supplied None"
    "FeeDetailsUpdate.fee_paid credits_update \<noteq> Supplied None"
    by (simp_all add: credits_update_def no_fee_update_def)
  from fee hf nf
  obtain f' where f': "update_fee_details later 7 credits_update sample_db =
        (Inr f', sample_db\<lparr> databases.fee_details :=
                  dict_setitem (databases.fee_details sample_db) 7 f' \<rparr>)"
      "overwritten (FeeDetailsUpdate.number_of_credits credits_update)
         (FeeDetailsBase.number_of_credits sample_fee_read) (FeeDetailsBase.number_of_credits f')"
      "overwritten (FeeDetailsUpdate.fee_paid credits_update)
         (FeeDetailsBase.fee_paid sample_fee_read) (FeeDetailsBase.fee_paid f')"
    by blast
  have f'_is: "f' = sample_fee_read\<lparr> FeeDetailsBase.number_of_credits := 36 \<rparr>"
    using f'(1) by (simp add: sample_update_fee_details)
  have cf: "FeeDetailsBase.number_of_credits
       (sample_fee_read\<lparr> FeeDetailsBase.number_of_credits := 36 \<rparr>) = 36"
    "FeeDetailsBase.fee_paid (sample_fee_read\<lparr> FeeDetailsBase.number_of_credits := 36 \<rparr>) =
       FeeDetailsBase.fee_paid sample_fee_read"
    using f'(2,3) unfolding f'_is
    by (simp_all add: overwritten_def credits_update_def no_fee_update_def)
  have hv: "map_of (databases.visa_statuses sample_db) 7 = Some sample_visa_read"
    by (simp add: sample_db_lookups)
  have nv: "VisaStatusUpdate.visa_status opt_update \<noteq> Supplied None"
    by (simp add: opt_update_def)
  from visa hv nv
  obtain v' where v': "update_visa_status later 7 opt_update sample_db =
        (Inr v', sample_db\<lparr> databases.visa_statuses :=
                  dict_setitem (databases.visa_statuses sample_db) 7 v' \<rparr>)"
      "overwritten (VisaStatusUpdate.visa_status opt_update)
         (VisaStatusBase.visa_status sample_visa_read) (VisaStatusBase.visa_status v')"
    by blast
  have v'_is: "v' = sample_visa_read\<lparr> VisaStatusBase.visa_status := lit ''OPT'' \<rparr>"
    using v'(1) by (simp add: sample_update_visa_status)
  have cv: "VisaStatusBase.visa_status
       (sample_visa_read\<lparr> VisaStatusBase.visa_status := lit ''OPT'' \<rparr>) = lit ''OPT''"
    using v'(2) unfolding v'_is by (simp add: overwritten_def opt_update_def)
  have null: "FeeDetailsUpdate.fee_paid null_fee_paid_update = Supplied None"
    by (simp add: null_fee_paid_update_def)
  from fee_null hf null
  have cn: "update_fee_details later 7 null_fee_paid_update sample_db =
      (Inl ValidationError, sample_db)"
    by blast
  show ?thesis
    by (intro conjI ha sample_update_address ca hp patched cp hf sample_update_fee_details cf
        hv sample_update_visa_status cv null cn)
qed

text \<open>
  Against C2 as stated: the payload that supplies only \<^verbatim>\<open>fee_paid\<close>, as
  \<^verbatim>\<open>null\<close>, does not overwrite the stored \<^verbatim>\<open>fee_paid\<close>; the update fails and the
  stored record keeps the value \<^verbatim>\<open>True\<close>.
\<close>

theorem explicit_null_not_overwritten:
  "FeeDetailsUpdate.fee_paid null_fee_paid_update = Supplied None \<and>
   FeeDetailsUpdate.university_name null_fee_paid_update = Unset \<and>
   FeeDetailsUpdate.number_of_credits null_fee_paid_update = Unset \<and>
   get_fee_details 7 sample_db = Inr sample_fee_read \<and>
   update_fee_details later 7 null_fee_paid_update sample_db = (Inl ValidationError, sample_db) \<and>
   FeeDetailsBase.fee_paid sample_fee_read = True"
  by (simp add: null_fee_paid_update_def no_fee_update_def get_fee_details_lookup
      sample_db_lookups update_fee_details_null sample_fee_read_def)

lemma embedded_addresses_nth:
  "k < length l \<Longrightarrow>
     embedded_addresses fac l ! k = AddressBase_init (embedded_uuid4 fac k) (l ! k)"
  by (simp add: embedded_addresses_def nth_enumerate_eq)

lemma embedded_addresses_new_id:
  "k < length l \<Longrightarrow> AddressBase_parsed.id (l ! k) = None \<Longrightarrow>
     AddressBase.id (embedded_addresses fac l ! k) = embedded_uuid4 fac k"
  by (simp add: embedded_addresses_nth AddressBase_init_def default_factory_def)

text \<open>
  C8, as the code has it. A stored person, in a state that creates and updates produced,
  and a validated update payload that supplies a list of addresses and no explicit
  \<^verbatim>\<open>null\<close> for a required field, whatever else it supplies: the update succeeds, and
  the record it stores in place of the old one has as its addresses the list as sent,
  whatever the stored list was: the same length and order, each address with the five
  fields as sent and with the identifier as sent, and an address sent without an
  identifier gets a newly made one. With the empty list the person is left with no
  address. A payload with an explicit \<^verbatim>\<open>null\<close> for a required field fails with a
  validation error, and any update that fails leaves the dictionaries, and so the stored
  addresses, as they were.
\<close>

theorem update_person_replaces_addresses:
  "(normalising EmailStr \<and> reachable EmailStr db \<and>
      map_of (databases.persons db) i = Some p \<and>
      PersonUpdate_validate EmailStr body = Inr u \<and>
      PersonUpdate.addresses u = Supplied (Some sent) \<and>
      PersonUpdate.uni u \<noteq> Supplied None \<and> PersonUpdate.first_name u \<noteq> Supplied None \<and>
      PersonUpdate.last_name u \<noteq> Supplied None \<and> PersonUpdate.email u \<noteq> Supplied None \<longrightarrow>
        PersonUpdate.addresses body = Supplied (Some sent) \<and>
        patch_persons EmailStr fac i body db = update_person EmailStr fac i u db \<and>
        (\<exists>p'. update_person EmailStr fac i u db =
                 (Inr p', db\<lparr> databases.persons :=
                                dict_setitem (databases.persons db) i p' \<rparr>) \<and>
               PersonBase.addresses p' = embedded_addresses fac sent \<and>
               list_all2 sent_as sent (PersonBase.addresses p') \<and>
               (\<forall>k<length sent. AddressBase_parsed.id (sent ! k) = None \<longrightarrow>
                  AddressBase.id (PersonBase.addresses p' ! k) = embedded_uuid4 fac k) \<and>
               (sent = [] \<longrightarrow> PersonBase.addresses p' = []))) \<and>
   (map_of (databases.persons db) i = Some p \<and>
      (PersonUpdate.uni u = Supplied None \<or> PersonUpdate.first_name u = Supplied None \<or>
       PersonUpdate.last_name u = Supplied None \<or> PersonUpdate.email u = Supplied None \<or>
       PersonUpdate.addresses u = Supplied None) \<longrightarrow>
        update_person EmailStr fac i u db = (Inl ValidationError, db)) \<and>
   (update_person EmailStr fac i u db = (Inl e, db') \<longrightarrow> db' = db)"
proof -
  have replaced: "PersonUpdate.addresses body = Supplied (Some sent) \<and>
        patch_persons EmailStr fac i body db = update_person EmailStr fac i u db \<and>
        (\<exists>p'. update_person EmailStr fac i u db =
                 (Inr p', db\<lparr> databases.persons :=
                                dict_setitem (databases.persons db) i p' \<rparr>) \<and>
               PersonBase.addresses p' = embedded_addresses fac sent \<and>
               list_all2 sent_as sent (PersonBase.addresses p') \<and>
               (\<forall>k<length sent. AddressBase_parsed.id (sent ! k) = None \<longrightarrow>
                  AddressBase.id (PersonBase.addresses p' ! k) = embedded_uuid4 fac k) \<and>
               (sent = [] \<longrightarrow> PersonBase.addresses p' = []))"
    if "normalising EmailStr" "reachable EmailStr db"
      "map_of (databases.persons db) i = Some p"
      "PersonUpdate_validate EmailStr body = Inr u"
      "PersonUpdate.addresses u = Supplied (Some sent)"
      "PersonUpdate.uni u \<noteq> Supplied None" "PersonUpdate.first_name u \<noteq> Supplied None"
      "PersonUpdate.last_name u \<noteq> Supplied None" "PersonUpdate.email u \<noteq> Supplied None"
  proof -
    have stored: "stored_valid EmailStr p"
      using that(1-3) by (rule reachable_persons_valid)
    have valid: "update_valid EmailStr u"
      using that(1,4) by (rule PersonUpdate_validate_valid)
    have nonnull: "PersonUpdate.addresses u \<noteq> Supplied None"
      using that(5) by simp
    from update_person_total [OF that(3,6,7,8,9) nonnull stored valid, of fac]
    obtain p' where p': "update_person EmailStr fac i u db =
        (Inr p', db\<lparr> databases.persons := dict_setitem (databases.persons db) i p' \<rparr>)"
      by blast
    from update_person_InrD(7) [OF that(3) p']
    have ads: "PersonBase.addresses p' = embedded_addresses fac sent"
      using that(5) by (simp add: dict_update_Supplied)
    have "list_all2 sent_as sent (PersonBase.addresses p')"
      unfolding ads by (rule embedded_addresses_sent_as)
    moreover have "\<forall>k<length sent. AddressBase_parsed.id (sent ! k) = None \<longrightarrow>
        AddressBase.id (PersonBase.addresses p' ! k) = embedded_uuid4 fac k"
      unfolding ads by (simp add: embedded_addresses_new_id)
    moreover have "sent = [] \<longrightarrow> PersonBase.addresses p' = []"
      unfolding ads by (simp add: embedded_addresses_Nil)
    ultimately have "\<exists>p'. update_person EmailStr fac i u db =
                 (Inr p', db\<lparr> databases.persons :=
                                dict_setitem (databases.persons db) i p' \<rparr>) \<and>
               PersonBase.addresses p' = embedded_addresses fac sent \<and>
               list_all2 sent_as sent (PersonBase.addresses p') \<and>
               (\<forall>k<length sent. AddressBase_parsed.id (sent ! k) = None \<longrightarrow>
                  AddressBase.id (PersonBase.addresses p' ! k) = embedded_uuid4 fac k) \<and>
               (sent = [] \<longrightarrow> PersonBase.addresses p' = [])"
      using p' ads by blast
    moreover have "u = body\<lparr> PersonUpdate.email := PersonUpdate.email u \<rparr>"
      using that(4) by (rule PersonUpdate_validate_InrD(2))
    then have "PersonUpdate.addresses body = PersonUpdate.addresses u"
      by (cases body) (cases u, simp)
    then have "PersonUpdate.addresses body = Supplied (Some sent)"
      using that(5) by simp
    moreover have "patch_persons EmailStr fac i body db = update_person EmailStr fac i u db"
      using that(4) by (simp add: patch_persons_def)
    ultimately show ?thesis by (intro conjI)
  qed
  show ?thesis
    apply (intro conjI)
    using replaced apply blast
    using update_person_null [of db i p u EmailStr fac] apply blast
    using update_person_cases [of EmailStr fac i u db e db'] apply blast
    done
qed

theorem update_person_replaces_addresses_witness:
  "normalising sample_EmailStr \<and> reachable sample_EmailStr sample_db \<and>
   map_of (databases.persons sample_db) 7 = Some sample_person_read \<and>
   PersonBase.addresses sample_person_read = [sample_address] \<and>
   PersonUpdate_validate sample_EmailStr moved_update = Inr moved_update \<and>
   PersonUpdate.addresses moved_update = Supplied (Some [boston_sent, albany_sent]) \<and>
   PersonUpdate.first_name moved_update = Supplied (Some (lit ''Dhanvanth'')) \<and>
   patch_persons sample_EmailStr later 7 moved_update sample_db =
     (Inr (sample_person_read\<lparr> PersonBase.first_name := lit ''Dhanvanth'',
             PersonBase.addresses := [boston_stored, albany_stored] \<rparr>),
      sample_db\<lparr> databases.persons :=
        [(7, sample_person_read\<lparr> PersonBase.first_name := lit ''Dhanvanth'',
               PersonBase.addresses := [boston_stored, albany_stored] \<rparr>)] \<rparr>) \<and>
   list_all2 sent_as [boston_sent, albany_sent] [boston_stored, albany_stored] \<and>
   AddressBase_parsed.id boston_sent = None \<and>
   AddressBase.id boston_stored = embedded_uuid4 later 0 \<and>
   AddressBase_parsed.id albany_sent = Some 5 \<and> AddressBase.id albany_stored = 5 \<and>
   PersonUpdate_validate sample_EmailStr clear_addresses_update = Inr clear_addresses_update \<and>
   PersonUpdate.addresses clear_addresses_update = Supplied (Some []) \<and>
   patch_persons sample_EmailStr later 7 clear_addresses_update sample_db =
     (Inr (sample_person_read\<lparr> PersonBase.addresses := [] \<rparr>),
      sample_db\<lparr> databases.persons :=
                   [(7, sample_person_read\<lparr> PersonBase.addresses := [] \<rparr>)] \<rparr>) \<and>
   PersonUpdate.first_name clear_addresses_null_name_update = Supplied None \<and>
   update_person sample_EmailStr later 7 clear_addresses_null_name_update sample_db =
     (Inl ValidationError, sample_db)"
proof -
  note moved = update_person_replaces_addresses [where db = sample_db and i = 7
      and p = sample_person_read and body = moved_update and u = moved_update
      and sent = "[boston_sent, albany_sent]" and EmailStr = sample_EmailStr and fac = later,
      THEN conjunct1]
  note cleared = update_person_replaces_addresses [where db = sample_db and i = 7
      and p = sample_person_read and body = clear_addresses_update
      and u = clear_addresses_update and sent = "[]" and EmailStr = sample_EmailStr
      and fac = later, THEN conjunct1]
  note failed = update_person_replaces_addresses [where db = sample_db and i = 7
      and p = sample_person_read and u = clear_addresses_null_name_update
      and EmailStr = sample_EmailStr and fac = later, THEN conjunct2, THEN conjunct1]
  have h: "normalising sample_EmailStr" "reachable sample_EmailStr sample_db"
    "map_of (databases.persons sample_db) 7 = Some sample_person_read"
    by (simp_all add: normalising_sample sample_db_reachable sample_db_lookups)
  have was: "PersonBase.addresses sample_person_read = [sample_address]"
    by (simp add: sample_person_read_def)
  have hm: "PersonUpdate_validate sample_EmailStr moved_update = Inr moved_update"
    "PersonUpdate.addresses moved_update = Supplied (Some [boston_sent, albany_sent])"
    "PersonUpdate.first_name moved_update = Supplied (Some (lit ''Dhanvanth''))"
    by (simp_all add: PersonUpdate_validate_no_mail moved_update_def no_person_update_def)
  have nm: "PersonUpdate.uni moved_update \<noteq> Supplied None"
    "PersonUpdate.first_name moved_update \<noteq> Supplied None"
    "PersonUpdate.last_name moved_update \<noteq> Supplied None"
    "PersonUpdate.email moved_update \<noteq> Supplied None"
    by (simp_all add: moved_update_def no_person_update_def)
  from moved h hm(1,2) nm
  have patch_m: "patch_persons sample_EmailStr later 7 moved_update sample_db =
      update_person sample_EmailStr later 7 moved_update sample_db"
    by blast
  from moved h hm(1,2) nm
  obtain p' where p': "update_person sample_EmailStr later 7 moved_update sample_db =
        (Inr p', sample_db\<lparr> databases.persons :=
                  dict_setitem (databases.persons sample_db) 7 p' \<rparr>)"
      "list_all2 sent_as [boston_sent, albany_sent] (PersonBase.addresses p')"
      "\<forall>k<length [boston_sent, albany_sent].
          AddressBase_parsed.id ([boston_sent, albany_sent] ! k) = None \<longrightarrow>
          AddressBase.id (PersonBase.addresses p' ! k) = embedded_uuid4 later k"
    by blast
  have p'_is: "p' = sample_person_read\<lparr> PersonBase.first_name := lit ''Dhanvanth'',
             PersonBase.addresses := [boston_stored, albany_stored] \<rparr>"
    using p'(1) by (simp add: sample_update_person_moved)
  have sent: "list_all2 sent_as [boston_sent, albany_sent] [boston_stored, albany_stored]"
    using p'(2) unfolding p'_is by simp
  have ids: "AddressBase_parsed.id boston_sent = None"
    "AddressBase_parsed.id albany_sent = Some 5" "AddressBase.id albany_stored = 5"
    by (simp_all add: boston_sent_def albany_sent_def albany_stored_def)
  have new: "AddressBase.id boston_stored = embedded_uuid4 later 0"
    using p'(3) [rule_format, of 0] ids(1) unfolding p'_is by simp
  have patched_m: "patch_persons sample_EmailStr later 7 moved_update sample_db =
     (Inr (sample_person_read\<lparr> PersonBase.first_name := lit ''Dhanvanth'',
             PersonBase.addresses := [boston_stored, albany_stored] \<rparr>),
      sample_db\<lparr> databases.persons :=
        [(7, sample_person_read\<lparr> PersonBase.first_name := lit ''Dhanvanth'',
               PersonBase.addresses := [boston_stored, albany_stored] \<rparr>)] \<rparr>)"
    using patch_m by (simp add: sample_update_person_moved)
  have hc: "PersonUpdate_validate sample_EmailStr clear_addresses_update =
      Inr clear_addresses_update"
    "PersonUpdate.addresses clear_addresses_update = Supplied (Some [])"
    by (simp_all add: PersonUpdate_validate_no_mail clear_addresses_update_def
        no_person_update_def)
  have nc: "PersonUpdate.uni clear_addresses_update \<noteq> Supplied None"
    "PersonUpdate.first_name clear_addresses_update \<noteq> Supplied None"
    "PersonUpdate.last_name clear_addresses_update \<noteq> Supplied None"
    "PersonUpdate.email clear_addresses_update \<noteq> Supplied None"
    by (simp_all add: clear_addresses_update_def no_person_update_def)
  from cleared h hc nc
  have patch_c: "patch_persons sample_EmailStr later 7 clear_addresses_update sample_db =
      update_person sample_EmailStr later 7 clear_addresses_update sample_db"
    by blast
  have patched_c: "patch_persons sample_EmailStr later 7 clear_addresses_update sample_db =
     (Inr (sample_person_read\<lparr> PersonBase.addresses := [] \<rparr>),
      sample_db\<lparr> databases.persons :=
                   [(7, sample_person_read\<lparr> PersonBase.addresses := [] \<rparr>)] \<rparr>)"
    using patch_c by (simp add: sample_update_person_addresses)
  have null: "PersonUpdate.first_name clear_addresses_null_name_update = Supplied None"
    by (simp add: clear_addresses_null_name_update_def)
  from failed h(3) null
  have cn: "update_person sample_EmailStr later 7 clear_addresses_null_name_update sample_db =
     (Inl ValidationError, sample_db)"
    by blast
  show ?thesis
    by (intro conjI h was hm patched_m sent ids new hc patched_c null cn)
qed

text \<open>
  Against C8 as stated: a payload that supplies the empty list of addresses together with
  an explicit \<^verbatim>\<open>null\<close> for \<^verbatim>\<open>first_name\<close> fails, and the stored person keeps
  the address it had.
\<close>

theorem addresses_kept_when_update_fails:
  "PersonUpdate.addresses clear_addresses_null_name_update = Supplied (Some []) \<and>
   get_person 7 sample_db = Inr sample_person_read \<and>
   update_person sample_EmailStr later 7 clear_addresses_null_name_update sample_db =
     (Inl ValidationError, sample_db) \<and>
   PersonBase.addresses sample_person_read = [sample_address]"
proof -
  have sup: "PersonUpdate.addresses clear_addresses_null_name_update = Supplied (Some [])"
    and null: "PersonUpdate.first_name clear_addresses_null_name_update = Supplied None"
    by (simp_all add: clear_addresses_null_name_update_def)
  have "update_person sample_EmailStr later 7 clear_addresses_null_name_update sample_db =
     (Inl ValidationError, sample_db)"
    using null by (intro update_person_null [OF sample_db_lookups(1)]) simp
  moreover have "get_person 7 sample_db = Inr sample_person_read"
    by (simp add: get_person_lookup sample_db_lookups)
  moreover have "PersonBase.addresses sample_person_read = [sample_address]"
    by (simp add: sample_person_read_def)
  ultimately show ?thesis using sup by blast
qed

text \<open>
  C7, as the code has it. A create of fee details or of a visa status always succeeds,
  and a create of a person succeeds when the UNI and the e-mail pass their validators.
  The record returned has the identifier that the identifier factory made for this
  construction (it is not compared with the keys already stored) and is stored under it;
  each timestamp is a clock reading of its own, \<^verbatim>\<open>created_at\<close> the first and
  \<^verbatim>\<open>updated_at\<close> the second, so the two are equal when the two readings are. A create
  of an address whose identifier is not yet a key succeeds; the record returned has the
  identifier of the payload, is stored under it, and its two timestamps are equal.
\<close>

theorem create_identifier_and_timestamps:
  "(UNIType (PersonBase.uni person) \<and> EmailStr (PersonBase.email person) = Some n \<longrightarrow>
      (\<exists>p. create_person EmailStr fac person db =
              (Inr p, db\<lparr> databases.persons :=
                            dict_setitem (databases.persons db) (uuid4 fac) p \<rparr>) \<and>
            PersonRead.id p = uuid4 fac \<and> PersonRead.created_at p = utcnow_created fac \<and>
            PersonRead.updated_at p = utcnow_updated fac)) \<and>
   (create_person EmailStr fac person db = (Inr p1, db1) \<longrightarrow>
      PersonRead.id p1 = uuid4 fac \<and> PersonRead.created_at p1 = utcnow_created fac \<and>
      PersonRead.updated_at p1 = utcnow_updated fac \<and>
      map_of (databases.persons db1) (uuid4 fac) = Some p1) \<and>
   (\<exists>f. create_fee_details fac fee db =
           (Inr f, db\<lparr> databases.fee_details :=
                         dict_setitem (databases.fee_details db) (uuid4 fac) f \<rparr>) \<and>
         FeeDetailsRead.id f = uuid4 fac \<and> FeeDetailsRead.created_at f = utcnow_created fac \<and>
         FeeDetailsRead.updated_at f = utcnow_updated fac) \<and>
   (\<exists>v. create_visa_status fac visa db =
           (Inr v, db\<lparr> databases.visa_statuses :=
                         dict_setitem (databases.visa_statuses db) (uuid4 fac) v \<rparr>) \<and>
         VisaStatusRead.id v = uuid4 fac \<and> VisaStatusRead.created_at v = utcnow_created fac \<and>
         VisaStatusRead.updated_at v = utcnow_updated fac) \<and>
   (AddressBase.id address \<notin> fst ` set (databases.addresses db) \<longrightarrow>
      (\<exists>a. create_address fac address db =
              (Inr a, db\<lparr> databases.addresses :=
                            databases.addresses db @ [(AddressBase.id address, a)] \<rparr>) \<and>
            AddressBase.id a = AddressBase.id address \<and>
            AddressRead.created_at a = utcnow_created fac \<and>
            AddressRead.updated_at a = AddressRead.created_at a)) \<and>
   (create_address fac address db = (Inr a1, db4) \<longrightarrow>
      AddressBase.id a1 = AddressBase.id address \<and>
      AddressRead.updated_at a1 = AddressRead.created_at a1 \<and>
      map_of (databases.addresses db4) (AddressBase.id address) = Some a1)"
proof -
  have person: "\<exists>p. create_person EmailStr fac person db =
              (Inr p, db\<lparr> databases.persons :=
                            dict_setitem (databases.persons db) (uuid4 fac) p \<rparr>) \<and>
            PersonRead.id p = uuid4 fac \<and> PersonRead.created_at p = utcnow_created fac \<and>
            PersonRead.updated_at p = utcnow_updated fac"
    if "UNIType (PersonBase.uni person)" "EmailStr (PersonBase.email person) = Some n"
    using that by (simp add: create_person_valid)
  have person1: "PersonRead.id p1 = uuid4 fac \<and> PersonRead.created_at p1 = utcnow_created fac \<and>
      PersonRead.updated_at p1 = utcnow_updated fac \<and>
      map_of (databases.persons db1) (uuid4 fac) = Some p1"
    if "create_person EmailStr fac person db = (Inr p1, db1)"
    using that unfolding create_person_result
    by (auto simp: default_factory_def map_of_dict_setitem dest!: PersonRead_init_InrD
        split: sum.splits)
  have fee: "\<exists>f. create_fee_details fac fee db =
           (Inr f, db\<lparr> databases.fee_details :=
                         dict_setitem (databases.fee_details db) (uuid4 fac) f \<rparr>) \<and>
         FeeDetailsRead.id f = uuid4 fac \<and> FeeDetailsRead.created_at f = utcnow_created fac \<and>
         FeeDetailsRead.updated_at f = utcnow_updated fac"
    by (simp add: create_fee_details_result)
  have visa: "\<exists>v. create_visa_status fac visa db =
           (Inr v, db\<lparr> databases.visa_statuses :=
                         dict_setitem (databases.visa_statuses db) (uuid4 fac) v \<rparr>) \<and>
         VisaStatusRead.id v = uuid4 fac \<and> VisaStatusRead.created_at v = utcnow_created fac \<and>
         VisaStatusRead.updated_at v = utcnow_updated fac"
    by (simp add: create_visa_status_result)
  have address: "\<exists>a. create_address fac address db =
              (Inr a, db\<lparr> databases.addresses :=
                            databases.addresses db @ [(AddressBase.id address, a)] \<rparr>) \<and>
            AddressBase.id a = AddressBase.id address \<and>
            AddressRead.created_at a = utcnow_created fac \<and>
            AddressRead.updated_at a = AddressRead.created_at a"
    if "AddressBase.id address \<notin> fst ` set (databases.addresses db)"
    using that by (simp add: create_address_new)
  have address1: "AddressBase.id a1 = AddressBase.id address \<and>
      AddressRead.updated_at a1 = AddressRead.created_at a1 \<and>
      map_of (databases.addresses db4) (AddressBase.id address) = Some a1"
    if made: "create_address fac address db = (Inr a1, db4)"
  proof -
    have new: "AddressBase.id address \<notin> fst ` set (databases.addresses db)"
      using made create_address_duplicate [of address db fac] by auto
    have "map_of (databases.addresses db) (AddressBase.id address) = None"
      using new by (simp add: map_of_eq_None_iff)
    then show ?thesis
      using made unfolding create_address_new [OF new] by (auto simp: map_add_def)
  qed
  show ?thesis
    apply (intro conjI)
    using person apply blast
    using person1 apply blast
    using fee apply blast
    using visa apply blast
    using address apply blast
    using address1 apply blast
    done
qed

text \<open>
  Against C7 as stated: creates of a person, of fee details and of a visa status whose
  two clock readings are 100 and 101 return records with different timestamps, and a
  create of the sample address returns the payload's identifier 1, not the identifier 9
  that the identifier factory would make.
\<close>

theorem create_timestamps_differ:
  "fst (create_person sample_EmailStr (drawing 7 100 101) sample_person startup) =
     Inr (sample_person_read\<lparr> PersonRead.updated_at := 101 \<rparr>) \<and>
   PersonRead.created_at (sample_person_read\<lparr> PersonRead.updated_at := 101 \<rparr>) \<noteq>
   PersonRead.updated_at (sample_person_read\<lparr> PersonRead.updated_at := 101 \<rparr>) \<and>
   fst (create_fee_details (drawing 7 100 101) sample_fee startup) =
     Inr (sample_fee_read\<lparr> FeeDetailsRead.updated_at := 101 \<rparr>) \<and>
   FeeDetailsRead.created_at (sample_fee_read\<lparr> FeeDetailsRead.updated_at := 101 \<rparr>) \<noteq>
   FeeDetailsRead.updated_at (sample_fee_read\<lparr> FeeDetailsRead.updated_at := 101 \<rparr>) \<and>
   fst (create_visa_status (drawing 7 100 101) sample_visa startup) =
     Inr (sample_visa_read\<lparr> VisaStatusRead.updated_at := 101 \<rparr>) \<and>
   VisaStatusRead.created_at (sample_visa_read\<lparr> VisaStatusRead.updated_at := 101 \<rparr>) \<noteq>
   VisaStatusRead.updated_at (sample_visa_read\<lparr> VisaStatusRead.updated_at := 101 \<rparr>) \<and>
   fst (create_address (drawing 9 100 100) sample_address startup) = Inr sample_address_read \<and>
   uuid4 (drawing 9 100 100) = 9 \<and> AddressBase.id sample_address_read = 1"
proof -
  have "UNIType (PersonBase.uni sample_person)"
    "sample_EmailStr (PersonBase.email sample_person) = Some (lit ''dy2530@columbia.edu'')"
    by (simp_all add: sample_person_def sample_uni sample_mail)
  then have "fst (create_person sample_EmailStr (drawing 7 100 101) sample_person startup) =
     Inr (sample_person_read\<lparr> PersonRead.updated_at := 101 \<rparr>)"
    by (simp add: create_person_valid)
      (simp add: sample_person_def drawing_def sample_person_read_def)
  moreover have
    "PersonRead.created_at (sample_person_read\<lparr> PersonRead.updated_at := 101 \<rparr>) \<noteq>
     PersonRead.updated_at (sample_person_read\<lparr> PersonRead.updated_at := 101 \<rparr>)"
    by (simp add: sample_person_read_def)
  moreover have "fst (create_fee_details (drawing 7 100 101) sample_fee startup) =
     Inr (sample_fee_read\<lparr> FeeDetailsRead.updated_at := 101 \<rparr>) \<and>
   FeeDetailsRead.created_at (sample_fee_read\<lparr> FeeDetailsRead.updated_at := 101 \<rparr>) \<noteq>
   FeeDetailsRead.updated_at (sample_fee_read\<lparr> FeeDetailsRead.updated_at := 101 \<rparr>)"
    by (simp add: create_fee_details_result drawing_def sample_fee_def sample_fee_read_def)
  moreover have "fst (create_visa_status (drawing 7 100 101) sample_visa startup) =
     Inr (sample_visa_read\<lparr> VisaStatusRead.updated_at := 101 \<rparr>) \<and>
   VisaStatusRead.created_at (sample_visa_read\<lparr> VisaStatusRead.updated_at := 101 \<rparr>) \<noteq>
   VisaStatusRead.updated_at (sample_visa_read\<lparr> VisaStatusRead.updated_at := 101 \<rparr>)"
    by (simp add: create_visa_status_result drawing_def sample_visa_def sample_visa_read_def)
  moreover have
    "fst (create_address (drawing 9 100 100) sample_address startup) = Inr sample_address_read"
    by (simp add: sample_creates)
  moreover have "uuid4 (drawing 9 100 100) = 9 \<and> AddressBase.id sample_address_read = 1"
    by (simp add: drawing_def sample_address_read_def)
  ultimately show ?thesis by blast
qed

theorem create_identifier_and_timestamps_witness:
  "UNIType (PersonBase.uni sample_person) \<and>
   sample_EmailStr (PersonBase.email sample_person) = Some (lit ''dy2530@columbia.edu'') \<and>
   create_person sample_EmailStr (drawing 7 100 100) sample_person startup =
     (Inr sample_person_read, startup\<lparr> databases.persons := [(7, sample_person_read)] \<rparr>) \<and>
   PersonRead.id sample_person_read = 7 \<and>
   PersonRead.created_at sample_person_read = 100 \<and>
   PersonRead.updated_at sample_person_read = 100 \<and>
   create_fee_details (drawing 7 100 100) sample_fee startup =
     (Inr sample_fee_read, startup\<lparr> databases.fee_details := [(7, sample_fee_read)] \<rparr>) \<and>
   FeeDetailsRead.id sample_fee_read = 7 \<and>
   create_visa_status (drawing 7 100 100) sample_visa startup =
     (Inr sample_visa_read, startup\<lparr> databases.visa_statuses := [(7, sample_visa_read)] \<rparr>) \<and>
   VisaStatusRead.id sample_visa_read = 7 \<and>
   AddressBase.id sample_address \<notin> fst ` set (databases.addresses startup) \<and>
   create_address (drawing 9 100 100) sample_address startup =
     (Inr sample_address_read, startup\<lparr> databases.addresses := [(1, sample_address_read)] \<rparr>) \<and>
   AddressBase.id sample_address_read = AddressBase.id sample_address \<and>
   AddressRead.updated_at sample_address_read = AddressRead.created_at sample_address_read \<and>
   map_of (databases.persons (startup\<lparr> databases.persons := [(7, sample_person_read)] \<rparr>))
     (uuid4 (drawing 7 100 100)) = Some sample_person_read \<and>
   map_of (databases.addresses
             (startup\<lparr> databases.addresses := [(1, sample_address_read)] \<rparr>))
     (AddressBase.id sample_address) = Some sample_address_read"
proof -
  note at_7 = create_identifier_and_timestamps [where EmailStr = sample_EmailStr
      and fac = "drawing 7 100 100" and person = sample_person and db = startup
      and n = "lit ''dy2530@columbia.edu''" and fee = sample_fee and visa = sample_visa
      and ?p1.0 = sample_person_read
      and ?db1.0 = "startup\<lparr> databases.persons := [(7, sample_person_read)] \<rparr>"]
  note at_9 = create_identifier_and_timestamps [where fac = "drawing 9 100 100"
      and db = startup and address = sample_address and ?a1.0 = sample_address_read
      and ?db4.0 = "startup\<lparr> databases.addresses := [(1, sample_address_read)] \<rparr>"]
  note returned = at_7 [THEN conjunct2, THEN conjunct1]
  note returned_address = at_9 [THEN conjunct2, THEN conjunct2, THEN conjunct2,
      THEN conjunct2, THEN conjunct2]
  note person = at_7 [THEN conjunct1]
  note fee = at_7 [THEN conjunct2, THEN conjunct2, THEN conjunct1]
  note visa = at_7 [THEN conjunct2, THEN conjunct2, THEN conjunct2, THEN conjunct1]
  note address = at_9 [THEN conjunct2, THEN conjunct2, THEN conjunct2, THEN conjunct2,
      THEN conjunct1]
  have hp: "UNIType (PersonBase.uni sample_person)"
    "sample_EmailStr (PersonBase.email sample_person) = Some (lit ''dy2530@columbia.edu'')"
    by (simp_all add: sample_person_def sample_uni sample_mail)
  have drawn: "uuid4 (drawing 7 100 100) = 7" "utcnow_created (drawing 7 100 100) = 100"
    "utcnow_updated (drawing 7 100 100) = 100"
    by (simp_all add: drawing_def)
  from person hp
  obtain p where p: "create_person sample_EmailStr (drawing 7 100 100) sample_person startup =
        (Inr p, startup\<lparr> databases.persons :=
                  dict_setitem (databases.persons startup) (uuid4 (drawing 7 100 100)) p \<rparr>)"
      "PersonRead.id p = uuid4 (drawing 7 100 100)"
      "PersonRead.created_at p = utcnow_created (drawing 7 100 100)"
      "PersonRead.updated_at p = utcnow_updated (drawing 7 100 100)"
    by blast
  have p_is: "p = sample_person_read"
    using p(1) by (simp add: sample_creates)
  have cp: "PersonRead.id sample_person_read = 7"
    "PersonRead.created_at sample_person_read = 100"
    "PersonRead.updated_at sample_person_read = 100"
    using p(2,3,4) unfolding p_is drawn by simp_all
  from fee
  obtain f where f: "create_fee_details (drawing 7 100 100) sample_fee startup =
        (Inr f, startup\<lparr> databases.fee_details :=
                  dict_setitem (databases.fee_details startup) (uuid4 (drawing 7 100 100)) f \<rparr>)"
      "FeeDetailsRead.id f = uuid4 (drawing 7 100 100)"
    by blast
  have f_is: "f = sample_fee_read"
    using f(1) by (simp add: sample_creates)
  have cf: "FeeDetailsRead.id sample_fee_read = 7"
    using f(2) unfolding f_is drawn by simp
  from visa
  obtain v where v: "create_visa_status (drawing 7 100 100) sample_visa startup =
        (Inr v, startup\<lparr> databases.visa_statuses :=
                  dict_setitem (databases.visa_statuses startup) (uuid4 (drawing 7 100 100)) v \<rparr>)"
      "VisaStatusRead.id v = uuid4 (drawing 7 100 100)"
    by blast
  have v_is: "v = sample_visa_read"
    using v(1) by (simp add: sample_creates)
  have cv: "VisaStatusRead.id sample_visa_read = 7"
    using v(2) unfolding v_is drawn by simp
  have new: "AddressBase.id sample_address \<notin> fst ` set (databases.addresses startup)"
    by (simp add: startup_def)
  from address new
  obtain a where a: "create_address (drawing 9 100 100) sample_address startup =
        (Inr a, startup\<lparr> databases.addresses :=
                  databases.addresses startup @ [(AddressBase.id sample_address, a)] \<rparr>)"
      "AddressBase.id a = AddressBase.id sample_address"
      "AddressRead.updated_at a = AddressRead.created_at a"
    by blast
  have a_is: "a = sample_address_read"
    using a(1) by (simp add: sample_creates)
  have ca: "AddressBase.id sample_address_read = AddressBase.id sample_address"
    "AddressRead.updated_at sample_address_read = AddressRead.created_at sample_address_read"
    using a(2,3) unfolding a_is by simp_all
  from returned sample_creates(1)
  have sp: "map_of (databases.persons
                     (startup\<lparr> databases.persons := [(7, sample_person_read)] \<rparr>))
      (uuid4 (drawing 7 100 100)) = Some sample_person_read"
    by blast
  from returned_address sample_creates(4)
  have sa: "map_of (databases.addresses
             (startup\<lparr> databases.addresses := [(1, sample_address_read)] \<rparr>))
      (AddressBase.id sample_address) = Some sample_address_read"
    by blast
  show ?thesis
    by (intro conjI hp sample_creates cp cf cv new ca sp sa)
qed

subsection \<open>The failures of the person endpoints\<close>




















text \<open>
  C5. \<^verbatim>\<open>create_address\<close> fails with the duplicate-identity failure (status 400)
  exactly when the identifier of the payload is already a key of the address dictionary,
  and then the dictionaries are unchanged. Otherwise it succeeds: the new record carries
  the payload's identifier and fields, is appended under that identifier, is returned,
  and a get of the identifier finds it.
\<close>

theorem create_address_duplicate_identity:
  "(fst (create_address fac address db) = Inl DuplicateIdentity) =
     (AddressBase.id address \<in> fst ` set (databases.addresses db)) \<and>
   (AddressBase.id address \<in> fst ` set (databases.addresses db) \<longrightarrow>
      snd (create_address fac address db) = db) \<and>
   (AddressBase.id address \<notin> fst ` set (databases.addresses db) \<longrightarrow>
      (\<exists>r. create_address fac address db =
             (Inr r, db\<lparr> databases.addresses :=
                        databases.addresses db @ [(AddressBase.id address, r)] \<rparr>) \<and>
           get_address (AddressBase.id address) (snd (create_address fac address db)) = Inr r \<and>
           AddressBase.id r = AddressBase.id address \<and>
           AddressBase.street r = AddressBase.street address \<and>
           AddressBase.city r = AddressBase.city address \<and>
           AddressBase.state r = AddressBase.state address \<and>
           AddressBase.postal_code r = AddressBase.postal_code address \<and>
           AddressBase.country r = AddressBase.country address))"
proof (cases "AddressBase.id address \<in> fst ` set (databases.addresses db)")
  case True
  then show ?thesis by (simp add: create_address_duplicate)
next
  case False
  have "map_of (databases.addresses db) (AddressBase.id address) = None"
    using False by (simp add: map_of_eq_None_iff)
  then show ?thesis
    using False by (simp add: create_address_new get_address_lookup map_add_def)
qed

theorem create_address_duplicate_identity_witness:
  "fst (create_address (drawing 9 200 201) sample_address sample_db) = Inl DuplicateIdentity \<and>
   snd (create_address (drawing 9 200 201) sample_address sample_db) = sample_db \<and>
   create_address (drawing 9 100 100) sample_address startup =
     (Inr sample_address_read,
      startup\<lparr> databases.addresses := [(1, sample_address_read)] \<rparr>) \<and>
   get_address 1 (snd (create_address (drawing 9 100 100) sample_address startup)) =
     Inr sample_address_read"
proof -
  have dup: "AddressBase.id sample_address \<in> fst ` set (databases.addresses sample_db)"
    by (simp add: sample_address_def sample_db_def)
  have new: "AddressBase.id sample_address \<notin> fst ` set (databases.addresses startup)"
    by (simp add: startup_def)
  from create_address_duplicate_identity [of "drawing 9 200 201" sample_address sample_db] dup
  have a: "fst (create_address (drawing 9 200 201) sample_address sample_db) =
             Inl DuplicateIdentity"
      "snd (create_address (drawing 9 200 201) sample_address sample_db) = sample_db"
    by simp_all
  from create_address_duplicate_identity [of "drawing 9 100 100" sample_address startup] new
  obtain r where r: "create_address (drawing 9 100 100) sample_address startup =
             (Inr r, startup\<lparr> databases.addresses :=
                        databases.addresses startup @ [(AddressBase.id sample_address, r)] \<rparr>)"
      "get_address (AddressBase.id sample_address)
         (snd (create_address (drawing 9 100 100) sample_address startup)) = Inr r"
    by blast
  have "create_address (drawing 9 100 100) sample_address startup =
     (Inr sample_address_read,
      startup\<lparr> databases.addresses := [(1, sample_address_read)] \<rparr>)"
    using new
    by (simp add: create_address_new sample_address_def sample_address_read_def drawing_def
        startup_def)
  then show ?thesis using a r by (simp add: sample_address_def)
qed

text \<open>
  C6. For each of the four resources, a get returns the record stored under the
  identifier when the identifier is a key of the dictionary and the not-found failure
  (status 404) when it is not; an update of an identifier that is not a key returns the
  not-found failure and leaves the dictionaries unchanged.
\<close>

theorem get_and_update_not_found:
  "get_address i db =
     (case map_of (databases.addresses db) i of None \<Rightarrow> Inl NotFound | Some r \<Rightarrow> Inr r) \<and>
   get_person i db =
     (case map_of (databases.persons db) i of None \<Rightarrow> Inl NotFound | Some r \<Rightarrow> Inr r) \<and>
   get_fee_details i db =
     (case map_of (databases.fee_details db) i of None \<Rightarrow> Inl NotFound | Some r \<Rightarrow> Inr r) \<and>
   get_visa_status i db =
     (case map_of (databases.visa_statuses db) i of None \<Rightarrow> Inl NotFound | Some r \<Rightarrow> Inr r) \<and>
   (i \<notin> fst ` set (databases.addresses db) \<longrightarrow>
      map_of (databases.addresses db) i = None \<and>
      update_address fac i address_update db = (Inl NotFound, db)) \<and>
   (i \<notin> fst ` set (databases.persons db) \<longrightarrow>
      map_of (databases.persons db) i = None \<and>
      update_person EmailStr fac i person_update db = (Inl NotFound, db)) \<and>
   (i \<notin> fst ` set (databases.fee_details db) \<longrightarrow>
      map_of (databases.fee_details db) i = None \<and>
      update_fee_details fac i fee_update db = (Inl NotFound, db)) \<and>
   (i \<notin> fst ` set (databases.visa_statuses db) \<longrightarrow>
      map_of (databases.visa_statuses db) i = None \<and>
      update_visa_status fac i visa_update db = (Inl NotFound, db)) \<and>
   (i \<in> fst ` set (databases.addresses db) \<longrightarrow>
      (\<exists>r. (i, r) \<in> set (databases.addresses db) \<and> get_address i db = Inr r)) \<and>
   (i \<in> fst ` set (databases.persons db) \<longrightarrow>
      (\<exists>r. (i, r) \<in> set (databases.persons db) \<and> get_person i db = Inr r)) \<and>
   (i \<in> fst ` set (databases.fee_details db) \<longrightarrow>
      (\<exists>r. (i, r) \<in> set (databases.fee_details db) \<and> get_fee_details i db = Inr r)) \<and>
   (i \<in> fst ` set (databases.visa_statuses db) \<longrightarrow>
      (\<exists>r. (i, r) \<in> set (databases.visa_statuses db) \<and> get_visa_status i db = Inr r))"
proof -
  have absent: "\<And>d :: (UUID, 'v) dict. i \<notin> fst ` set d \<Longrightarrow> map_of d i = None"
    by (simp add: map_of_eq_None_iff)
  have present: "\<And>d :: (UUID, 'v) dict. i \<in> fst ` set d \<Longrightarrow>
      \<exists>r. (i, r) \<in> set d \<and> map_of d i = Some r"
  proof -
    fix d :: "(UUID, 'v) dict"
    assume "i \<in> fst ` set d"
    then have "map_of d i \<noteq> None" by (simp add: map_of_eq_None_iff)
    then obtain r where "map_of d i = Some r" by blast
    then show "\<exists>r. (i, r) \<in> set d \<and> map_of d i = Some r"
      by (blast dest: map_of_SomeD)
  qed
  show ?thesis
    apply (intro conjI impI)
                   apply (rule get_address_lookup)
                  apply (rule get_person_lookup)
                 apply (rule get_fee_details_lookup)
                apply (rule get_visa_status_lookup)
               apply (erule absent)
              apply (simp add: update_address_lookup absent)
             apply (erule absent)
            apply (simp add: update_person_lookup absent)
           apply (erule absent)
          apply (simp add: update_fee_details_lookup absent)
         apply (erule absent)
        apply (simp add: update_visa_status_lookup absent)
       apply (drule present, auto simp: get_address_lookup)[1]
      apply (drule present, auto simp: get_person_lookup)[1]
     apply (drule present, auto simp: get_fee_details_lookup)[1]
    apply (drule present, auto simp: get_visa_status_lookup)[1]
    done
qed

theorem get_and_update_not_found_witness:
  "get_address 1 sample_db = Inr sample_address_read \<and>
   get_person 7 sample_db = Inr sample_person_read \<and>
   get_fee_details 7 sample_db = Inr sample_fee_read \<and>
   get_visa_status 7 sample_db = Inr sample_visa_read \<and>
   get_address 8 sample_db = Inl NotFound \<and>
   get_person 8 sample_db = Inl NotFound \<and>
   get_fee_details 8 sample_db = Inl NotFound \<and>
   get_visa_status 8 sample_db = Inl NotFound \<and>
   update_address (drawing 9 200 201) 8 no_address_update sample_db = (Inl NotFound, sample_db) \<and>
   update_person sample_EmailStr (drawing 9 200 201) 8 no_person_update sample_db =
     (Inl NotFound, sample_db) \<and>
   update_fee_details (drawing 9 200 201) 8 no_fee_update sample_db = (Inl NotFound, sample_db) \<and>
   update_visa_status (drawing 9 200 201) 8 no_visa_update sample_db =
     (Inl NotFound, sample_db)"
proof -
  have absent:
    "8 \<notin> fst ` set (databases.addresses sample_db)"
    "8 \<notin> fst ` set (databases.persons sample_db)"
    "8 \<notin> fst ` set (databases.fee_details sample_db)"
    "8 \<notin> fst ` set (databases.visa_statuses sample_db)"
    by (simp_all add: sample_db_def)
  show ?thesis
    using get_and_update_not_found [of 1 sample_db]
      get_and_update_not_found [of 7 sample_db]
      get_and_update_not_found [of 8 sample_db "drawing 9 200 201" no_address_update
        sample_EmailStr no_person_update no_fee_update no_visa_update]
      absent
    by (simp add: sample_db_lookups)
qed

text \<open>
  C1 at a failing input. The sample person and the sample address were created at the
  clock reading 100. An update made when the clock reads 200 and 201 returns them with
  \<^verbatim>\<open>updated_at\<close> still 100: the stored timestamps are passed to the constructor as
  keywords, so the default factory of \<^verbatim>\<open>updated_at\<close> is not called. This holds for
  the empty payload and for the payload that moves the address to Brooklyn.
\<close>

theorem update_leaves_updated_at:
  "utcnow_created later = 200 \<and> utcnow_updated later = 201 \<and>
   get_person 7 sample_db = Inr sample_person_read \<and>
   update_person sample_EmailStr later 7 no_person_update sample_db =
     (Inr sample_person_read, sample_db) \<and>
   PersonRead.updated_at sample_person_read = 100 \<and>
   update_address later 1 brooklyn_update sample_db =
     (Inr (sample_address_read\<lparr> AddressBase.city := lit ''Brooklyn'' \<rparr>),
      sample_db\<lparr> databases.addresses :=
                   [(1, sample_address_read\<lparr> AddressBase.city := lit ''Brooklyn'' \<rparr>)] \<rparr>) \<and>
   AddressRead.created_at (sample_address_read\<lparr> AddressBase.city := lit ''Brooklyn'' \<rparr>) = 100 \<and>
   AddressRead.updated_at (sample_address_read\<lparr> AddressBase.city := lit ''Brooklyn'' \<rparr>) = 100"
proof -
  have "utcnow_created later = 200 \<and> utcnow_updated later = 201"
    by (simp add: later_def drawing_def)
  moreover have "get_person 7 sample_db = Inr sample_person_read"
    by (simp add: get_person_lookup sample_db_lookups)
  moreover have "PersonRead.updated_at sample_person_read = 100"
    by (simp add: sample_person_read_def)
  moreover have
    "AddressRead.created_at (sample_address_read\<lparr> AddressBase.city := lit ''Brooklyn'' \<rparr>) = 100 \<and>
     AddressRead.updated_at (sample_address_read\<lparr> AddressBase.city := lit ''Brooklyn'' \<rparr>) = 100"
    by (simp add: sample_address_read_def)
  ultimately show ?thesis
    using sample_update_person_nothing sample_update_address by blast
qed

subsection \<open>Listings without filters and after a create\<close>

lemma list_addresses_all:
  "list_addresses None None None None None db = dict_values (databases.addresses db)"
  by (simp add: list_addresses_selected address_selected_def selected_def)

lemma list_persons_all:
  "list_persons None None None None None None None None db =
     dict_values (databases.persons db)"
  by (simp add: list_persons_kept selected_def selected_any_def)

lemma list_fee_details_all:
  "list_fee_details None None db = dict_values (databases.fee_details db)"
  by (simp add: list_fee_details_selected fee_details_selected_def selected_def)

lemma list_visa_statuses_all:
  "list_visa_statuses None db = dict_values (databases.visa_statuses db)"
  by (simp add: list_visa_statuses_selected visa_status_selected_def selected_def)

lemma list_addresses_append:
  "list_addresses street' city' state' postal_code' country'
       (db\<lparr> databases.addresses := databases.addresses db @ [(k, a)] \<rparr>) =
     list_addresses street' city' state' postal_code' country' db @
     filter (address_selected street' city' state' postal_code' country') [a]"
  by (simp add: list_addresses_selected dict_values_append)

lemma list_fee_details_append:
  "list_fee_details university_name' fee_paid'
       (db\<lparr> databases.fee_details := databases.fee_details db @ [(k, f)] \<rparr>) =
     list_fee_details university_name' fee_paid' db @
     filter (fee_details_selected university_name' fee_paid') [f]"
  by (simp add: list_fee_details_selected dict_values_append)

lemma list_visa_statuses_append:
  "list_visa_statuses visa_status'
       (db\<lparr> databases.visa_statuses := databases.visa_statuses db @ [(k, v)] \<rparr>) =
     list_visa_statuses visa_status' db @ filter (visa_status_selected visa_status') [v]"
  by (simp add: list_visa_statuses_selected dict_values_append)

text \<open>
  C9, as the code has it. For each of the four resources: a listing is the sequence of
  the dictionary's values, in the dictionary's order, restricted to the records that the
  filters select (for persons, when the filter on the date of birth is not the text
  \<^verbatim>\<open>None\<close>); a create under a key that is not yet present succeeds and appends the
  record at the end of the dictionary, so that a listing after it is the listing before
  it followed by the new record if the filters select it; a successful update replaces
  the record at the position it had, so the sequence of identifiers of the dictionary and
  of the listing without filters is unchanged; a create or update that fails leaves the
  dictionaries as they were. So two list requests with the same filters return the same
  sequence when no successful create or update lies between them.
\<close>

theorem listing_order:
  "list_addresses street' city' state' postal_code' country' db =
     filter (address_selected street' city' state' postal_code' country')
       (dict_values (databases.addresses db)) \<and>
   (birth_date' \<noteq> Some (lit ''None'') \<longrightarrow>
      list_persons uni' first_name' last_name' email' phone' birth_date' pcity' pcountry' db =
        filter (person_selected uni' first_name' last_name' email' phone' birth_date' pcity'
                  pcountry')
          (dict_values (databases.persons db))) \<and>
   list_fee_details university_name' fee_paid' db =
     filter (fee_details_selected university_name' fee_paid')
       (dict_values (databases.fee_details db)) \<and>
   list_visa_statuses visa_status' db =
     filter (visa_status_selected visa_status') (dict_values (databases.visa_statuses db)) \<and>
   (AddressBase.id address \<notin> fst ` set (databases.addresses db) \<longrightarrow>
      (\<exists>a. create_address fac address db =
              (Inr a, db\<lparr> databases.addresses :=
                            databases.addresses db @ [(AddressBase.id address, a)] \<rparr>) \<and>
            list_addresses street' city' state' postal_code' country'
                (snd (create_address fac address db)) =
              list_addresses street' city' state' postal_code' country' db @
              filter (address_selected street' city' state' postal_code' country') [a])) \<and>
   (UNIType (PersonBase.uni person) \<and> EmailStr (PersonBase.email person) = Some n \<and>
      uuid4 fac \<notin> fst ` set (databases.persons db) \<longrightarrow>
      (\<exists>p. create_person EmailStr fac person db =
              (Inr p, db\<lparr> databases.persons :=
                            databases.persons db @ [(uuid4 fac, p)] \<rparr>))) \<and>
   (uuid4 fac \<notin> fst ` set (databases.fee_details db) \<longrightarrow>
      (\<exists>f. create_fee_details fac fee db =
              (Inr f, db\<lparr> databases.fee_details :=
                            databases.fee_details db @ [(uuid4 fac, f)] \<rparr>) \<and>
            list_fee_details university_name' fee_paid' (snd (create_fee_details fac fee db)) =
              list_fee_details university_name' fee_paid' db @
              filter (fee_details_selected university_name' fee_paid') [f])) \<and>
   (uuid4 fac \<notin> fst ` set (databases.visa_statuses db) \<longrightarrow>
      (\<exists>v. create_visa_status fac visa db =
              (Inr v, db\<lparr> databases.visa_statuses :=
                            databases.visa_statuses db @ [(uuid4 fac, v)] \<rparr>) \<and>
            list_visa_statuses visa_status' (snd (create_visa_status fac visa db)) =
              list_visa_statuses visa_status' db @
              filter (visa_status_selected visa_status') [v])) \<and>
   (update_address fac i ua db = (Inr a', dba') \<longrightarrow>
      (\<exists>j<length (databases.addresses db).
         fst (databases.addresses db ! j) = i \<and>
         databases.addresses dba' = (databases.addresses db)[j := (i, a')]) \<and>
      map AddressBase.id (dict_values (databases.addresses dba')) =
        map AddressBase.id (dict_values (databases.addresses db)) \<and>
      map AddressBase.id (list_addresses None None None None None dba') =
        map AddressBase.id (list_addresses None None None None None db)) \<and>
   (update_person EmailStr fac i up db = (Inr p', dbp') \<longrightarrow>
      (\<exists>j<length (databases.persons db).
         fst (databases.persons db ! j) = i \<and>
         databases.persons dbp' = (databases.persons db)[j := (i, p')]) \<and>
      map PersonRead.id (dict_values (databases.persons dbp')) =
        map PersonRead.id (dict_values (databases.persons db)) \<and>
      map PersonRead.id (list_persons None None None None None None None None dbp') =
        map PersonRead.id (list_persons None None None None None None None None db)) \<and>
   (update_fee_details fac i uf db = (Inr f', dbf') \<longrightarrow>
      (\<exists>j<length (databases.fee_details db).
         fst (databases.fee_details db ! j) = i \<and>
         databases.fee_details dbf' = (databases.fee_details db)[j := (i, f')]) \<and>
      map FeeDetailsRead.id (dict_values (databases.fee_details dbf')) =
        map FeeDetailsRead.id (dict_values (databases.fee_details db)) \<and>
      map FeeDetailsRead.id (list_fee_details None None dbf') =
        map FeeDetailsRead.id (list_fee_details None None db)) \<and>
   (update_visa_status fac i uv db = (Inr v', dbv') \<longrightarrow>
      (\<exists>j<length (databases.visa_statuses db).
         fst (databases.visa_statuses db ! j) = i \<and>
         databases.visa_statuses dbv' = (databases.visa_statuses db)[j := (i, v')]) \<and>
      map VisaStatusRead.id (dict_values (databases.visa_statuses dbv')) =
        map VisaStatusRead.id (dict_values (databases.visa_statuses db)) \<and>
      map VisaStatusRead.id (list_visa_statuses None dbv') =
        map VisaStatusRead.id (list_visa_statuses None db)) \<and>
   (fst (create_address fac address db) = Inl e \<longrightarrow> snd (create_address fac address db) = db) \<and>
   (fst (create_person EmailStr fac person db) = Inl e \<longrightarrow>
      snd (create_person EmailStr fac person db) = db) \<and>
   (fst (update_address fac i ua db) = Inl e \<longrightarrow> snd (update_address fac i ua db) = db) \<and>
   (fst (update_person EmailStr fac i up db) = Inl e \<longrightarrow>
      snd (update_person EmailStr fac i up db) = db) \<and>
   (fst (update_fee_details fac i uf db) = Inl e \<longrightarrow>
      snd (update_fee_details fac i uf db) = db) \<and>
   (fst (update_visa_status fac i uv db) = Inl e \<longrightarrow>
      snd (update_visa_status fac i uv db) = db)"
proof -
  have l2: "birth_date' \<noteq> Some (lit ''None'') \<longrightarrow>
      list_persons uni' first_name' last_name' email' phone' birth_date' pcity' pcountry' db =
        filter (person_selected uni' first_name' last_name' email' phone' birth_date' pcity'
                  pcountry')
          (dict_values (databases.persons db))"
    using list_persons_selected by blast
  have c1: "\<exists>a. create_address fac address db =
              (Inr a, db\<lparr> databases.addresses :=
                            databases.addresses db @ [(AddressBase.id address, a)] \<rparr>) \<and>
            list_addresses street' city' state' postal_code' country'
                (snd (create_address fac address db)) =
              list_addresses street' city' state' postal_code' country' db @
              filter (address_selected street' city' state' postal_code' country') [a]"
    if new: "AddressBase.id address \<notin> fst ` set (databases.addresses db)"
    unfolding create_address_new [OF new] by (simp add: list_addresses_append)
  have c2: "\<exists>p. create_person EmailStr fac person db =
              (Inr p, db\<lparr> databases.persons :=
                            databases.persons db @ [(uuid4 fac, p)] \<rparr>)"
    if "UNIType (PersonBase.uni person)" "EmailStr (PersonBase.email person) = Some n"
      "uuid4 fac \<notin> fst ` set (databases.persons db)"
    using that by (simp add: create_person_valid dict_setitem_new)
  have c3: "\<exists>f. create_fee_details fac fee db =
              (Inr f, db\<lparr> databases.fee_details :=
                            databases.fee_details db @ [(uuid4 fac, f)] \<rparr>) \<and>
            list_fee_details university_name' fee_paid' (snd (create_fee_details fac fee db)) =
              list_fee_details university_name' fee_paid' db @
              filter (fee_details_selected university_name' fee_paid') [f]"
    if "uuid4 fac \<notin> fst ` set (databases.fee_details db)"
    using that
    by (simp add: create_fee_details_result dict_setitem_new list_fee_details_append)
  have c4: "\<exists>v. create_visa_status fac visa db =
              (Inr v, db\<lparr> databases.visa_statuses :=
                            databases.visa_statuses db @ [(uuid4 fac, v)] \<rparr>) \<and>
            list_visa_statuses visa_status' (snd (create_visa_status fac visa db)) =
              list_visa_statuses visa_status' db @
              filter (visa_status_selected visa_status') [v]"
    if "uuid4 fac \<notin> fst ` set (databases.visa_statuses db)"
    using that
    by (simp add: create_visa_status_result dict_setitem_new list_visa_statuses_append)
  have u1: "(\<exists>j<length (databases.addresses db).
         fst (databases.addresses db ! j) = i \<and>
         databases.addresses dba' = (databases.addresses db)[j := (i, a')]) \<and>
      map AddressBase.id (dict_values (databases.addresses dba')) =
        map AddressBase.id (dict_values (databases.addresses db)) \<and>
      map AddressBase.id (list_addresses None None None None None dba') =
        map AddressBase.id (list_addresses None None None None None db)"
    if upd: "update_address fac i ua db = (Inr a', dba')"
  proof -
    obtain a0 where a0: "map_of (databases.addresses db) i = Some a0"
      using update_found(1) [OF upd] by blast
    note r = update_address_InrD(6,9) [OF a0 upd]
    show ?thesis
      unfolding list_addresses_all
      using setitem_in_place(1,3) [OF a0, of AddressBase.id a'] r by simp
  qed
  have u2: "(\<exists>j<length (databases.persons db).
         fst (databases.persons db ! j) = i \<and>
         databases.persons dbp' = (databases.persons db)[j := (i, p')]) \<and>
      map PersonRead.id (dict_values (databases.persons dbp')) =
        map PersonRead.id (dict_values (databases.persons db)) \<and>
      map PersonRead.id (list_persons None None None None None None None None dbp') =
        map PersonRead.id (list_persons None None None None None None None None db)"
    if upd: "update_person EmailStr fac i up db = (Inr p', dbp')"
  proof -
    obtain p0 where p0: "map_of (databases.persons db) i = Some p0"
      using update_found(2) [OF upd] by blast
    note r = update_person_InrD(8,11) [OF p0 upd]
    show ?thesis
      unfolding list_persons_all
      using setitem_in_place(1,3) [OF p0, of PersonRead.id p'] r by simp
  qed
  have u3: "(\<exists>j<length (databases.fee_details db).
         fst (databases.fee_details db ! j) = i \<and>
         databases.fee_details dbf' = (databases.fee_details db)[j := (i, f')]) \<and>
      map FeeDetailsRead.id (dict_values (databases.fee_details dbf')) =
        map FeeDetailsRead.id (dict_values (databases.fee_details db)) \<and>
      map FeeDetailsRead.id (list_fee_details None None dbf') =
        map FeeDetailsRead.id (list_fee_details None None db)"
    if upd: "update_fee_details fac i uf db = (Inr f', dbf')"
  proof -
    obtain f0 where f0: "map_of (databases.fee_details db) i = Some f0"
      using update_found(3) [OF upd] by blast
    note r = update_fee_details_InrD(4,7) [OF f0 upd]
    show ?thesis
      unfolding list_fee_details_all
      using setitem_in_place(1,3) [OF f0, of FeeDetailsRead.id f'] r by simp
  qed
  have u4: "(\<exists>j<length (databases.visa_statuses db).
         fst (databases.visa_statuses db ! j) = i \<and>
         databases.visa_statuses dbv' = (databases.visa_statuses db)[j := (i, v')]) \<and>
      map VisaStatusRead.id (dict_values (databases.visa_statuses dbv')) =
        map VisaStatusRead.id (dict_values (databases.visa_statuses db)) \<and>
      map VisaStatusRead.id (list_visa_statuses None dbv') =
        map VisaStatusRead.id (list_visa_statuses None db)"
    if upd: "update_visa_status fac i uv db = (Inr v', dbv')"
  proof -
    obtain v0 where v0: "map_of (databases.visa_statuses db) i = Some v0"
      using update_found(4) [OF upd] by blast
    note r = update_visa_status_InrD(2,5) [OF v0 upd]
    show ?thesis
      unfolding list_visa_statuses_all
      using setitem_in_place(1,3) [OF v0, of VisaStatusRead.id v'] r by simp
  qed
  have f1: "snd (create_address fac address db) = db"
    if "fst (create_address fac address db) = Inl e"
    using that create_address_cases [of fac address db e "snd (create_address fac address db)"]
    by (metis prod.collapse)
  have f2: "snd (create_person EmailStr fac person db) = db"
    if "fst (create_person EmailStr fac person db) = Inl e"
    using that create_person_cases [of EmailStr fac person db e
        "snd (create_person EmailStr fac person db)"]
    by (metis prod.collapse)
  have f3: "snd (update_address fac i ua db) = db"
    if "fst (update_address fac i ua db) = Inl e"
    using that update_address_cases [of fac i ua db e "snd (update_address fac i ua db)"]
    by (metis prod.collapse)
  have f4: "snd (update_person EmailStr fac i up db) = db"
    if "fst (update_person EmailStr fac i up db) = Inl e"
    using that update_person_cases [of EmailStr fac i up db e
        "snd (update_person EmailStr fac i up db)"]
    by (metis prod.collapse)
  have f5: "snd (update_fee_details fac i uf db) = db"
    if "fst (update_fee_details fac i uf db) = Inl e"
    using that update_fee_details_cases [of fac i uf db e "snd (update_fee_details fac i uf db)"]
    by (metis prod.collapse)
  have f6: "snd (update_visa_status fac i uv db) = db"
    if "fst (update_visa_status fac i uv db) = Inl e"
    using that update_visa_status_cases [of fac i uv db e
        "snd (update_visa_status fac i uv db)"]
    by (metis prod.collapse)
  show ?thesis
    apply (intro conjI)
                     apply (rule list_addresses_selected)
                    apply (rule l2)
                   apply (rule list_fee_details_selected)
                  apply (rule list_visa_statuses_selected)
    using c1 apply blast
    using c2 apply blast
    using c3 apply blast
    using c4 apply blast
    using u1 apply blast
    using u2 apply blast
    using u3 apply blast
    using u4 apply blast
    using f1 apply blast
    using f2 apply blast
    using f3 apply blast
    using f4 apply blast
    using f5 apply blast
    using f6 apply blast
    done
qed

subsection \<open>Two addresses\<close>

lemma two_addresses_lookups:
  "map_of (databases.addresses two_addresses_db) 1 = Some sample_address_read"
  "map_of (databases.addresses two_addresses_db) 0 = Some second_address_read"
  "databases.addresses two_addresses_db = [(1, sample_address_read), (0, second_address_read)]"
  by (simp_all add: two_addresses_db_def)

lemma sample_create_second:
  "create_address (drawing 9 150 150) second_address sample_db =
     (Inr second_address_read, two_addresses_db)"
proof -
  have "AddressBase.id second_address \<notin> fst ` set (databases.addresses sample_db)"
    by (simp add: second_address_def sample_db_def)
  then show ?thesis
    by (simp add: create_address_new)
      (simp add: second_address_def second_address_read_def drawing_def two_addresses_db_def
        sample_db_def)
qed

lemma sample_update_first_of_two:
  "update_address later 1 brooklyn_update two_addresses_db =
     (Inr (sample_address_read\<lparr> AddressBase.city := lit ''Brooklyn'' \<rparr>),
      two_addresses_db\<lparr> databases.addresses := [(1, sample_address_read\<lparr> AddressBase.city := lit ''Brooklyn'' \<rparr>), (0, second_address_read)] \<rparr>)"
  by (simp add: update_address_lookup two_addresses_lookups brooklyn_update_def
      no_address_update_def dict_update_def AddressRead_init_def default_factory_def
      sample_address_read_def)

lemma sample_cities:
  "AddressBase.city sample_address_read = lit ''New York''"
  "AddressBase.city second_address_read = lit ''Boston''"
  "AddressBase.city (sample_address_read\<lparr> AddressBase.city := lit ''Brooklyn'' \<rparr>) = lit ''Brooklyn''"
  "lit ''New York'' \<noteq> lit ''Boston''" "lit ''Brooklyn'' \<noteq> lit ''New York''"
  "lit ''Boston'' \<noteq> lit ''New York''"
  by (simp_all add: sample_address_read_def second_address_read_def lit_eq_iff)

theorem listing_order_witness:
  "AddressBase.id second_address \<notin> fst ` set (databases.addresses sample_db) \<and>
   create_address (drawing 9 150 150) second_address sample_db =
     (Inr second_address_read, two_addresses_db) \<and>
   list_addresses None None None None None sample_db = [sample_address_read] \<and>
   list_addresses None None None None None two_addresses_db =
     [sample_address_read, second_address_read] \<and>
   AddressBase.id sample_address_read = 1 \<and> AddressBase.id second_address_read = 0 \<and>
   list_addresses None (Some (lit ''Boston'')) None None None two_addresses_db =
     [second_address_read] \<and>
   update_address later 1 brooklyn_update two_addresses_db =
     (Inr (sample_address_read\<lparr> AddressBase.city := lit ''Brooklyn'' \<rparr>),
      two_addresses_db\<lparr> databases.addresses := [(1, sample_address_read\<lparr> AddressBase.city := lit ''Brooklyn'' \<rparr>), (0, second_address_read)] \<rparr>) \<and>
   list_addresses None None None None None
       (two_addresses_db\<lparr> databases.addresses := [(1, sample_address_read\<lparr> AddressBase.city := lit ''Brooklyn'' \<rparr>), (0, second_address_read)] \<rparr>) =
     [sample_address_read\<lparr> AddressBase.city := lit ''Brooklyn'' \<rparr>, second_address_read] \<and>
   map AddressBase.id
     (list_addresses None None None None None
        (two_addresses_db\<lparr> databases.addresses := [(1, sample_address_read\<lparr> AddressBase.city := lit ''Brooklyn'' \<rparr>), (0, second_address_read)] \<rparr>)) =
     map AddressBase.id (list_addresses None None None None None two_addresses_db) \<and>
   None \<noteq> Some (lit ''None'') \<and>
   list_persons None None None None None None None None sample_db = [sample_person_read] \<and>
   UNIType (PersonBase.uni sample_person) \<and>
   sample_EmailStr (PersonBase.email sample_person) = Some (lit ''dy2530@columbia.edu'') \<and>
   uuid4 (drawing 7 100 100) \<notin> fst ` set (databases.persons startup) \<and>
   create_person sample_EmailStr (drawing 7 100 100) sample_person startup =
     (Inr sample_person_read, startup\<lparr> databases.persons := [(7, sample_person_read)] \<rparr>) \<and>
   uuid4 (drawing 7 100 100) \<notin> fst ` set (databases.fee_details startup) \<and>
   create_fee_details (drawing 7 100 100) sample_fee startup =
     (Inr sample_fee_read, startup\<lparr> databases.fee_details := [(7, sample_fee_read)] \<rparr>) \<and>
   list_fee_details None None (startup\<lparr> databases.fee_details := [(7, sample_fee_read)] \<rparr>) =
     list_fee_details None None startup @ [sample_fee_read] \<and>
   uuid4 (drawing 7 100 100) \<notin> fst ` set (databases.visa_statuses startup) \<and>
   create_visa_status (drawing 7 100 100) sample_visa startup =
     (Inr sample_visa_read, startup\<lparr> databases.visa_statuses := [(7, sample_visa_read)] \<rparr>) \<and>
   list_visa_statuses None
       (startup\<lparr> databases.visa_statuses := [(7, sample_visa_read)] \<rparr>) =
     list_visa_statuses None startup @ [sample_visa_read] \<and>
   update_person sample_EmailStr later 7 phone_update sample_db =
     (Inr (sample_person_read\<lparr> PersonBase.phone := Some (lit ''+1-212-555-0100'') \<rparr>),
      sample_db\<lparr> databases.persons :=
                   [(7, sample_person_read\<lparr> PersonBase.phone := Some (lit ''+1-212-555-0100'') \<rparr>)] \<rparr>) \<and>
   map PersonRead.id
     (list_persons None None None None None None None None
        (sample_db\<lparr> databases.persons :=
           [(7, sample_person_read\<lparr> PersonBase.phone := Some (lit ''+1-212-555-0100'') \<rparr>)] \<rparr>)) =
     map PersonRead.id (list_persons None None None None None None None None sample_db) \<and>
   update_fee_details later 7 credits_update sample_db =
     (Inr (sample_fee_read\<lparr> FeeDetailsBase.number_of_credits := 36 \<rparr>),
      sample_db\<lparr> databases.fee_details :=
                   [(7, sample_fee_read\<lparr> FeeDetailsBase.number_of_credits := 36 \<rparr>)] \<rparr>) \<and>
   map FeeDetailsRead.id
     (list_fee_details None None
        (sample_db\<lparr> databases.fee_details :=
           [(7, sample_fee_read\<lparr> FeeDetailsBase.number_of_credits := 36 \<rparr>)] \<rparr>)) =
     map FeeDetailsRead.id (list_fee_details None None sample_db) \<and>
   update_visa_status later 7 opt_update sample_db =
     (Inr (sample_visa_read\<lparr> VisaStatusBase.visa_status := lit ''OPT'' \<rparr>),
      sample_db\<lparr> databases.visa_statuses :=
                   [(7, sample_visa_read\<lparr> VisaStatusBase.visa_status := lit ''OPT'' \<rparr>)] \<rparr>) \<and>
   map VisaStatusRead.id
     (list_visa_statuses None
        (sample_db\<lparr> databases.visa_statuses :=
           [(7, sample_visa_read\<lparr> VisaStatusBase.visa_status := lit ''OPT'' \<rparr>)] \<rparr>)) =
     map VisaStatusRead.id (list_visa_statuses None sample_db) \<and>
   fst (create_address later sample_address sample_db) = Inl DuplicateIdentity \<and>
   snd (create_address later sample_address sample_db) = sample_db \<and>
   fst (create_person sample_EmailStr later (sample_person\<lparr> PersonBase.uni := lit ''AB123'' \<rparr>)
          sample_db) = Inl ValidationError \<and>
   snd (create_person sample_EmailStr later (sample_person\<lparr> PersonBase.uni := lit ''AB123'' \<rparr>)
          sample_db) = sample_db \<and>
   fst (update_address later 8 brooklyn_update sample_db) = Inl NotFound \<and>
   snd (update_address later 8 brooklyn_update sample_db) = sample_db \<and>
   fst (update_person sample_EmailStr later 8 phone_update sample_db) = Inl NotFound \<and>
   snd (update_person sample_EmailStr later 8 phone_update sample_db) = sample_db \<and>
   fst (update_fee_details later 8 credits_update sample_db) = Inl NotFound \<and>
   snd (update_fee_details later 8 credits_update sample_db) = sample_db \<and>
   fst (update_visa_status later 8 opt_update sample_db) = Inl NotFound \<and>
   snd (update_visa_status later 8 opt_update sample_db) = sample_db"
proof -
  note all_one = listing_order [where db = sample_db and street' = None and city' = None
      and state' = None and postal_code' = None and country' = None
      and uni' = None and first_name' = None and last_name' = None and email' = None
      and phone' = None and birth_date' = None and pcity' = None and pcountry' = None]
  note all_two = listing_order [where db = two_addresses_db and street' = None
      and city' = None and state' = None and postal_code' = None and country' = None]
  note boston = listing_order [where db = two_addresses_db and street' = None
      and city' = "Some (lit ''Boston'')" and state' = None and postal_code' = None
      and country' = None]
  note all_after = listing_order [where
      db = "two_addresses_db\<lparr> databases.addresses := [(1, sample_address_read\<lparr> AddressBase.city := lit ''Brooklyn'' \<rparr>), (0, second_address_read)] \<rparr>"
      and street' = None and city' = None and state' = None and postal_code' = None
      and country' = None]
  note second = listing_order [where db = sample_db and fac = "drawing 9 150 150"
      and address = second_address and street' = None and city' = None and state' = None
      and postal_code' = None and country' = None]
  note first = listing_order [where db = startup and fac = "drawing 7 100 100"
      and EmailStr = sample_EmailStr and person = sample_person
      and n = "lit ''dy2530@columbia.edu''" and fee = sample_fee and visa = sample_visa
      and university_name' = None and fee_paid' = None and visa_status' = None]
  note moved = listing_order [where db = two_addresses_db and fac = later and i = 1
      and ua = brooklyn_update
      and a' = "sample_address_read\<lparr> AddressBase.city := lit ''Brooklyn'' \<rparr>"
      and dba' = "two_addresses_db\<lparr> databases.addresses := [(1, sample_address_read\<lparr> AddressBase.city := lit ''Brooklyn'' \<rparr>), (0, second_address_read)] \<rparr>"]
  note changed = listing_order [where db = sample_db and fac = later and i = 7
      and EmailStr = sample_EmailStr and up = phone_update
      and p' = "sample_person_read\<lparr> PersonBase.phone := Some (lit ''+1-212-555-0100'') \<rparr>"
      and dbp' = "sample_db\<lparr> databases.persons :=
         [(7, sample_person_read\<lparr> PersonBase.phone := Some (lit ''+1-212-555-0100'') \<rparr>)] \<rparr>"
      and uf = credits_update
      and f' = "sample_fee_read\<lparr> FeeDetailsBase.number_of_credits := 36 \<rparr>"
      and dbf' = "sample_db\<lparr> databases.fee_details :=
         [(7, sample_fee_read\<lparr> FeeDetailsBase.number_of_credits := 36 \<rparr>)] \<rparr>"
      and uv = opt_update
      and v' = "sample_visa_read\<lparr> VisaStatusBase.visa_status := lit ''OPT'' \<rparr>"
      and dbv' = "sample_db\<lparr> databases.visa_statuses :=
         [(7, sample_visa_read\<lparr> VisaStatusBase.visa_status := lit ''OPT'' \<rparr>)] \<rparr>"]
  note duplicate = listing_order [where db = sample_db and fac = later
      and address = sample_address and e = DuplicateIdentity]
  note invalid = listing_order [where db = sample_db and fac = later
      and EmailStr = sample_EmailStr
      and person = "sample_person\<lparr> PersonBase.uni := lit ''AB123'' \<rparr>" and e = ValidationError]
  note absent = listing_order [where db = sample_db and fac = later
      and EmailStr = sample_EmailStr and i = 8 and ua = brooklyn_update and up = phone_update
      and uf = credits_update and uv = opt_update and e = NotFound]
  have sel_all: "address_selected None None None None None = (\<lambda>a. True)"
    by (rule ext) (simp add: address_selected_def selected_def)
  have new: "AddressBase.id second_address \<notin> fst ` set (databases.addresses sample_db)"
    by (simp add: second_address_def sample_db_def)
  have ids: "AddressBase.id sample_address_read = 1" "AddressBase.id second_address_read = 0"
    by (simp_all add: sample_address_read_def second_address_read_def)
  from all_one [THEN conjunct1]
  have l1: "list_addresses None None None None None sample_db = [sample_address_read]"
    by (simp add: sel_all dict_values_def sample_db_def)
  from all_two [THEN conjunct1]
  have l2: "list_addresses None None None None None two_addresses_db =
      [sample_address_read, second_address_read]"
    by (simp add: sel_all dict_values_def two_addresses_lookups)
  from boston [THEN conjunct1]
  have l3: "list_addresses None (Some (lit ''Boston'')) None None None two_addresses_db =
      [second_address_read]"
    by (simp add: address_selected_def selected_def dict_values_def two_addresses_lookups
        sample_cities)
  from all_after [THEN conjunct1]
  have l4: "list_addresses None None None None None
       (two_addresses_db\<lparr> databases.addresses := [(1, sample_address_read\<lparr> AddressBase.city := lit ''Brooklyn'' \<rparr>), (0, second_address_read)] \<rparr>) =
     [sample_address_read\<lparr> AddressBase.city := lit ''Brooklyn'' \<rparr>, second_address_read]"
    by (simp add: sel_all dict_values_def)
  from moved [THEN conjunct2, THEN conjunct2, THEN conjunct2, THEN conjunct2, THEN conjunct2, THEN conjunct2, THEN conjunct2, THEN conjunct2, THEN conjunct1] sample_update_first_of_two
  have l5: "map AddressBase.id
     (list_addresses None None None None None
        (two_addresses_db\<lparr> databases.addresses := [(1, sample_address_read\<lparr> AddressBase.city := lit ''Brooklyn'' \<rparr>), (0, second_address_read)] \<rparr>)) =
     map AddressBase.id (list_addresses None None None None None two_addresses_db)"
    by blast
  have nb: "(None :: str option) \<noteq> Some (lit ''None'')"
    by simp
  from all_one [THEN conjunct2, THEN conjunct1] nb
  have "list_persons None None None None None None None None sample_db =
      filter (person_selected None None None None None None None None)
        (dict_values (databases.persons sample_db))"
    by blast
  then have l6: "list_persons None None None None None None None None sample_db =
      [sample_person_read]"
    by (simp add: person_selected_def selected_def selected_date_def selected_any_def
        dict_values_def sample_db_def)
  have hp: "UNIType (PersonBase.uni sample_person)"
    "sample_EmailStr (PersonBase.email sample_person) = Some (lit ''dy2530@columbia.edu'')"
    by (simp_all add: sample_person_def sample_uni sample_mail)
  have fresh: "uuid4 (drawing 7 100 100) \<notin> fst ` set (databases.persons startup)"
    "uuid4 (drawing 7 100 100) \<notin> fst ` set (databases.fee_details startup)"
    "uuid4 (drawing 7 100 100) \<notin> fst ` set (databases.visa_statuses startup)"
    by (simp_all add: startup_def)
  from first [THEN conjunct2, THEN conjunct2, THEN conjunct2, THEN conjunct2, THEN conjunct2, THEN conjunct2, THEN conjunct1] fresh(2)
  obtain f where f: "create_fee_details (drawing 7 100 100) sample_fee startup =
        (Inr f, startup\<lparr> databases.fee_details :=
           databases.fee_details startup @ [(uuid4 (drawing 7 100 100), f)] \<rparr>)"
      "list_fee_details None None (snd (create_fee_details (drawing 7 100 100) sample_fee
         startup)) =
       list_fee_details None None startup @ filter (fee_details_selected None None) [f]"
    by blast
  have f_is: "f = sample_fee_read"
    using f(1) by (simp add: sample_creates)
  have l7: "list_fee_details None None
       (startup\<lparr> databases.fee_details := [(7, sample_fee_read)] \<rparr>) =
     list_fee_details None None startup @ [sample_fee_read]"
    using f(2) unfolding f_is
    by (simp add: sample_creates fee_details_selected_def selected_def)
  from first [THEN conjunct2, THEN conjunct2, THEN conjunct2, THEN conjunct2, THEN conjunct2, THEN conjunct2, THEN conjunct2, THEN conjunct1] fresh(3)
  obtain v where v: "create_visa_status (drawing 7 100 100) sample_visa startup =
        (Inr v, startup\<lparr> databases.visa_statuses :=
           databases.visa_statuses startup @ [(uuid4 (drawing 7 100 100), v)] \<rparr>)"
      "list_visa_statuses None (snd (create_visa_status (drawing 7 100 100) sample_visa
         startup)) =
       list_visa_statuses None startup @ filter (visa_status_selected None) [v]"
    by blast
  have v_is: "v = sample_visa_read"
    using v(1) by (simp add: sample_creates)
  have l8: "list_visa_statuses None
       (startup\<lparr> databases.visa_statuses := [(7, sample_visa_read)] \<rparr>) =
     list_visa_statuses None startup @ [sample_visa_read]"
    using v(2) unfolding v_is
    by (simp add: sample_creates visa_status_selected_def selected_def)
  from changed [THEN conjunct2, THEN conjunct2, THEN conjunct2, THEN conjunct2, THEN conjunct2, THEN conjunct2, THEN conjunct2, THEN conjunct2, THEN conjunct2, THEN conjunct1] sample_update_person
  have up: "map PersonRead.id
     (list_persons None None None None None None None None
        (sample_db\<lparr> databases.persons :=
           [(7, sample_person_read\<lparr> PersonBase.phone := Some (lit ''+1-212-555-0100'') \<rparr>)] \<rparr>)) =
     map PersonRead.id (list_persons None None None None None None None None sample_db)"
    by blast
  from changed [THEN conjunct2, THEN conjunct2, THEN conjunct2, THEN conjunct2, THEN conjunct2, THEN conjunct2, THEN conjunct2, THEN conjunct2, THEN conjunct2, THEN conjunct2, THEN conjunct1] sample_update_fee_details
  have uf: "map FeeDetailsRead.id
     (list_fee_details None None
        (sample_db\<lparr> databases.fee_details :=
           [(7, sample_fee_read\<lparr> FeeDetailsBase.number_of_credits := 36 \<rparr>)] \<rparr>)) =
     map FeeDetailsRead.id (list_fee_details None None sample_db)"
    by blast
  from changed [THEN conjunct2, THEN conjunct2, THEN conjunct2, THEN conjunct2, THEN conjunct2, THEN conjunct2, THEN conjunct2, THEN conjunct2, THEN conjunct2, THEN conjunct2, THEN conjunct2, THEN conjunct1] sample_update_visa_status
  have uv: "map VisaStatusRead.id
     (list_visa_statuses None
        (sample_db\<lparr> databases.visa_statuses :=
           [(7, sample_visa_read\<lparr> VisaStatusBase.visa_status := lit ''OPT'' \<rparr>)] \<rparr>)) =
     map VisaStatusRead.id (list_visa_statuses None sample_db)"
    by blast
  have fails:
    "fst (create_address later sample_address sample_db) = Inl DuplicateIdentity"
    "fst (create_person sample_EmailStr later (sample_person\<lparr> PersonBase.uni := lit ''AB123'' \<rparr>)
          sample_db) = Inl ValidationError"
    "fst (update_address later 8 brooklyn_update sample_db) = Inl NotFound"
    "fst (update_person sample_EmailStr later 8 phone_update sample_db) = Inl NotFound"
    "fst (update_fee_details later 8 credits_update sample_db) = Inl NotFound"
    "fst (update_visa_status later 8 opt_update sample_db) = Inl NotFound"
    by (simp_all add: sample_failures)
  from duplicate [THEN conjunct2, THEN conjunct2, THEN conjunct2, THEN conjunct2, THEN conjunct2, THEN conjunct2, THEN conjunct2, THEN conjunct2, THEN conjunct2, THEN conjunct2, THEN conjunct2, THEN conjunct2, THEN conjunct1] fails(1)
  have k1: "snd (create_address later sample_address sample_db) = sample_db"
    by blast
  from invalid [THEN conjunct2, THEN conjunct2, THEN conjunct2, THEN conjunct2, THEN conjunct2, THEN conjunct2, THEN conjunct2, THEN conjunct2, THEN conjunct2, THEN conjunct2, THEN conjunct2, THEN conjunct2, THEN conjunct2, THEN conjunct1] fails(2)
  have k2: "snd (create_person sample_EmailStr later
      (sample_person\<lparr> PersonBase.uni := lit ''AB123'' \<rparr>) sample_db) = sample_db"
    by blast
  from absent [THEN conjunct2, THEN conjunct2, THEN conjunct2, THEN conjunct2, THEN conjunct2, THEN conjunct2, THEN conjunct2, THEN conjunct2, THEN conjunct2, THEN conjunct2, THEN conjunct2, THEN conjunct2, THEN conjunct2, THEN conjunct2, THEN conjunct1] fails(3)
  have k3: "snd (update_address later 8 brooklyn_update sample_db) = sample_db"
    by blast
  from absent [THEN conjunct2, THEN conjunct2, THEN conjunct2, THEN conjunct2, THEN conjunct2, THEN conjunct2, THEN conjunct2, THEN conjunct2, THEN conjunct2, THEN conjunct2, THEN conjunct2, THEN conjunct2, THEN conjunct2, THEN conjunct2, THEN conjunct2, THEN conjunct1] fails(4)
  have k4: "snd (update_person sample_EmailStr later 8 phone_update sample_db) = sample_db"
    by blast
  from absent [THEN conjunct2, THEN conjunct2, THEN conjunct2, THEN conjunct2, THEN conjunct2, THEN conjunct2, THEN conjunct2, THEN conjunct2, THEN conjunct2, THEN conjunct2, THEN conjunct2, THEN conjunct2, THEN conjunct2, THEN conjunct2, THEN conjunct2, THEN conjunct2, THEN conjunct1] fails(5)
  have k5: "snd (update_fee_details later 8 credits_update sample_db) = sample_db"
    by blast
  from absent [THEN conjunct2, THEN conjunct2, THEN conjunct2, THEN conjunct2, THEN conjunct2, THEN conjunct2, THEN conjunct2, THEN conjunct2, THEN conjunct2, THEN conjunct2, THEN conjunct2, THEN conjunct2, THEN conjunct2, THEN conjunct2, THEN conjunct2, THEN conjunct2, THEN conjunct2] fails(6)
  have k6: "snd (update_visa_status later 8 opt_update sample_db) = sample_db"
    by blast
  from second [THEN conjunct2, THEN conjunct2, THEN conjunct2, THEN conjunct2, THEN conjunct1] new
  obtain a where a: "create_address (drawing 9 150 150) second_address sample_db =
        (Inr a, sample_db\<lparr> databases.addresses :=
           databases.addresses sample_db @ [(AddressBase.id second_address, a)] \<rparr>)"
    by blast
  have created: "create_address (drawing 9 150 150) second_address sample_db =
     (Inr second_address_read, two_addresses_db)"
    using a by (simp add: sample_create_second)
  from first [THEN conjunct2, THEN conjunct2, THEN conjunct2, THEN conjunct2, THEN conjunct2, THEN conjunct1] hp fresh(1)
  obtain p where p: "create_person sample_EmailStr (drawing 7 100 100) sample_person startup =
        (Inr p, startup\<lparr> databases.persons :=
           databases.persons startup @ [(uuid4 (drawing 7 100 100), p)] \<rparr>)"
    by blast
  have created_person:
    "create_person sample_EmailStr (drawing 7 100 100) sample_person startup =
     (Inr sample_person_read, startup\<lparr> databases.persons := [(7, sample_person_read)] \<rparr>)"
    using p by (simp add: sample_creates)
  show ?thesis
    by (intro conjI new created l1 l2 ids l3 sample_update_first_of_two l4 l5 nb l6 hp fresh
        created_person sample_creates(2) l7 sample_creates(3) l8 sample_update_person up
        sample_update_fee_details uf sample_update_visa_status uv fails k1 k2 k3 k4 k5 k6)
qed

text \<open>
  Against C9 as stated: with no create in between, the listing of the addresses in New
  York is the sample address before the update that moves it to Brooklyn, and empty
  after it.
\<close>

theorem listing_changes_without_create:
  "list_addresses None (Some (lit ''New York'')) None None None sample_db =
     [sample_address_read] \<and>
   update_address later 1 brooklyn_update sample_db =
     (Inr (sample_address_read\<lparr> AddressBase.city := lit ''Brooklyn'' \<rparr>),
      sample_db\<lparr> databases.addresses :=
                   [(1, sample_address_read\<lparr> AddressBase.city := lit ''Brooklyn'' \<rparr>)] \<rparr>) \<and>
   list_addresses None (Some (lit ''New York'')) None None None
     (sample_db\<lparr> databases.addresses :=
                   [(1, sample_address_read\<lparr> AddressBase.city := lit ''Brooklyn'' \<rparr>)] \<rparr>) = []"
proof -
  have "list_addresses None (Some (lit ''New York'')) None None None sample_db =
      [sample_address_read]"
    by (simp add: list_addresses_selected address_selected_def selected_def dict_values_def
        sample_db_def sample_cities)
  moreover have "list_addresses None (Some (lit ''New York'')) None None None
     (sample_db\<lparr> databases.addresses :=
                   [(1, sample_address_read\<lparr> AddressBase.city := lit ''Brooklyn'' \<rparr>)] \<rparr>) = []"
    by (simp add: list_addresses_selected address_selected_def selected_def dict_values_def
        sample_cities)
  ultimately show ?thesis using sample_update_address by blast
qed

end
